(* ===== verification/Prelude.thy ===== *)
theory Prelude
  imports
    Complex_Main
    "HOL-Library.List_Lexorder"
    "HOL-Library.Char_ord"
    "HOL-Library.Product_Lexorder"
    "HOL-Library.Multiset"
begin

text \<open>
  Shared vocabulary of the development: the types that name the columns of the
  dashboard's tables, the invariant of a grouped result (keys strictly ascending, as
  pandas' \<open>groupby(sort=True)\<close> emits them), and generic lemmas on lists, sums and
  association lists that the component theories use through the collections
  \<open>frame_simps\<close> (rewriting facts about grouped tables) and \<open>view_simps\<close> (facts the
  view theories unfold).
\<close>

named_theorems frame_simps "rewrite rules for grouped and sorted tables"
named_theorems view_simps "facts unfolded by the proofs about the derived views"

text \<open>
  Python floats are modelled as exact rationals: the sums, ranks and scores of the
  dashboard are then computed without rounding (rounding is not modelled).
  Identifiers and labels are strings; pandas compares strings by code point, which is
  the lexicographic order of \<open>List_Lexorder\<close> over \<open>Char_ord\<close>.
\<close>

type_synonym money = rat
type_synonym ident = string

text \<open>
  The exceptions the script can raise on its data: pandas' \<open>ValueError\<close> (a string
  that does not parse as a date, a sequence of the wrong length unpacked into two names).
  A computation that may raise returns \<open>py_error + 'a\<close>, \<open>Inl\<close> the exception.
\<close>

datatype py_error = ValueError

text \<open>A table keyed by a column, with its keys strictly ascending.\<close>

abbreviation keys_strict :: "('k::linorder \<times> 'v) list \<Rightarrow> bool" where
  "keys_strict ps \<equiv> sorted_wrt (<) (map fst ps)"

text \<open>The values of the rows with key \<open>k\<close>, in row order.\<close>

definition group_vals :: "('k \<times> 'v) list \<Rightarrow> 'k \<Rightarrow> 'v list" where
  "group_vals rows k = map snd (filter (\<lambda>r. fst r = k) rows)"

lemma group_vals_Nil [simp]: "group_vals [] k = []"
  by (simp add: group_vals_def)

lemma group_vals_append [simp]:
  "group_vals (xs @ ys) k = group_vals xs k @ group_vals ys k"
  by (simp add: group_vals_def)

lemma group_vals_Cons [simp]:
  "group_vals ((a, v) # rows) k = (if a = k then v # group_vals rows k else group_vals rows k)"
  by (simp add: group_vals_def)

lemma group_vals_concat [simp]:
  "group_vals (concat xss) k = concat (map (\<lambda>xs. group_vals xs k) xss)"
  by (induction xss) simp_all

lemma group_vals_map_pair [simp]:
  "group_vals (map (\<lambda>x. (f x, g x)) xs) k = map g (filter (\<lambda>x. f x = k) xs)"
  by (induction xs) simp_all

lemma length_filter_const [simp]:
  "length (filter (\<lambda>_. P) xs) = (if P then length xs else 0)"
  by (induction xs) simp_all

lemma group_vals_empty_iff: "group_vals rows k = [] \<longleftrightarrow> k \<notin> fst ` set rows"
  by (force simp: group_vals_def filter_empty_conv)

lemma set_zip4D:
  "(a, b, c, d) \<in> set (zip as (zip bs (zip cs ds))) \<Longrightarrow>
   a \<in> set as \<and> b \<in> set bs \<and> c \<in> set cs \<and> d \<in> set ds"
  by (blast dest: set_zip_leftD set_zip_rightD)

lemma concat_map_Nil [simp]: "concat (map (\<lambda>_. []) xs) = []"
  by (induction xs) simp_all

lemma concat_map_singleton_fun: "concat (map (\<lambda>x. [f x]) xs) = map f xs"
  by (induction xs) simp_all

subsection \<open>Association lists with strictly ascending keys\<close>

lemma keys_strict_unique:
  "keys_strict xs \<Longrightarrow> keys_strict ys \<Longrightarrow> map_of xs = map_of ys \<Longrightarrow> xs = ys"
proof (induction xs arbitrary: ys)
  case Nil
  then show ?case by (cases ys) (auto simp: fun_eq_iff split: if_splits)
next
  case (Cons p xs)
  obtain a b where p: "p = (a, b)" by fastforce
  show ?case
  proof (cases ys)
    case Nil
    with Cons.prems(3) show ?thesis by (auto simp: fun_eq_iff split: if_splits)
  next
    case (Cons q ys')
    obtain c d where q: "q = (c, d)" by fastforce
    have "a = c"
    proof (rule ccontr)
      assume "a \<noteq> c"
      then have "a < c \<or> c < a" by auto
      then show False
      proof
        assume "a < c"
        with Cons.prems(2) Cons q have "map_of ys a = None"
          by (auto simp: map_of_eq_None_iff)
        with Cons.prems(3) p show False by (auto simp: fun_eq_iff dest: spec [of _ a])
      next
        assume "c < a"
        with Cons.prems(1) p have "map_of (p # xs) c = None"
          by (auto simp: map_of_eq_None_iff)
        with Cons.prems(3) Cons q show False by (auto simp: fun_eq_iff dest: spec [of _ c])
      qed
    qed
    have "b = d"
      using Cons.prems(3) Cons p q \<open>a = c\<close> by (auto simp: fun_eq_iff dest: spec [of _ a])
    have "map_of xs = map_of ys'"
    proof
      fix k
      show "map_of xs k = map_of ys' k"
      proof (cases "k = a")
        case True
        from Cons.prems(1) p have "map_of xs a = None"
          by (force simp: map_of_eq_None_iff)
        moreover from Cons.prems(2) Cons q \<open>a = c\<close> have "map_of ys' a = None"
          by (force simp: map_of_eq_None_iff)
        ultimately show ?thesis using True by simp
      next
        case False
        with Cons.prems(3) Cons p q \<open>a = c\<close> show ?thesis
          by (auto simp: fun_eq_iff dest: spec [of _ k])
      qed
    qed
    with Cons.IH Cons.prems(1,2) Cons p q \<open>a = c\<close> \<open>b = d\<close> show ?thesis by auto
  qed
qed

subsection \<open>Sums over lists\<close>

lemma sum_list_concat:
  fixes xss :: "'a::monoid_add list list"
  shows "sum_list (concat xss) = sum_list (map sum_list xss)"
  by (induction xss) simp_all

lemma length_filter_key_unique:
  "distinct (map f xs) \<Longrightarrow> k \<in> f ` set xs \<Longrightarrow> length (filter (\<lambda>x. f x = k) xs) = 1"
proof (induction xs)
  case Nil then show ?case by simp
next
  case (Cons x xs)
  show ?case
  proof (cases "f x = k")
    case True
    with Cons.prems have "filter (\<lambda>x. f x = k) xs = []" by (auto simp: filter_empty_conv image_iff)
    with True show ?thesis by simp
  next
    case False
    with Cons show ?thesis by simp
  qed
qed

lemma sum_list_map_mset_eq:
  fixes f :: "'a \<Rightarrow> 'b::comm_monoid_add"
  shows "mset xs = mset ys \<Longrightarrow> sum_list (map f xs) = sum_list (map f ys)"
proof -
  assume "mset xs = mset ys"
  then have "mset (map f xs) = mset (map f ys)" by simp
  then show ?thesis by (metis sum_mset_sum_list)
qed

lemma foldl_plus_sum_list:
  fixes v :: "'v::monoid_add"
  shows "foldl (+) v vs = v + sum_list vs"
  by (induction vs arbitrary: v) (simp_all add: add.assoc)

lemma sum_list_distinct_keys:
  fixes rows :: "('k \<times> 'v::comm_monoid_add) list"
  assumes "distinct ks" and "fst ` set rows \<subseteq> set ks"
  shows "sum_list (map (\<lambda>k. sum_list (group_vals rows k)) ks) = sum_list (map snd rows)"
  using assms(2)
proof (induction rows)
  case Nil
  have "sum_list (map (\<lambda>k. 0::'v) ks) = 0" by (induction ks) simp_all
  then show ?case by simp
next
  case (Cons r rows)
  obtain a v where r: "r = (a, v)" by fastforce
  have "a \<in> set ks" using Cons.prems r by auto
  have "sum_list (map (\<lambda>k. sum_list (group_vals (r # rows) k)) ks)
      = sum_list (map (\<lambda>k. (if a = k then v else 0) + sum_list (group_vals rows k)) ks)"
    unfolding r by (intro arg_cong [where f = sum_list] map_cong) auto
  also have "\<dots> = sum_list (map (\<lambda>k. if a = k then v else 0) ks)
                 + sum_list (map (\<lambda>k. sum_list (group_vals rows k)) ks)"
    by (simp add: sum_list_addf)
  also have "sum_list (map (\<lambda>k. if a = k then v else 0) ks) = v"
    using assms(1) \<open>a \<in> set ks\<close> by (simp add: sum_list_distinct_conv_sum_set)
  finally show ?case using Cons by (simp add: r)
qed

end
