(* ===== verification/Frame.thy ===== *)
theory Frame
  imports Prelude
begin

text \<open>
  The pandas operations that \<open>src/dashboard.py\<close> applies to its data frames, on tables
  represented as lists of rows: \<open>groupby(...).col.sum()\<close> / \<open>.count()\<close> / \<open>.max()\<close>
  (one row per distinct key, keys ascending), \<open>sort_values(ascending=False)\<close>,
  \<open>Series.rank(method='average')\<close>, \<open>drop_duplicates()\<close> (keeping first occurrences)
  and \<open>Series.max()\<close>. The grouped aggregation is written as pandas evaluates it, a
  single pass that folds every row into a sorted accumulator; its equivalence with the
  declarative reference (one row per key of \<open>sort (remdups keys)\<close>, the group's values
  combined) is proved here and is what the view theories use.
\<close>

subsection \<open>Grouped aggregation\<close>

fun acc_with :: "('v \<Rightarrow> 'v \<Rightarrow> 'v) \<Rightarrow> 'k::linorder \<Rightarrow> 'v \<Rightarrow> ('k \<times> 'v) list \<Rightarrow> ('k \<times> 'v) list" where
  "acc_with f k v [] = [(k, v)]"
| "acc_with f k v ((k', s) # ps) =
     (if k = k' then (k', f s v) # ps
      else if k < k' then (k, v) # (k', s) # ps
      else (k', s) # acc_with f k v ps)"

definition groupby_agg :: "('v \<Rightarrow> 'v \<Rightarrow> 'v) \<Rightarrow> ('k::linorder \<times> 'v) list \<Rightarrow> ('k \<times> 'v) list" where
  "groupby_agg f rows = foldl (\<lambda>acc (k, v). acc_with f k v acc) [] rows"

definition groupby_sum :: "('k::linorder \<times> 'v::monoid_add) list \<Rightarrow> ('k \<times> 'v) list" where
  "groupby_sum rows = groupby_agg (+) rows"

definition groupby_count :: "('k::linorder \<times> 'v) list \<Rightarrow> ('k \<times> nat) list" where
  "groupby_count rows = groupby_sum (map (\<lambda>(k, _). (k, 1)) rows)"

definition groupby_max :: "('k::linorder \<times> 'v::linorder) list \<Rightarrow> ('k \<times> 'v) list" where
  "groupby_max rows = groupby_agg max rows"

text \<open>The reference: the distinct keys ascending, each with its group's values combined.\<close>

definition group_keys :: "('k::linorder \<times> 'v) list \<Rightarrow> 'k list" where
  "group_keys rows = sort (remdups (map fst rows))"

definition groupby_sum_spec :: "('k::linorder \<times> 'v::monoid_add) list \<Rightarrow> ('k \<times> 'v) list" where
  "groupby_sum_spec rows = map (\<lambda>k. (k, sum_list (group_vals rows k))) (group_keys rows)"

subsection \<open>Descending sort, ranks, duplicates, maxima\<close>

text \<open>
  \<open>sort_values(by=c, ascending=False)\<close>: pandas' \<open>nargsort\<close> reverses the column, sorts
  ascending and reverses the result.
\<close>

definition sort_values_desc :: "('a \<Rightarrow> 'b::linorder) \<Rightarrow> 'a list \<Rightarrow> 'a list" where
  "sort_values_desc f xs = rev (sort_key f (rev xs))"

text \<open>
  \<open>Series.rank(method='average', ascending=asc)\<close>: the tied values occupy the positions
  after the strictly better ones, and each gets the mean of those positions.
\<close>

definition rank_avg :: "bool \<Rightarrow> 'a::linorder list \<Rightarrow> 'a \<Rightarrow> rat" where
  "rank_avg asc xs x =
     of_nat (length (filter (\<lambda>y. if asc then y < x else x < y) xs))
     + (of_nat (count_list xs x) + 1) / 2"

definition series_rank :: "bool \<Rightarrow> 'a::linorder list \<Rightarrow> rat list" where
  "series_rank asc xs = map (rank_avg asc xs) xs"

text \<open>\<open>Series.max()\<close>: NaN (here \<open>None\<close>) on an empty series.\<close>

definition series_max :: "'a::linorder list \<Rightarrow> 'a option" where
  "series_max xs = (case xs of [] \<Rightarrow> None | x # ys \<Rightarrow> Some (fold max ys x))"

definition series_min :: "'a::linorder list \<Rightarrow> 'a option" where
  "series_min xs = (case xs of [] \<Rightarrow> None | x # ys \<Rightarrow> Some (fold min ys x))"

text \<open>\<open>Series.mean()\<close>: NaN (here \<open>None\<close>) on an empty series.\<close>

definition series_mean :: "rat list \<Rightarrow> rat option" where
  "series_mean xs = (if xs = [] then None else Some (sum_list xs / of_nat (length xs)))"

text \<open>\<open>drop_duplicates()\<close> keeps the first of equal rows.\<close>

definition drop_duplicates :: "'a list \<Rightarrow> 'a list" where
  "drop_duplicates xs = rev (remdups (rev xs))"

subsection \<open>The accumulator keeps its keys strictly ascending\<close>

lemma acc_with_keys [frame_simps]:
  "fst ` set (acc_with f k v ps) = insert k (fst ` set ps)"
  by (induction f k v ps rule: acc_with.induct) auto

lemma acc_with_strict:
  "keys_strict ps \<Longrightarrow> keys_strict (acc_with f k v ps)"
proof (induction f k v ps rule: acc_with.induct)
  case (1 f k v)
  then show ?case by simp
next
  case (2 f k v k' s ps)
  have IH: "k' < k \<Longrightarrow> keys_strict (acc_with f k v ps)"
    using 2 by auto
  have "fst ` set (acc_with f k v ps) = insert k (fst ` set ps)"
    by (rule acc_with_keys)
  with 2(2) IH show ?case by (auto simp: less_le_trans)
qed

lemma map_of_acc_with:
  "keys_strict ps \<Longrightarrow>
   map_of (acc_with f k v ps) =
     (map_of ps)(k \<mapsto> (case map_of ps k of None \<Rightarrow> v | Some s \<Rightarrow> f s v))"
proof (induction f k v ps rule: acc_with.induct)
  case (1 f k v)
  then show ?case by simp
next
  case (2 f k v k' s ps)
  from 2(2) have none: "k < k' \<Longrightarrow> map_of ps k = None"
    by (force simp: map_of_eq_None_iff)
  from 2 show ?case by (auto simp: fun_eq_iff none)
qed

lemma groupby_agg_snoc [frame_simps]:
  "groupby_agg f (rows @ [(k, v)]) = acc_with f k v (groupby_agg f rows)"
  by (simp add: groupby_agg_def)

lemma groupby_agg_strict: "keys_strict (groupby_agg f rows)"
proof (induction rows rule: rev_induct)
  case Nil
  then show ?case by (simp add: groupby_agg_def)
next
  case (snoc r rows)
  then show ?case by (cases r) (simp add: groupby_agg_snoc acc_with_strict)
qed

text \<open>What the grouped table holds for a key: its group's values folded left to right.\<close>

lemma map_of_groupby_agg:
  "map_of (groupby_agg f rows) k =
     (case group_vals rows k of [] \<Rightarrow> None | v # vs \<Rightarrow> Some (foldl f v vs))"
proof (induction rows rule: rev_induct)
  case Nil
  then show ?case by (simp add: groupby_agg_def)
next
  case (snoc r rows)
  obtain a v where r: "r = (a, v)" by fastforce
  have step: "map_of (groupby_agg f (rows @ [(a, v)])) =
     (map_of (groupby_agg f rows))(a \<mapsto> (case map_of (groupby_agg f rows) a of None \<Rightarrow> v | Some s \<Rightarrow> f s v))"
    by (simp add: groupby_agg_snoc map_of_acc_with groupby_agg_strict)
  show ?case
  proof (cases "a = k")
    case True
    show ?thesis
      unfolding r step using True by (cases "group_vals rows k") (simp_all add: snoc.IH)
  next
    case False
    show ?thesis
      unfolding r step using False by (simp add: snoc.IH)
  qed
qed

lemma groupby_agg_keys [frame_simps]: "map fst (groupby_agg f rows) = group_keys rows"
proof -
  have keyset: "set (map fst (groupby_agg f rows)) = fst ` set rows"
  proof (induction rows rule: rev_induct)
    case Nil
    then show ?case by (simp add: groupby_agg_def)
  next
    case (snoc r rows)
    then show ?case by (cases r) (simp add: groupby_agg_snoc acc_with_keys)
  qed
  have "sorted (map fst (groupby_agg f rows))" "distinct (map fst (groupby_agg f rows))"
    using groupby_agg_strict [of f rows] by (simp_all add: strict_sorted_iff)
  with keyset show ?thesis
    by (simp add: group_keys_def sorted_distinct_set_unique)
qed

lemma set_group_keys [frame_simps]: "set (group_keys rows) = fst ` set rows"
  by (simp add: group_keys_def)

lemma group_keys_strict: "sorted_wrt (<) (group_keys rows)"
  by (simp add: group_keys_def strict_sorted_iff)

lemma map_of_map_keys:
  "map_of (map (\<lambda>k. (k, g k)) ks) k = (if k \<in> set ks then Some (g k) else None)"
  by (induction ks) auto

subsection \<open>Grouped sums and counts\<close>

lemma map_of_groupby_sum [frame_simps]:
  "map_of (groupby_sum rows) k =
     (if k \<in> fst ` set rows then Some (sum_list (group_vals rows k)) else None)"
proof (cases "group_vals rows k")
  case Nil
  then show ?thesis
    by (simp add: groupby_sum_def map_of_groupby_agg group_vals_empty_iff [symmetric])
next
  case (Cons w ws)
  then have "k \<in> fst ` set rows" using group_vals_empty_iff [of rows k] by auto
  with Cons show ?thesis
    by (simp add: groupby_sum_def map_of_groupby_agg foldl_plus_sum_list)
qed

lemma groupby_sum_keys [frame_simps]: "map fst (groupby_sum rows) = group_keys rows"
  by (simp add: groupby_sum_def groupby_agg_keys)

lemma groupby_sum_strict: "keys_strict (groupby_sum rows)"
  by (simp add: groupby_sum_def groupby_agg_strict)

lemma groupby_count_keys [frame_simps]: "map fst (groupby_count rows) = group_keys rows"
  by (simp add: groupby_count_def groupby_sum_keys group_keys_def comp_def case_prod_beta)

lemma group_vals_count:
  "sum_list (group_vals (map (\<lambda>(k, _). (k, 1::nat)) rows) k) = length (group_vals rows k)"
  by (induction rows) auto

lemma keys_count_rows: "fst ` set (map (\<lambda>(k, _). (k, 1::nat)) rows) = fst ` set rows"
  by force

lemma map_of_groupby_count [frame_simps]:
  "map_of (groupby_count rows) k =
     (if k \<in> fst ` set rows then Some (length (group_vals rows k)) else None)"
  unfolding groupby_count_def map_of_groupby_sum keys_count_rows group_vals_count ..

lemma groupby_sum_total [frame_simps]:
  fixes rows :: "('k::linorder \<times> 'v::comm_monoid_add) list"
  shows "sum_list (map snd (groupby_sum rows)) = sum_list (map snd rows)"
proof -
  have "groupby_sum rows = groupby_sum_spec rows"
  proof (rule keys_strict_unique)
    show "keys_strict (groupby_sum rows)" by (rule groupby_sum_strict)
    show "keys_strict (groupby_sum_spec rows)"
      by (simp add: groupby_sum_spec_def comp_def group_keys_strict)
    show "map_of (groupby_sum rows) = map_of (groupby_sum_spec rows)"
      by (simp add: fun_eq_iff groupby_sum_spec_def map_of_map_keys map_of_groupby_sum
                    set_group_keys)
  qed
  moreover have "distinct (group_keys rows)" by (simp add: group_keys_def)
  ultimately show ?thesis
    by (simp add: groupby_sum_spec_def comp_def sum_list_distinct_keys set_group_keys)
qed

subsection \<open>Descending sort\<close>

lemma sort_values_desc_sorted: "sorted (rev (map f (sort_values_desc f xs)))"
  by (simp add: sort_values_desc_def rev_map [symmetric])

lemma mset_sort_values_desc [frame_simps]: "mset (sort_values_desc f xs) = mset xs"
  by (simp add: sort_values_desc_def)

subsection \<open>Average ranks\<close>

lemma length_filter_disjoint:
  "(\<And>y. \<not> (P y \<and> Q y)) \<Longrightarrow> length (filter P xs) + length (filter Q xs) \<le> length xs"
  by (induction xs) auto

lemma rank_avg_bounds:
  fixes xs :: "'a::linorder list"
  assumes "x \<in> set xs"
  shows "1 \<le> rank_avg asc xs x \<and> rank_avg asc xs x \<le> of_nat (length xs)"
proof -
  let ?b = "length (filter (\<lambda>y. if asc then y < x else x < y) xs)"
  let ?c = "count_list xs x"
  have "?c \<noteq> 0" using assms by (simp add: count_list_0_iff)
  then have c1: "1 \<le> ?c" by simp
  have "?b + length (filter ((=) x) xs) \<le> length xs"
    by (rule length_filter_disjoint) auto
  then have bc: "?b + ?c \<le> length xs" by (simp only: count_list_eq_length_filter)
  have c1': "(1::rat) \<le> of_nat ?c" using c1 by simp
  have "(0::rat) \<le> of_nat ?b" by simp
  moreover have "(1::rat) \<le> (of_nat ?c + 1) / 2" using c1' by (simp add: field_simps)
  ultimately have "(1::rat) \<le> of_nat ?b + (of_nat ?c + 1) / 2" by (rule add_increasing)
  moreover have "of_nat ?b + (of_nat ?c + 1) / 2 \<le> (of_nat (length xs) :: rat)"
  proof -
    have "(of_nat ?c + 1) / 2 \<le> (of_nat ?c :: rat)" using c1' by (simp add: field_simps)
    moreover have "of_nat ?b + of_nat ?c \<le> (of_nat (length xs) :: rat)"
      using bc by (metis of_nat_add of_nat_mono)
    ultimately show ?thesis by linarith
  qed
  ultimately show ?thesis by (simp add: rank_avg_def)
qed

subsection \<open>Maxima and duplicates\<close>

lemma series_max_Cons [frame_simps]: "series_max (x # xs) = Some (Max (set (x # xs)))"
  unfolding series_max_def by (simp only: list.case Max.set_eq_fold)

lemma series_max_None [frame_simps]: "series_max xs = None \<longleftrightarrow> xs = []"
  by (simp add: series_max_def split: list.splits)

lemma series_max_ge: "series_max xs = Some m \<Longrightarrow> x \<in> set xs \<Longrightarrow> x \<le> m"
  by (cases xs) (auto simp: series_max_Cons)

lemma series_max_mem: "series_max xs = Some m \<Longrightarrow> m \<in> set xs"
proof (cases xs)
  case Nil
  then show "series_max xs = Some m \<Longrightarrow> m \<in> set xs" by (simp add: series_max_def)
next
  case (Cons y ys)
  have "Max (set (y # ys)) \<in> set (y # ys)" by (rule Max_in) simp_all
  then show "series_max xs = Some m \<Longrightarrow> m \<in> set xs" using Cons by (simp add: series_max_Cons)
qed

lemma series_min_Cons [frame_simps]: "series_min (x # xs) = Some (Min (set (x # xs)))"
  unfolding series_min_def by (simp only: list.case Min.set_eq_fold)

lemma series_min_le: "series_min xs = Some m \<Longrightarrow> x \<in> set xs \<Longrightarrow> m \<le> x"
  by (cases xs) (auto simp: series_min_Cons)

lemma series_min_mem: "series_min xs = Some m \<Longrightarrow> m \<in> set xs"
proof (cases xs)
  case Nil
  then show "series_min xs = Some m \<Longrightarrow> m \<in> set xs" by (simp add: series_min_def)
next
  case (Cons y ys)
  have "Min (set (y # ys)) \<in> set (y # ys)" by (rule Min_in) simp_all
  then show "series_min xs = Some m \<Longrightarrow> m \<in> set xs" using Cons by (simp add: series_min_Cons)
qed

lemma set_drop_duplicates [frame_simps]: "set (drop_duplicates xs) = set xs"
  by (simp add: drop_duplicates_def)

lemma distinct_drop_duplicates: "distinct (drop_duplicates xs)"
  by (simp add: drop_duplicates_def)

lemma drop_duplicates_id: "distinct xs \<Longrightarrow> drop_duplicates xs = xs"
  by (simp add: drop_duplicates_def distinct_remdups_id)

subsection \<open>Ranks against the column maximum\<close>

lemma length_series_rank [simp]: "length (series_rank asc xs) = length xs"
  by (simp add: series_rank_def)

lemma series_rank_bounds:
  "r \<in> set (series_rank asc xs) \<Longrightarrow> 1 \<le> r \<and> r \<le> of_nat (length xs)"
  by (auto simp: series_rank_def rank_avg_bounds)

text \<open>The largest value of a column ranks at least at the mean position \<open>(n + 1) / 2\<close>.\<close>

lemma rank_avg_Max:
  fixes xs :: "'a::linorder list"
  assumes "xs \<noteq> []"
  shows "(of_nat (length xs) + 1) / 2 \<le> rank_avg True xs (Max (set xs))"
proof -
  let ?x = "Max (set xs)"
  let ?b = "length (filter (\<lambda>y. y < ?x) xs)"
  let ?c = "count_list xs ?x"
  have le: "\<And>y. y \<in> set xs \<Longrightarrow> y \<le> ?x" using assms by simp
  have "filter (\<lambda>y. y < ?x) xs = filter (\<lambda>y. \<not> (?x = y)) xs"
    using le by (intro filter_cong) (force simp: less_le)+
  then have "?b + ?c = length xs"
    using sum_length_filter_compl [of "\<lambda>y. ?x = y" xs]
    by (simp add: count_list_eq_length_filter add.commute)
  then have "rat_of_nat ?b + rat_of_nat ?c = rat_of_nat (length xs)" by (metis of_nat_add)
  moreover have "(0::rat) \<le> of_nat ?b" by simp
  ultimately show ?thesis by (simp add: rank_avg_def field_simps)
qed

lemma series_rank_max_ge:
  assumes "xs \<noteq> []" and "series_max (series_rank True xs) = Some mx"
  shows "(of_nat (length xs) + 1) / 2 \<le> mx"
proof -
  have "Max (set xs) \<in> set xs" using assms(1) by simp
  then have "rank_avg True xs (Max (set xs)) \<in> set (series_rank True xs)"
    by (simp add: series_rank_def)
  then have "rank_avg True xs (Max (set xs)) \<le> mx" using assms(2) by (rule series_max_ge [rotated])
  with rank_avg_Max [OF assms(1)] show ?thesis by linarith
qed

lemma foldl_max_mem: "foldl max v vs \<in> set (v # vs)"
  by (induction vs arbitrary: v) (auto simp: max_def)

lemma groupby_max_mem:
  assumes "(k, v) \<in> set (groupby_max rows)"
  shows "v \<in> set (group_vals rows k)"
proof -
  have "distinct (map fst (groupby_max rows))"
    by (simp add: groupby_max_def groupby_agg_keys group_keys_def)
  with assms have "map_of (groupby_max rows) k = Some v" by (rule map_of_is_SomeI [rotated])
  then show ?thesis
    using foldl_max_mem by (auto simp: groupby_max_def map_of_groupby_agg split: list.splits)
qed

end
