(* ===== verification/Tables.thy ===== *)
theory Tables
  imports Frame
begin

text \<open>
  The Record Store: the six relations that \<open>src/dashboard.py\<close> reads from CSV at start-up
  (lines 89--94), each a list of rows, one \<^theory_text>\<open>record\<close> per row type holding the
  columns the code reads. A missing CSV value (NaN) is \<open>None\<close> where the code tests for
  it. Dates are triples (year, month, day) and timestamps pairs (date, second of the
  day), ordered lexicographically, which is the chronological order on valid values.
  The day count behind \<open>(d1 - d2).days\<close> is CPython's proleptic Gregorian ordinal
  (\<open>date.toordinal\<close>), written as CPython writes it; its monotonicity is proved here.
\<close>

type_synonym date = "nat \<times> nat \<times> nat"
type_synonym timestamp = "date \<times> nat"

record order =
  order_id :: ident
  customer_id :: ident
  order_purchase_timestamp :: timestamp

record order_item =
  item_order_id :: ident
  product_id :: ident
  price :: money

record customer =
  cust_customer_id :: ident
  customer_unique_id :: ident
  customer_city :: string

record product =
  prod_product_id :: ident
  product_category_name :: "string option"

record translation =
  tr_category_name :: "string option"
  product_category_name_english :: "string option"

record payment =
  pay_order_id :: ident
  payment_value :: money

record store =
  orders :: "order list"
  order_items :: "order_item list"
  customers :: "customer list"
  products :: "product list"
  category_translations :: "translation list"
  payments :: "payment list"

subsection \<open>Calendar arithmetic (CPython \<open>datetime\<close>)\<close>

definition is_leap :: "nat \<Rightarrow> bool" where
  "is_leap y \<longleftrightarrow> y mod 4 = 0 \<and> (y mod 100 \<noteq> 0 \<or> y mod 400 = 0)"

definition DAYS_IN_MONTH :: "nat list" where
  "DAYS_IN_MONTH = [31, 28, 31, 30, 31, 30, 31, 31, 30, 31, 30, 31]"

definition days_in_month :: "nat \<Rightarrow> nat \<Rightarrow> nat" where
  "days_in_month y m = (if m = 2 \<and> is_leap y then 29 else DAYS_IN_MONTH ! (m - 1))"

definition days_before_month :: "nat \<Rightarrow> nat \<Rightarrow> nat" where
  "days_before_month y m =
     sum_list (take (m - 1) DAYS_IN_MONTH) + (if 2 < m \<and> is_leap y then 1 else 0)"

definition days_in_year :: "nat \<Rightarrow> nat" where
  "days_in_year y = (if is_leap y then 366 else 365)"

definition days_before_year :: "nat \<Rightarrow> nat" where
  "days_before_year y = (let n = y - 1 in n * 365 + n div 4 - n div 100 + n div 400)"

definition toordinal :: "date \<Rightarrow> nat" where
  "toordinal d = (case d of (y, m, dd) \<Rightarrow> days_before_year y + days_before_month y m + dd)"

definition valid_date :: "date \<Rightarrow> bool" where
  "valid_date d = (case d of (y, m, dd) \<Rightarrow>
     1 \<le> y \<and> 1 \<le> m \<and> m \<le> 12 \<and> 1 \<le> dd \<and> dd \<le> days_in_month y m)"

text \<open>
  A pandas \<open>Timestamp\<close> lies between the years 1677 and 2262; every timestamp the
  dashboard parses is valid in this sense.
\<close>

definition valid_ts :: "timestamp \<Rightarrow> bool" where
  "valid_ts t = (case t of ((y, m, d), s) \<Rightarrow>
     valid_date (y, m, d) \<and> 1677 \<le> y \<and> y \<le> 2262 \<and> s < 86400)"

definition ts_date :: "timestamp \<Rightarrow> date" where
  "ts_date t = fst t"

definition ts_year :: "timestamp \<Rightarrow> nat" where
  "ts_year t = fst (fst t)"

definition ts_month :: "timestamp \<Rightarrow> nat" where
  "ts_month t = fst (snd (fst t))"

text \<open>
  The day after a date, stepping over month and year ends: the reference against
  which the closed form \<open>toordinal\<close> is checked (one day per step).
\<close>

definition next_day :: "date \<Rightarrow> date" where
  "next_day d = (case d of (y, m, dd) \<Rightarrow>
     if dd < days_in_month y m then (y, m, Suc dd)
     else if m < 12 then (y, Suc m, 1) else (Suc y, 1, 1))"


subsection \<open>The ordinal is strictly monotone on valid dates\<close>


lemma div_Suc_step: "0 < k \<Longrightarrow> Suc n div k = n div k + (if Suc n mod k = 0 then 1 else 0)"
  by (simp add: div_Suc)

lemma mod_100_imp_4: "(y::nat) mod 100 = 0 \<Longrightarrow> y mod 4 = 0"
  by presburger

lemma mod_400_imp_100: "(y::nat) mod 400 = 0 \<Longrightarrow> y mod 100 = 0"
  by presburger

lemma leap_step_arith:
  fixes A B C D :: nat
  assumes "C \<le> B" and "p100 \<Longrightarrow> p4" and "p400 \<Longrightarrow> p100"
  shows "A + 365 + (B + (if p4 then 1 else 0)) - (C + (if p100 then 1 else 0))
           + (D + (if p400 then 1 else 0))
         = A + B - C + D + (if p4 \<and> (\<not> p100 \<or> p400) then 366 else 365)"
  using assms by (cases p4; cases p100; cases p400) auto

lemma days_before_year_Suc:
  assumes "1 \<le> y"
  shows "days_before_year (Suc y) = days_before_year y + days_in_year y"
proof -
  obtain n where y: "y = Suc n" using assms by (cases y) auto
  have le: "n div 100 \<le> n div 4" by (rule div_le_mono2) simp_all
  have d4: "Suc n div 4 = n div 4 + (if Suc n mod 4 = 0 then 1 else 0)" by (rule div_Suc_step) simp
  have d100: "Suc n div 100 = n div 100 + (if Suc n mod 100 = 0 then 1 else 0)" by (rule div_Suc_step) simp
  have d400: "Suc n div 400 = n div 400 + (if Suc n mod 400 = 0 then 1 else 0)" by (rule div_Suc_step) simp
  have i1: "Suc n mod 100 = 0 \<Longrightarrow> Suc n mod 4 = 0" by (rule mod_100_imp_4)
  have i2: "Suc n mod 400 = 0 \<Longrightarrow> Suc n mod 100 = 0" by (rule mod_400_imp_100)
  have "days_before_year (Suc y) = Suc n * 365 + Suc n div 4 - Suc n div 100 + Suc n div 400"
    by (simp add: days_before_year_def y)
  also have "\<dots> = n * 365 + 365 + (n div 4 + (if Suc n mod 4 = 0 then 1 else 0))
       - (n div 100 + (if Suc n mod 100 = 0 then 1 else 0))
       + (n div 400 + (if Suc n mod 400 = 0 then 1 else 0))"
    unfolding d4 d100 d400 by (simp add: ac_simps)
  also have "\<dots> = n * 365 + n div 4 - n div 100 + n div 400 + days_in_year y"
    unfolding days_in_year_def is_leap_def y by (rule leap_step_arith [OF le i1 i2])
  also have "n * 365 + n div 4 - n div 100 + n div 400 = days_before_year y"
    by (simp add: days_before_year_def y)
  finally show ?thesis .
qed

lemma month_cases_11:
  "1 \<le> (m::nat) \<Longrightarrow> m \<le> 11 \<Longrightarrow>
   m = 1 \<or> m = 2 \<or> m = 3 \<or> m = 4 \<or> m = 5 \<or> m = 6 \<or> m = 7 \<or> m = 8 \<or> m = 9 \<or> m = 10 \<or> m = 11"
  by arith

lemma month_cases:
  "1 \<le> (m::nat) \<Longrightarrow> m \<le> 12 \<Longrightarrow>
   m = 1 \<or> m = 2 \<or> m = 3 \<or> m = 4 \<or> m = 5 \<or> m = 6 \<or> m = 7 \<or> m = 8 \<or> m = 9
   \<or> m = 10 \<or> m = 11 \<or> m = 12"
  by arith

lemma days_before_month_Suc:
  "1 \<le> m \<Longrightarrow> m \<le> 11 \<Longrightarrow>
   days_before_month y (Suc m) = days_before_month y m + days_in_month y m"
  by (drule (1) month_cases_11)
     (auto simp: days_before_month_def days_in_month_def DAYS_IN_MONTH_def)

lemma days_before_month_12:
  "days_before_month y 12 + days_in_month y 12 = days_in_year y"
  by (simp add: days_before_month_def days_in_month_def DAYS_IN_MONTH_def days_in_year_def)

lemma days_before_month_mono:
  "1 \<le> m1 \<Longrightarrow> m1 < m2 \<Longrightarrow> m2 \<le> 12 \<Longrightarrow>
   days_before_month y m1 + days_in_month y m1 \<le> days_before_month y m2"
proof (induction m2)
  case 0
  then show ?case by simp
next
  case (Suc m)
  show ?case
  proof (cases "m1 = m")
    case True
    with Suc.prems show ?thesis by (simp add: days_before_month_Suc)
  next
    case False
    with Suc.prems Suc.IH show ?thesis by (simp add: days_before_month_Suc)
  qed
qed

lemma days_in_year_bound:
  "1 \<le> m \<Longrightarrow> m \<le> 12 \<Longrightarrow> days_before_month y m + days_in_month y m \<le> days_in_year y"
proof (cases "m = 12")
  case True
  then show ?thesis by (simp add: days_before_month_12)
next
  case False
  assume "1 \<le> m" "m \<le> 12"
  with False have "days_before_month y m + days_in_month y m \<le> days_before_month y 12"
    by (intro days_before_month_mono) simp_all
  then show ?thesis using days_before_month_12 [of y] by simp
qed

lemma days_before_year_mono:
  "1 \<le> y1 \<Longrightarrow> y1 < y2 \<Longrightarrow> days_before_year y1 + days_in_year y1 \<le> days_before_year y2"
proof (induction y2)
  case 0
  then show ?case by simp
next
  case (Suc y)
  then show ?case
    by (cases "y1 = y") (auto simp: days_before_year_Suc)
qed

theorem toordinal_strict_mono:
  assumes "valid_date d1" and "valid_date d2" and "d1 < d2"
  shows "toordinal d1 < toordinal d2"
proof -
  obtain y1 m1 a1 where d1: "d1 = (y1, m1, a1)" by (cases d1) auto
  obtain y2 m2 a2 where d2: "d2 = (y2, m2, a2)" by (cases d2) auto
  have v1: "1 \<le> y1" "1 \<le> m1" "m1 \<le> 12" "1 \<le> a1" "a1 \<le> days_in_month y1 m1"
    using assms(1) by (simp_all add: d1 valid_date_def)
  have v2: "1 \<le> m2" "m2 \<le> 12" "1 \<le> a2"
    using assms(2) by (simp_all add: d2 valid_date_def)
  consider "y1 < y2" | "y1 = y2" "m1 < m2" | "y1 = y2" "m1 = m2" "a1 < a2"
    using assms(3) by (auto simp: d1 d2 less_prod_def le_less)
  then show ?thesis
  proof cases
    case 1
    have "days_before_month y1 m1 + a1 \<le> days_in_year y1"
      using days_in_year_bound [OF v1(2,3), of y1] v1(5) by simp
    moreover have "days_before_year y1 + days_in_year y1 \<le> days_before_year y2"
      using days_before_year_mono [OF v1(1) 1] .
    ultimately show ?thesis using v2(3) by (simp add: d1 d2 toordinal_def)
  next
    case 2
    have "days_before_month y1 m1 + days_in_month y1 m1 \<le> days_before_month y1 m2"
      using days_before_month_mono [OF v1(2) 2(2) v2(2)] .
    then show ?thesis using v1(5) v2(3) 2(1) by (simp add: d1 d2 toordinal_def)
  next
    case 3
    then show ?thesis by (simp add: d1 d2 toordinal_def)
  qed
qed

subsection \<open>The ordinal counts days one by one\<close>

lemma days_in_month_pos: "1 \<le> m \<Longrightarrow> m \<le> 12 \<Longrightarrow> 1 \<le> days_in_month y m"
  by (drule (1) month_cases) (auto simp: days_in_month_def DAYS_IN_MONTH_def)

lemma days_in_month_le: "1 \<le> m \<Longrightarrow> m \<le> 12 \<Longrightarrow> days_in_month y m \<le> 31"
  by (drule (1) month_cases) (auto simp: days_in_month_def DAYS_IN_MONTH_def)

lemma toordinal_next_day:
  assumes "valid_date d"
  shows "valid_date (next_day d) \<and> toordinal (next_day d) = Suc (toordinal d)"
proof -
  obtain y m dd where d: "d = (y, m, dd)" by (cases d) auto
  have v: "1 \<le> y" "1 \<le> m" "m \<le> 12" "1 \<le> dd" "dd \<le> days_in_month y m"
    using assms by (simp_all add: d valid_date_def)
  consider (day) "dd < days_in_month y m"
    | (month) "dd = days_in_month y m" "m < 12"
    | (year) "dd = days_in_month y m" "m = 12"
    using v by linarith
  then show ?thesis
  proof cases
    case day
    then show ?thesis using v by (simp add: d next_day_def valid_date_def toordinal_def)
  next
    case month
    have "days_before_month y (Suc m) = days_before_month y m + days_in_month y m"
      using v month by (intro days_before_month_Suc) simp_all
    moreover have "1 \<le> days_in_month y (Suc m)"
      using v month by (intro days_in_month_pos) simp_all
    ultimately show ?thesis using v month by (simp add: d next_day_def valid_date_def toordinal_def)
  next
    case year
    have "days_before_year (Suc y) = days_before_year y + days_in_year y"
      by (rule days_before_year_Suc [OF v(1)])
    moreover have "days_before_month y 12 + days_in_month y 12 = days_in_year y"
      by (rule days_before_month_12)
    moreover have "days_before_month (Suc y) 1 = 0"
      by (simp add: days_before_month_def)
    moreover have "1 \<le> days_in_month (Suc y) 1"
      by (rule days_in_month_pos) simp_all
    ultimately show ?thesis
      using v year by (simp add: d next_day_def valid_date_def toordinal_def)
  qed
qed

lemma toordinal_iterate_next_day:
  "valid_date b \<Longrightarrow> valid_date ((next_day ^^ n) b) \<and> toordinal ((next_day ^^ n) b) = toordinal b + n"
  by (induction n) (simp_all add: toordinal_next_day)

end
