(* ===== verification/Labels.thy ===== *)
theory Labels
  imports Tables
begin

text \<open>
  Month-year labels: \<open>dt.strftime('%B %Y')\<close> and \<open>pd.to_datetime(..., format="%B %Y")\<close>
  as \<open>src/dashboard.py\<close> uses them at load time (line 96, truncating every purchase
  timestamp to its month) and in the monthly revenue view (lines 11, 13, 15). A label is
  the English month name, one space and the four-digit year; parsing splits at the
  first space, looks the name up and reads four digits, and a string it cannot parse is
  pandas' \<open>ValueError\<close>, here \<open>None\<close>. The round trip \<open>parse_month_year
  (strftime_month_year t) = Some (first instant of t's month)\<close> holds for every valid
  timestamp.
\<close>

definition MONTH_NAMES :: "string list" where
  "MONTH_NAMES = [''January'', ''February'', ''March'', ''April'', ''May'', ''June'', ''July'',
                  ''August'', ''September'', ''October'', ''November'', ''December'']"

definition month_name :: "nat \<Rightarrow> string" where
  "month_name m = MONTH_NAMES ! (m - 1)"

definition digit_char :: "nat \<Rightarrow> char" where
  "digit_char d = char_of (48 + d)"

definition digit_val :: "char \<Rightarrow> nat" where
  "digit_val c = of_char c - 48"

definition is_digit :: "char \<Rightarrow> bool" where
  "is_digit c \<longleftrightarrow> 48 \<le> (of_char c :: nat) \<and> (of_char c :: nat) \<le> 57"

definition format_year :: "nat \<Rightarrow> string" where
  "format_year y = [digit_char (y div 1000 mod 10), digit_char (y div 100 mod 10),
                    digit_char (y div 10 mod 10), digit_char (y mod 10)]"

definition strftime_month_year :: "timestamp \<Rightarrow> string" where
  "strftime_month_year t = month_name (ts_month t) @ '' '' @ format_year (ts_year t)"

definition parse_year :: "string \<Rightarrow> nat option" where
  "parse_year s =
     (if length s = 4 \<and> list_all is_digit s
      then Some (foldl (\<lambda>acc c. 10 * acc + digit_val c) 0 s) else None)"

definition parse_month :: "string \<Rightarrow> nat option" where
  "parse_month s = map_of (zip MONTH_NAMES [1, 2, 3, 4, 5, 6, 7, 8, 9, 10, 11, 12]) s"

definition parse_month_year :: "string \<Rightarrow> timestamp option" where
  "parse_month_year s =
     (let name = takeWhile (\<lambda>c. c \<noteq> CHR '' '') s;
          rest = drop (Suc (length name)) s
      in if length name < length s
         then (case (parse_month name, parse_year rest) of
                 (Some m, Some y) \<Rightarrow> Some ((y, m, 1), 0)
               | _ \<Rightarrow> None)
         else None)"

definition month_start :: "timestamp \<Rightarrow> timestamp" where
  "month_start t = ((ts_year t, ts_month t, 1), 0)"

lemma month_name_no_space:
  "1 \<le> m \<Longrightarrow> m \<le> 12 \<Longrightarrow> CHR '' '' \<notin> set (month_name m)"
  by (drule (1) month_cases) (auto simp: month_name_def MONTH_NAMES_def)

lemma parse_month_name [simp]:
  "1 \<le> m \<Longrightarrow> m \<le> 12 \<Longrightarrow> parse_month (month_name m) = Some m"
  by (drule (1) month_cases) (elim disjE, simp_all add: month_name_def MONTH_NAMES_def parse_month_def)

lemma digit_char_val [simp]: "d < 10 \<Longrightarrow> digit_val (digit_char d) = d"
  by (simp add: digit_val_def digit_char_def)

lemma digit_char_is_digit [simp]: "d < 10 \<Longrightarrow> is_digit (digit_char d)"
  by (simp add: is_digit_def digit_char_def)

lemma four_digits:
  "(y::nat) < 10000 \<Longrightarrow>
   10 * (10 * (10 * (y div 1000 mod 10) + y div 100 mod 10) + y div 10 mod 10) + y mod 10 = y"
proof -
  assume "y < 10000"
  then have a: "y div 1000 mod 10 = y div 1000" by simp
  have e1: "y div 1000 = y div 100 div 10" by (simp add: div_mult2_eq [symmetric])
  have e2: "y div 100 = y div 10 div 10" by (simp add: div_mult2_eq [symmetric])
  have b: "10 * (y div 1000) + y div 100 mod 10 = y div 100"
    unfolding e1 by (rule mult_div_mod_eq)
  have c: "10 * (y div 100) + y div 10 mod 10 = y div 10"
    unfolding e2 by (rule mult_div_mod_eq)
  have d: "10 * (y div 10) + y mod 10 = y"
    by (rule mult_div_mod_eq)
  show ?thesis using a b c d by simp
qed

lemma parse_format_year [simp]: "y < 10000 \<Longrightarrow> parse_year (format_year y) = Some y"
  using four_digits [of y] by (simp add: parse_year_def format_year_def)

lemma length_format_year [simp]: "length (format_year y) = 4"
  by (simp add: format_year_def)

text \<open>Round trip of the label: what the code prints it parses back, to the month start.\<close>

lemma parse_strftime_month_year:
  assumes "valid_ts t"
  shows "parse_month_year (strftime_month_year t) = Some (month_start t)"
proof -
  obtain y m d s where t: "t = ((y, m, d), s)" by (cases t) auto
  have m: "1 \<le> m" "m \<le> 12" and y: "y < 10000"
    using assms by (simp_all add: t valid_ts_def valid_date_def)
  have nsp: "\<And>c. c \<in> set (month_name m) \<Longrightarrow> c \<noteq> CHR '' ''"
    using month_name_no_space [OF m] by blast
  have tw: "takeWhile (\<lambda>c. c \<noteq> CHR '' '') (month_name m @ CHR '' '' # format_year y) = month_name m"
    by (simp add: takeWhile_append2 nsp)
  show ?thesis
    by (simp add: parse_month_year_def strftime_month_year_def month_start_def t tw m y parse_month_name [OF m]
                  ts_year_def ts_month_def Let_def)
qed

lemma strftime_month_start [simp]: "strftime_month_year (month_start t) = strftime_month_year t"
  by (simp add: strftime_month_year_def month_start_def ts_year_def ts_month_def)

text \<open>
  C23. Round trip of the month-year labels on valid timestamps: parsing a printed label
  gives the first instant of the month (the load-time truncation of line 96), printing
  that instant gives the label back, and two timestamps print the same label exactly
  when they lie in the same month, so the label is a faithful key for the month.
\<close>

theorem month_label_roundtrip:
  assumes "valid_ts t1" and "valid_ts t2"
  shows "parse_month_year (strftime_month_year t1) = Some (month_start t1)
         \<and> strftime_month_year (month_start t1) = strftime_month_year t1
         \<and> (strftime_month_year t1 = strftime_month_year t2 \<longleftrightarrow> month_start t1 = month_start t2)"
proof (intro conjI iffI)
  show p1: "parse_month_year (strftime_month_year t1) = Some (month_start t1)"
    by (rule parse_strftime_month_year [OF assms(1)])
  show "strftime_month_year (month_start t1) = strftime_month_year t1"
    by (rule strftime_month_start)
  assume "strftime_month_year t1 = strftime_month_year t2"
  then show "month_start t1 = month_start t2"
    using p1 parse_strftime_month_year [OF assms(2)] by simp
next
  assume "month_start t1 = month_start t2"
  then show "strftime_month_year t1 = strftime_month_year t2"
    by (metis strftime_month_start)
qed

theorem month_label_roundtrip_witness:
  "valid_ts ((2023, 3, 15), 43200) \<and> valid_ts ((2023, 3, 1), 0)
   \<and> parse_month_year (strftime_month_year ((2023, 3, 15), 43200)) = Some ((2023, 3, 1), 0)
   \<and> strftime_month_year ((2023, 3, 15), 43200) = strftime_month_year ((2023, 3, 1), 0)"
proof -
  have v1: "valid_ts ((2023, 3, 15), 43200)" and v2: "valid_ts ((2023, 3, 1), 0)"
    by (simp_all add: valid_ts_def valid_date_def days_in_month_def DAYS_IN_MONTH_def)
  have ms: "month_start ((2023, 3, 15), 43200) = ((2023, 3, 1), 0)"
    and ms2: "month_start ((2023, 3, 1), 0) = ((2023, 3, 1), 0)"
    by (simp_all add: month_start_def ts_year_def ts_month_def)
  show ?thesis
    using v1 v2 month_label_roundtrip [OF v1 v2] by (simp only: ms ms2)
qed

end
