(* ===== verification/DateFilter.thy ===== *)
theory DateFilter
  imports Labels
begin

text \<open>
  The Date Filter. At load time (\<open>src/dashboard.py\<close> line 96) every purchase timestamp
  is printed as \<open>'%B %Y'\<close> and parsed back, which truncates it to the first instant
  of its month; a label that failed to parse would raise \<open>ValueError\<close>. At every rerun
  (line 113) the orders are kept whose timestamp lies between \<open>str(start_date)\<close> and
  \<open>str(end_date)\<close>, i.e. between midnight of the two chosen days, both inclusive.
  The lemmas show that loading never raises on valid timestamps, and that the filter
  therefore decides by month: an order is kept iff the first day of its month lies in
  the range, whatever its own day.
\<close>

definition to_month_timestamp :: "timestamp \<Rightarrow> py_error + timestamp" where
  "to_month_timestamp t =
     (case parse_month_year (strftime_month_year t) of None \<Rightarrow> Inl ValueError | Some t' \<Rightarrow> Inr t')"

fun truncate_orders :: "order list \<Rightarrow> py_error + order list" where
  "truncate_orders [] = Inr []"
| "truncate_orders (od # os) =
     (case to_month_timestamp (order_purchase_timestamp od) of
        Inl e \<Rightarrow> Inl e
      | Inr t \<Rightarrow> (case truncate_orders os of
                   Inl e \<Rightarrow> Inl e
                 | Inr os' \<Rightarrow> Inr (od\<lparr>order_purchase_timestamp := t\<rparr> # os')))"

definition truncate_order :: "order \<Rightarrow> order" where
  "truncate_order od = od\<lparr>order_purchase_timestamp := month_start (order_purchase_timestamp od)\<rparr>"

definition date_timestamp :: "date \<Rightarrow> timestamp" where
  "date_timestamp d = (d, 0)"

definition in_date_range :: "date \<Rightarrow> date \<Rightarrow> order \<Rightarrow> bool" where
  "in_date_range s e od \<longleftrightarrow>
     date_timestamp s \<le> order_purchase_timestamp od \<and> order_purchase_timestamp od \<le> date_timestamp e"

definition filter_orders :: "order list \<Rightarrow> date \<Rightarrow> date \<Rightarrow> order list" where
  "filter_orders os s e = filter (in_date_range s e) os"

definition month_first_day :: "timestamp \<Rightarrow> date" where
  "month_first_day t = (ts_year t, ts_month t, 1)"

definition valid_orders :: "order list \<Rightarrow> bool" where
  "valid_orders os \<longleftrightarrow> list_all (\<lambda>od. valid_ts (order_purchase_timestamp od)) os"

lemma to_month_timestamp_valid:
  "valid_ts t \<Longrightarrow> to_month_timestamp t = Inr (month_start t)"
  by (simp add: to_month_timestamp_def parse_strftime_month_year)

lemma timestamp_le_midnight [simp]: "((d, 0) \<le> ((d', 0) :: timestamp)) \<longleftrightarrow> d \<le> d'"
  by (auto dest: less_imp_le)

lemma in_date_range_truncate [view_simps]:
  "in_date_range s e (truncate_order od) \<longleftrightarrow>
     s \<le> month_first_day (order_purchase_timestamp od) \<and> month_first_day (order_purchase_timestamp od) \<le> e"
  by (auto simp: in_date_range_def truncate_order_def month_start_def month_first_day_def
                 date_timestamp_def dest: less_imp_le)

lemma truncate_orders_map:
  "valid_orders os \<Longrightarrow> truncate_orders os = Inr (map truncate_order os)"
proof (induction os)
  case Nil
  then show ?case by simp
next
  case (Cons od os)
  then show ?case
    by (simp add: valid_orders_def to_month_timestamp_valid truncate_order_def)
qed

text \<open>
  C3. Loading never raises on valid data: when every purchase timestamp is a valid pandas
  timestamp, the print-and-parse of line 96 succeeds on every order and replaces each
  timestamp by the first instant of its month, leaving the other columns unchanged.
\<close>

theorem truncate_orders_valid:
  assumes "valid_orders os"
  shows "truncate_orders os = Inr (map truncate_order os)"
  using assms by (rule truncate_orders_map)

theorem truncate_orders_valid_witness:
  "valid_orders [\<lparr>order_id = ''O1'', customer_id = ''C1'', order_purchase_timestamp = ((2017, 3, 15), 43200)\<rparr>]
   \<and> truncate_orders [\<lparr>order_id = ''O1'', customer_id = ''C1'', order_purchase_timestamp = ((2017, 3, 15), 43200)\<rparr>]
     = Inr [\<lparr>order_id = ''O1'', customer_id = ''C1'', order_purchase_timestamp = ((2017, 3, 1), 0)\<rparr>]"
proof -
  have v: "valid_orders [\<lparr>order_id = ''O1'', customer_id = ''C1'', order_purchase_timestamp = ((2017, 3, 15), 43200)\<rparr>]"
    by (simp add: valid_orders_def valid_ts_def valid_date_def days_in_month_def DAYS_IN_MONTH_def)
  show ?thesis
    using v truncate_orders_valid [OF v]
    by (simp add: truncate_order_def month_start_def ts_year_def ts_month_def)
qed

text \<open>
  C4. The date filter decides by month: on the truncated orders, the filter of line 113
  keeps exactly the orders whose month's first day lies in the chosen range, both bounds
  inclusive, in their original order.
\<close>

theorem filter_truncated_by_month:
  "filter_orders (map truncate_order os) s e =
     map truncate_order
       (filter (\<lambda>od. s \<le> month_first_day (order_purchase_timestamp od)
                     \<and> month_first_day (order_purchase_timestamp od) \<le> e) os)"
  by (simp add: filter_orders_def filter_map comp_def in_date_range_truncate)

text \<open>
  C5. Day-level bounds are not honoured: an order placed on 2017-03-15 is dropped by the
  range 2017-03-02 .. 2017-03-31, which contains its day, and an order placed on
  2017-03-31 is kept by the range 2017-02-01 .. 2017-03-01, which does not.
\<close>

theorem filter_day_granularity:
  "filter_orders (map truncate_order
      [\<lparr>order_id = ''O1'', customer_id = ''C1'', order_purchase_timestamp = ((2017, 3, 15), 43200)\<rparr>])
      (2017, 3, 2) (2017, 3, 31) = []
   \<and> filter_orders (map truncate_order
      [\<lparr>order_id = ''O2'', customer_id = ''C1'', order_purchase_timestamp = ((2017, 3, 31), 0)\<rparr>])
      (2017, 2, 1) (2017, 3, 1)
     = [\<lparr>order_id = ''O2'', customer_id = ''C1'', order_purchase_timestamp = ((2017, 3, 1), 0)\<rparr>]"
  by (simp add: filter_orders_def in_date_range_truncate month_first_day_def ts_year_def ts_month_def,
      simp add: truncate_order_def month_start_def ts_year_def ts_month_def)

text \<open>
  C39. An inverted range selects nothing: when the end date precedes the start date the
  filter returns no order (spec section 6: an empty result, not an error).
\<close>

theorem filter_inverted_range:
  assumes "e < s"
  shows "filter_orders os s e = []"
  using assms by (auto simp: filter_orders_def in_date_range_def filter_empty_conv date_timestamp_def
                            less_eq_prod_def less_prod_def)

theorem filter_inverted_range_witness:
  "(2017, 1, 1) < ((2017, 2, 1) :: date)
   \<and> filter_orders [\<lparr>order_id = ''O1'', customer_id = ''C1'', order_purchase_timestamp = ((2017, 1, 1), 0)\<rparr>]
       (2017, 2, 1) (2017, 1, 1) = []"
proof -
  have h: "(2017, 1, 1) < ((2017, 2, 1) :: date)" by simp
  show ?thesis using h filter_inverted_range [OF h] by simp
qed

end
