(* ===== verification/MonthlyRevenue.thy ===== *)
theory MonthlyRevenue
  imports DateFilter
begin

text \<open>
  The Monthly Revenue view, \<open>monthly_revenue_df\<close> (\<open>src/dashboard.py\<close> lines 9--19):
  inner-merge the orders with the order items on \<open>order_id\<close> (line 10), label each row
  with its month (line 11), sum the prices per label (line 12, pandas sorts the labels
  as strings), parse the labels back to timestamps (line 13, a \<open>ValueError\<close> on a
  label that does not parse), sort by timestamp (line 14) and print the labels again
  (line 15). The lemmas show that on valid orders the view never raises, keeps the
  total revenue of the joined items, emits one row per month present, and is strictly
  chronological.
\<close>

definition revenue_rows :: "order list \<Rightarrow> order_item list \<Rightarrow> (string \<times> money) list" where
  "revenue_rows os ds =
     concat (map (\<lambda>od. map (\<lambda>d. (strftime_month_year (order_purchase_timestamp od), price d))
                          (filter (\<lambda>d. item_order_id d = order_id od) ds)) os)"

fun parse_labels :: "(string \<times> 'v) list \<Rightarrow> py_error + (timestamp \<times> 'v) list" where
  "parse_labels [] = Inr []"
| "parse_labels ((l, v) # rs) =
     (case parse_month_year l of
        None \<Rightarrow> Inl ValueError
      | Some t \<Rightarrow> (case parse_labels rs of Inl e \<Rightarrow> Inl e | Inr ps \<Rightarrow> Inr ((t, v) # ps)))"

definition monthly_revenue_df :: "order list \<Rightarrow> order_item list \<Rightarrow> py_error + (string \<times> money) list" where
  "monthly_revenue_df os ds =
     (case parse_labels (groupby_sum (revenue_rows os ds)) of
        Inl e \<Rightarrow> Inl e
      | Inr ps \<Rightarrow> Inr (map (\<lambda>(t, r). (strftime_month_year t, r)) (sort_key fst ps)))"

text \<open>The revenue the view redistributes: the prices of the items of the given orders.\<close>

definition joined_revenue :: "order list \<Rightarrow> order_item list \<Rightarrow> money" where
  "joined_revenue os ds =
     sum_list (concat (map (\<lambda>od. map price (filter (\<lambda>d. item_order_id d = order_id od) ds)) os))"

definition has_items :: "order_item list \<Rightarrow> order \<Rightarrow> bool" where
  "has_items ds od \<longleftrightarrow> filter (\<lambda>d. item_order_id d = order_id od) ds \<noteq> []"

definition months_present :: "order list \<Rightarrow> order_item list \<Rightarrow> timestamp list" where
  "months_present os ds = map (\<lambda>od. month_start (order_purchase_timestamp od)) (filter (has_items ds) os)"

subsection \<open>Labels of valid timestamps\<close>

lemma valid_month_start: "valid_ts t \<Longrightarrow> valid_ts (month_start t)"
  by (auto simp: valid_ts_def valid_date_def month_start_def ts_year_def ts_month_def
                 days_in_month_def DAYS_IN_MONTH_def split: prod.splits)

lemma label_reparse:
  "valid_ts t \<Longrightarrow> strftime_month_year (the (parse_month_year (strftime_month_year t))) = strftime_month_year t"
  by (simp add: parse_strftime_month_year)

lemma parse_labels_Inr:
  "(\<And>l. l \<in> fst ` set rs \<Longrightarrow> parse_month_year l \<noteq> None) \<Longrightarrow>
   parse_labels rs = Inr (map (\<lambda>(l, v). (the (parse_month_year l), v)) rs)"
proof (induction rs)
  case Nil
  then show ?case by simp
next
  case (Cons r rs)
  obtain l v where r: "r = (l, v)" by fastforce
  from Cons.prems r obtain t where "parse_month_year l = Some t" by force
  with Cons show ?case by (simp add: r)
qed

lemma revenue_rows_labels:
  "fst ` set (revenue_rows os ds) =
     strftime_month_year ` order_purchase_timestamp ` set (filter (has_items ds) os)"
  by (force simp: revenue_rows_def has_items_def filter_empty_conv)

lemma revenue_rows_prices:
  "sum_list (map snd (revenue_rows os ds)) = joined_revenue os ds"
  by (simp add: revenue_rows_def joined_revenue_def map_concat comp_def)

lemma monthly_revenue_df_valid:
  assumes "valid_orders os"
  shows "monthly_revenue_df os ds =
           Inr (map (\<lambda>(t, r). (strftime_month_year t, r))
                 (sort_key fst (map (\<lambda>(l, r). (the (parse_month_year l), r))
                                  (groupby_sum (revenue_rows os ds)))))"
proof -
  have "\<And>l. l \<in> fst ` set (groupby_sum (revenue_rows os ds)) \<Longrightarrow> parse_month_year l \<noteq> None"
  proof -
    fix l
    assume "l \<in> fst ` set (groupby_sum (revenue_rows os ds))"
    then have "l \<in> fst ` set (revenue_rows os ds)"
      using groupby_sum_keys [of "revenue_rows os ds"] set_group_keys
      by (metis set_map)
    then obtain od where "od \<in> set os" "l = strftime_month_year (order_purchase_timestamp od)"
      by (auto simp: revenue_rows_labels)
    with assms show "parse_month_year l \<noteq> None"
      by (simp add: valid_orders_def list_all_iff parse_strftime_month_year)
  qed
  then show ?thesis
    by (simp add: monthly_revenue_df_def parse_labels_Inr)
qed

lemma parse_strftime_the:
  "valid_ts t \<Longrightarrow> the (parse_month_year (strftime_month_year t)) = month_start t"
  by (simp add: parse_strftime_month_year)

lemma revenue_keys_valid:
  assumes "valid_orders os" and "l \<in> set (group_keys (revenue_rows os ds))"
  obtains od where "od \<in> set (filter (has_items ds) os)"
    and "l = strftime_month_year (order_purchase_timestamp od)"
    and "valid_ts (order_purchase_timestamp od)"
  using assms by (auto simp: set_group_keys revenue_rows_labels valid_orders_def list_all_iff)

lemma revenue_keys_inj:
  assumes "valid_orders os"
  shows "inj_on (\<lambda>l. the (parse_month_year l)) (set (group_keys (revenue_rows os ds)))"
proof (rule inj_onI)
  fix l1 l2
  assume l1: "l1 \<in> set (group_keys (revenue_rows os ds))" and l2: "l2 \<in> set (group_keys (revenue_rows os ds))"
    and eq: "the (parse_month_year l1) = the (parse_month_year l2)"
  have "\<exists>t. l1 = strftime_month_year t \<and> valid_ts t"
    by (rule revenue_keys_valid [OF assms l1]) blast
  then obtain t1 where t1: "l1 = strftime_month_year t1" "valid_ts t1" by blast
  have "\<exists>t. l2 = strftime_month_year t \<and> valid_ts t"
    by (rule revenue_keys_valid [OF assms l2]) blast
  then obtain t2 where t2: "l2 = strftime_month_year t2" "valid_ts t2" by blast
  have "month_start t1 = month_start t2"
    using eq unfolding t1(1) t2(1) parse_strftime_the [OF t1(2)] parse_strftime_the [OF t2(2)] .
  then have "strftime_month_year (month_start t1) = strftime_month_year (month_start t2)" by (rule arg_cong)
  then show "l1 = l2" unfolding t1(1) t2(1) strftime_month_start .
qed

lemma revenue_keys_months:
  assumes "valid_orders os"
  shows "(\<lambda>l. the (parse_month_year l)) ` set (group_keys (revenue_rows os ds)) = set (months_present os ds)"
proof -
  have "\<And>od. od \<in> set os \<Longrightarrow> the (parse_month_year (strftime_month_year (order_purchase_timestamp od)))
          = month_start (order_purchase_timestamp od)"
    using assms by (simp add: valid_orders_def list_all_iff parse_strftime_the)
  then show ?thesis
    by (force simp: set_group_keys revenue_rows_labels months_present_def image_image)
qed

lemma monthly_revenue_sum:
  assumes "valid_orders os" and "monthly_revenue_df os ds = Inr mr"
  shows "sum_list (map snd mr) = joined_revenue os ds"
proof -
  let ?g = "groupby_sum (revenue_rows os ds)"
  let ?ps = "map (\<lambda>(l, r). (the (parse_month_year l), r)) ?g"
  have mr: "mr = map (\<lambda>(t, r). (strftime_month_year t, r)) (sort_key fst ?ps)"
    using assms monthly_revenue_df_valid [OF assms(1)] by simp
  have "sum_list (map snd (map (\<lambda>(t, r). (strftime_month_year t, r)) (sort_key fst ?ps)))
        = sum_list (map snd (sort_key fst ?ps))"
    by (simp only: map_map comp_def case_prod_beta snd_conv)
  also have "\<dots> = sum_list (map snd ?ps)"
    by (rule sum_list_map_mset_eq) simp
  also have "\<dots> = sum_list (map snd ?g)"
    by (simp only: map_map comp_def case_prod_beta snd_conv)
  also have "\<dots> = joined_revenue os ds"
    by (simp add: groupby_sum_total revenue_rows_prices)
  finally show ?thesis unfolding mr .
qed

lemma monthly_revenue_labels:
  assumes "valid_orders os" and "monthly_revenue_df os ds = Inr mr"
  shows "mset (map fst mr) = mset (group_keys (revenue_rows os ds))"
proof -
  let ?ks = "group_keys (revenue_rows os ds)"
  let ?f = "\<lambda>l. the (parse_month_year l)"
  let ?ps = "map (\<lambda>(l, r). (?f l, r)) (groupby_sum (revenue_rows os ds))"
  have mr: "mr = map (\<lambda>(t, r). (strftime_month_year t, r)) (sort_key fst ?ps)"
    using assms monthly_revenue_df_valid [OF assms(1)] by simp
  have "map fst ?ps = map ?f (map fst (groupby_sum (revenue_rows os ds)))"
    by (simp only: map_map comp_def case_prod_beta fst_conv)
  then have keys: "map fst ?ps = map ?f ?ks" by (simp only: groupby_sum_keys)
  have "map fst mr = map strftime_month_year (map fst (sort_key fst ?ps))"
    by (simp add: mr comp_def case_prod_beta)
  then have "mset (map fst mr) = image_mset strftime_month_year (mset (map fst ?ps))"
    by (simp only: mset_map mset_sort)
  also have "\<dots> = mset (map (\<lambda>l. strftime_month_year (?f l)) ?ks)"
    unfolding keys by (simp add: multiset.map_comp comp_def)
  also have "map (\<lambda>l. strftime_month_year (?f l)) ?ks = ?ks"
  proof (rule map_idI)
    fix l assume l: "l \<in> set ?ks"
    have "\<exists>t. l = strftime_month_year t \<and> valid_ts t"
      by (rule revenue_keys_valid [OF assms(1) l]) blast
    then show "strftime_month_year (?f l) = l" by (auto simp: label_reparse)
  qed
  finally show ?thesis .
qed

lemma monthly_revenue_labels_distinct:
  "valid_orders os \<Longrightarrow> monthly_revenue_df os ds = Inr mr \<Longrightarrow> distinct (map fst mr)"
  using monthly_revenue_labels [of os ds mr] mset_eq_imp_distinct_iff
  by (metis distinct_remdups distinct_sort group_keys_def)

text \<open>
  C1. Conservation of revenue: on orders with valid timestamps the monthly revenue view
  returns without raising, and its revenues add up to the total price of the order items
  that belong to the given orders (spec section 8, first property).
\<close>

theorem monthly_revenue_conserves:
  assumes "valid_orders os"
  shows "\<exists>mr. monthly_revenue_df os ds = Inr mr \<and> sum_list (map snd mr) = joined_revenue os ds"
  using monthly_revenue_df_valid [OF assms] monthly_revenue_sum [OF assms] by blast

theorem monthly_revenue_conserves_witness:
  "valid_orders [\<lparr>order_id = ''O2'', customer_id = ''C1'', order_purchase_timestamp = ((2023, 2, 1), 0)\<rparr>,
       \<lparr>order_id = ''O1'', customer_id = ''C1'', order_purchase_timestamp = ((2023, 1, 1), 0)\<rparr>]
   \<and> (\<exists>mr. monthly_revenue_df [\<lparr>order_id = ''O2'', customer_id = ''C1'', order_purchase_timestamp = ((2023, 2, 1), 0)\<rparr>,
       \<lparr>order_id = ''O1'', customer_id = ''C1'', order_purchase_timestamp = ((2023, 1, 1), 0)\<rparr>]
      [\<lparr>item_order_id = ''O1'', product_id = ''P1'', price = 50\<rparr>,
       \<lparr>item_order_id = ''O2'', product_id = ''P2'', price = 30\<rparr>,
       \<lparr>item_order_id = ''O1'', product_id = ''P2'', price = 20\<rparr>] = Inr mr \<and> sum_list (map snd mr) = 100)"
proof -
  have v: "valid_orders [\<lparr>order_id = ''O2'', customer_id = ''C1'', order_purchase_timestamp = ((2023, 2, 1), 0)\<rparr>,
       \<lparr>order_id = ''O1'', customer_id = ''C1'', order_purchase_timestamp = ((2023, 1, 1), 0)\<rparr>]"
    by (simp add: valid_orders_def valid_ts_def valid_date_def days_in_month_def DAYS_IN_MONTH_def)
  show ?thesis
    using v monthly_revenue_conserves [OF v, of "[\<lparr>item_order_id = ''O1'', product_id = ''P1'', price = 50\<rparr>,
       \<lparr>item_order_id = ''O2'', product_id = ''P2'', price = 30\<rparr>,
       \<lparr>item_order_id = ''O1'', product_id = ''P2'', price = 20\<rparr>]"]
    by (simp add: joined_revenue_def)
qed

text \<open>
  C2. The monthly revenue view is strictly chronological with one row per month present:
  its labels are the labels of a strictly increasing list of month starts, and these are
  exactly the months of the given orders that have at least one item (months without
  matching orders are omitted, not zero-filled).
\<close>

theorem monthly_revenue_chronological:
  assumes "valid_orders os"
  shows "\<exists>mr ts. monthly_revenue_df os ds = Inr mr \<and> map fst mr = map strftime_month_year ts
                 \<and> sorted_wrt (<) ts \<and> set ts = set (months_present os ds)"
proof -
  let ?g = "groupby_sum (revenue_rows os ds)"
  let ?f = "\<lambda>l. the (parse_month_year l)"
  let ?ps = "map (\<lambda>(l, r). (?f l, r)) ?g"
  let ?ts = "map fst (sort_key fst ?ps)"
  have "map fst ?ps = map ?f (map fst ?g)"
    by (simp only: map_map comp_def case_prod_beta fst_conv)
  then have keys: "map fst ?ps = map ?f (group_keys (revenue_rows os ds))"
    by (simp only: groupby_sum_keys)
  have "distinct (map fst ?ps)"
    unfolding keys using revenue_keys_inj [OF assms]
    by (simp add: distinct_map group_keys_def)
  moreover have "mset (map fst ?ps) = mset ?ts" by (simp only: mset_map mset_sort)
  ultimately have "distinct ?ts" by (metis mset_eq_imp_distinct_iff)
  moreover have "sorted ?ts" by (rule sorted_sort_key)
  ultimately have strict: "sorted_wrt (<) ?ts" by (simp add: strict_sorted_iff)
  have "set ?ts = set (map fst ?ps)" by (simp only: set_map set_sort)
  also have "\<dots> = set (months_present os ds)"
    unfolding keys using revenue_keys_months [OF assms] by simp
  finally have months: "set ?ts = set (months_present os ds)" .
  have "map fst (map (\<lambda>(t, r). (strftime_month_year t, r)) (sort_key fst ?ps)) = map strftime_month_year ?ts"
    by (simp add: comp_def case_prod_beta)
  with strict months monthly_revenue_df_valid [OF assms] show ?thesis by blast
qed


theorem monthly_revenue_chronological_witness:
  "valid_orders [\<lparr>order_id = ''O2'', customer_id = ''C1'', order_purchase_timestamp = ((2023, 2, 1), 0)\<rparr>,
       \<lparr>order_id = ''O1'', customer_id = ''C1'', order_purchase_timestamp = ((2023, 1, 1), 0)\<rparr>]
   \<and> (\<exists>mr ts. monthly_revenue_df [\<lparr>order_id = ''O2'', customer_id = ''C1'', order_purchase_timestamp = ((2023, 2, 1), 0)\<rparr>,
       \<lparr>order_id = ''O1'', customer_id = ''C1'', order_purchase_timestamp = ((2023, 1, 1), 0)\<rparr>]
      [\<lparr>item_order_id = ''O1'', product_id = ''P1'', price = 50\<rparr>,
       \<lparr>item_order_id = ''O2'', product_id = ''P2'', price = 30\<rparr>,
       \<lparr>item_order_id = ''O1'', product_id = ''P2'', price = 20\<rparr>] = Inr mr
      \<and> map fst mr = map strftime_month_year ts \<and> sorted_wrt (<) ts
      \<and> set ts = {((2023, 1, 1), 0), ((2023, 2, 1), 0)})"
proof -
  have v: "valid_orders [\<lparr>order_id = ''O2'', customer_id = ''C1'', order_purchase_timestamp = ((2023, 2, 1), 0)\<rparr>,
       \<lparr>order_id = ''O1'', customer_id = ''C1'', order_purchase_timestamp = ((2023, 1, 1), 0)\<rparr>]"
    by (simp add: valid_orders_def valid_ts_def valid_date_def days_in_month_def DAYS_IN_MONTH_def)
  show ?thesis
    using v monthly_revenue_chronological [OF v, of "[\<lparr>item_order_id = ''O1'', product_id = ''P1'', price = 50\<rparr>,
       \<lparr>item_order_id = ''O2'', product_id = ''P2'', price = 30\<rparr>,
       \<lparr>item_order_id = ''O1'', product_id = ''P2'', price = 20\<rparr>]"]
    by (simp add: months_present_def has_items_def month_start_def ts_year_def ts_month_def insert_commute)
qed

end
