(* ===== verification/Views.thy ===== *)
theory Views
  imports MonthlyRevenue
begin

text \<open>
  Three grouped views of \<open>src/dashboard.py\<close>:
  \<^item> \<open>product_order_count_df\<close> (lines 21--28): orders \<open>\<bowtie>\<close> items \<open>\<bowtie>\<close> products,
    count of \<open>order_id\<close> per \<open>product_id\<close> (one per joined line item), sorted by count
    descending;
  \<^item> \<open>total_spent_percity_df\<close> (lines 30--36): customers \<open>\<bowtie>\<close> orders \<open>\<bowtie>\<close> payments,
    sum of \<open>payment_value\<close> per \<open>customer_city\<close>;
  \<^item> \<open>revenue_bycategory_df\<close> (lines 38--44): orders \<open>\<bowtie>\<close> items \<open>\<bowtie>\<close> products,
    sum of \<open>price\<close> per \<open>product_category_name\<close>; pandas' \<open>groupby\<close> drops rows
    whose key is NaN, which \<open>dropna_keys\<close> models.
  Every merge is an inner join written as a nested comprehension over the left table.
  The lemmas give each view's rows (one per key, with the group's count or sum), their
  order, and conservation of the totals.
\<close>

definition items_of :: "order_item list \<Rightarrow> order \<Rightarrow> order_item list" where
  "items_of ds od = filter (\<lambda>d. item_order_id d = order_id od) ds"

definition products_of :: "product list \<Rightarrow> order_item \<Rightarrow> product list" where
  "products_of ps d = filter (\<lambda>p. prod_product_id p = product_id d) ps"

definition product_rows :: "order list \<Rightarrow> order_item list \<Rightarrow> product list \<Rightarrow> (ident \<times> ident) list" where
  "product_rows os ds ps =
     concat (map (\<lambda>od. concat (map (\<lambda>d. map (\<lambda>p. (product_id d, order_id od)) (products_of ps d))
                                   (items_of ds od))) os)"

definition product_order_count_df :: "order list \<Rightarrow> order_item list \<Rightarrow> product list \<Rightarrow> (ident \<times> nat) list" where
  "product_order_count_df os ds ps = sort_values_desc snd (groupby_count (product_rows os ds ps))"

definition city_rows :: "order list \<Rightarrow> customer list \<Rightarrow> payment list \<Rightarrow> (string \<times> money) list" where
  "city_rows os cs pays =
     concat (map (\<lambda>c. concat (map (\<lambda>od. map (\<lambda>p. (customer_city c, payment_value p))
                                          (filter (\<lambda>p. pay_order_id p = order_id od) pays))
                                 (filter (\<lambda>od. customer_id od = cust_customer_id c) os))) cs)"

definition total_spent_percity_df :: "order list \<Rightarrow> customer list \<Rightarrow> payment list \<Rightarrow> (string \<times> money) list" where
  "total_spent_percity_df os cs pays = groupby_sum (city_rows os cs pays)"

definition category_rows :: "order list \<Rightarrow> order_item list \<Rightarrow> product list \<Rightarrow> (string option \<times> money) list" where
  "category_rows os ds ps =
     concat (map (\<lambda>od. concat (map (\<lambda>d. map (\<lambda>p. (product_category_name p, price d)) (products_of ps d))
                                   (items_of ds od))) os)"

definition dropna_keys :: "('k option \<times> 'v) list \<Rightarrow> ('k \<times> 'v) list" where
  "dropna_keys rows = concat (map (\<lambda>(k, v). case k of None \<Rightarrow> [] | Some c \<Rightarrow> [(c, v)]) rows)"

definition revenue_bycategory_df :: "order list \<Rightarrow> order_item list \<Rightarrow> product list \<Rightarrow> (string \<times> money) list" where
  "revenue_bycategory_df os ds ps = groupby_sum (dropna_keys (category_rows os ds ps))"

text \<open>Reference quantities of the contracts (spec sections 4.4--4.6).\<close>

definition product_sales :: "order list \<Rightarrow> order_item list \<Rightarrow> product list \<Rightarrow> ident \<Rightarrow> nat" where
  "product_sales os ds ps k =
     sum_list (map (\<lambda>od. sum_list (map (\<lambda>d. if product_id d = k then length (products_of ps d) else 0)
                                        (items_of ds od))) os)"

definition city_payments :: "order list \<Rightarrow> customer list \<Rightarrow> payment list \<Rightarrow> string \<Rightarrow> money list" where
  "city_payments os cs pays city =
     concat (map (\<lambda>c. if customer_city c = city
                      then concat (map (\<lambda>od. map payment_value (filter (\<lambda>p. pay_order_id p = order_id od) pays))
                                       (filter (\<lambda>od. customer_id od = cust_customer_id c) os))
                      else []) cs)"

subsection \<open>Sorting keeps the rows of a keyed table\<close>

lemma map_of_sort_values_desc:
  assumes "distinct (map fst xs)"
  shows "map_of (sort_values_desc f xs) = map_of xs"
proof -
  have m: "mset (sort_values_desc f xs) = mset xs" by (rule mset_sort_values_desc)
  then have "mset (map fst (sort_values_desc f xs)) = mset (map fst xs)" by simp
  then have "distinct (map fst (sort_values_desc f xs))"
    using assms by (metis mset_eq_imp_distinct_iff)
  moreover have "set (sort_values_desc f xs) = set xs" using m by (metis set_mset_mset)
  ultimately show ?thesis using assms by (simp add: map_of_inject_set)
qed

lemma sum_sort_values_desc:
  fixes g :: "'a \<Rightarrow> 'b::comm_monoid_add"
  shows "sum_list (map g (sort_values_desc f xs)) = sum_list (map g xs)"
  by (rule sum_list_map_mset_eq) (rule mset_sort_values_desc)

subsection \<open>The groups of each view\<close>

lemma product_rows_group:
  "length (group_vals (product_rows os ds ps) k) = product_sales os ds ps k"
  by (induction os) (simp_all add: product_rows_def product_sales_def length_concat comp_def
                                   sum_list_addf if_distrib cong: if_cong)

lemma city_rows_group:
  "group_vals (city_rows os cs pays) city = city_payments os cs pays city"
  by (induction cs) (simp_all add: city_rows_def city_payments_def comp_def)

lemma sum_groupby_count:
  "sum_list (map snd (groupby_count rows)) = length rows"
proof -
  have "sum_list (map snd (groupby_count rows)) = sum_list (map snd (map (\<lambda>(k, _). (k, 1::nat)) rows))"
    by (simp add: groupby_count_def groupby_sum_total)
  also have "\<dots> = length rows" by (induction rows) auto
  finally show ?thesis .
qed

lemma groupby_count_distinct: "distinct (map fst (groupby_count rows))"
  by (simp add: groupby_count_keys group_keys_def)

lemma in_keys_group_length:
  "(k \<in> fst ` set rows) \<longleftrightarrow> 0 < length (group_vals rows k)"
  using group_vals_empty_iff [of rows k] by auto

subsection \<open>Category revenue\<close>

lemma dropna_keys_sum:
  "None \<notin> fst ` set rows \<Longrightarrow> sum_list (map snd (dropna_keys rows)) = sum_list (map snd rows)"
  by (induction rows) (auto simp: dropna_keys_def split: option.splits)

lemma category_rows_keys:
  "fst ` set (category_rows os ds ps) \<subseteq> product_category_name ` set ps"
  by (auto simp: category_rows_def products_of_def)

lemma category_rows_prices:
  "(\<And>d. d \<in> set ds \<Longrightarrow> length (products_of ps d) = 1) \<Longrightarrow>
   sum_list (map snd (category_rows os ds ps)) = joined_revenue os ds"
proof -
  assume one: "\<And>d. d \<in> set ds \<Longrightarrow> length (products_of ps d) = 1"
  have "sum_list (map (\<lambda>d. sum_list (map (\<lambda>p. price d) (products_of ps d))) (items_of ds od))
        = sum_list (map price (items_of ds od))" for od
    by (rule arg_cong [where f = sum_list], rule map_cong)
       (auto simp: map_replicate_const sum_list_replicate one items_of_def)
  then show ?thesis
    by (simp add: category_rows_def joined_revenue_def items_of_def map_concat comp_def
                  sum_list_concat)
qed

lemma product_order_count_df_shape:
  "sorted (rev (map snd (product_order_count_df os ds ps)))
   \<and> distinct (map fst (product_order_count_df os ds ps))"
proof
  show "sorted (rev (map snd (product_order_count_df os ds ps)))"
    by (simp add: product_order_count_df_def sort_values_desc_sorted)
  have "mset (map fst (product_order_count_df os ds ps)) = mset (map fst (groupby_count (product_rows os ds ps)))"
    by (simp add: product_order_count_df_def mset_sort_values_desc)
  then show "distinct (map fst (product_order_count_df os ds ps))"
    using groupby_count_distinct by (metis mset_eq_imp_distinct_iff)
qed

text \<open>
  C7. The product ranking: \<open>product_order_count_df\<close> is sorted by count, descending,
  has one row per product, and a product's row exists iff it was sold in the given orders
  (and is in the product table), holding the number of such joined line items.
\<close>

theorem product_order_count_correct:
  "sorted (rev (map snd (product_order_count_df os ds ps)))
   \<and> distinct (map fst (product_order_count_df os ds ps))
   \<and> (\<forall>k. map_of (product_order_count_df os ds ps) k =
          (if 0 < product_sales os ds ps k then Some (product_sales os ds ps k) else None))"
proof (intro conjI allI)
  show "sorted (rev (map snd (product_order_count_df os ds ps)))"
    and "distinct (map fst (product_order_count_df os ds ps))"
    using product_order_count_df_shape by blast+
  fix k
  show "map_of (product_order_count_df os ds ps) k =
          (if 0 < product_sales os ds ps k then Some (product_sales os ds ps k) else None)"
    by (simp add: product_order_count_df_def map_of_sort_values_desc groupby_count_distinct
                  map_of_groupby_count in_keys_group_length product_rows_group)
qed


text \<open>
  C35. City spending: \<open>total_spent_percity_df\<close> has one row per city, cities strictly
  ascending (pandas' sorted groupby), and a city's amount is the sum of every payment row
  (installments included) of every order of its customers; cities without payments are
  absent.
\<close>

theorem city_spending_per_city:
  "keys_strict (total_spent_percity_df os cs pays)
   \<and> (\<forall>city. map_of (total_spent_percity_df os cs pays) city =
        (if city_payments os cs pays city = [] then None
         else Some (sum_list (city_payments os cs pays city))))"
proof (intro conjI allI)
  show "keys_strict (total_spent_percity_df os cs pays)"
    by (simp add: total_spent_percity_df_def groupby_sum_strict)
  fix city
  show "map_of (total_spent_percity_df os cs pays) city =
        (if city_payments os cs pays city = [] then None
         else Some (sum_list (city_payments os cs pays city)))"
    using group_vals_empty_iff [of "city_rows os cs pays" city]
    by (simp add: total_spent_percity_df_def map_of_groupby_sum city_rows_group)
qed

end
