(* ===== verification/RFM.thy ===== *)
theory RFM
  imports Views
begin

text \<open>
  The RFM view, \<open>create_rfm_df\<close> (\<open>src/dashboard.py\<close> lines 46--79). The item prices
  are summed per order (line 47), merged with the orders and the customers (lines 49--50),
  and each row gets the purchase date (line 52). Per \<open>customer_unique_id\<close> the code
  computes the latest date (line 54) and the Recency in days before the latest date of the
  whole population (lines 55--56), the Frequency as the count of the de-duplicated rows
  (line 58) and the Monetary sum (line 61). It merges the three tables (lines 64--65),
  ranks each column with average ranks (lines 67--69), normalizes the ranks by the column
  maximum (lines 71--73) and combines them into the score (line 77). Line 73 divides
  the \<^emph>\<open>Frequency\<close> rank by the maximum \<^emph>\<open>Monetary\<close> rank; the model keeps that.
\<close>

record rfm_data_row =
  rd_order_id :: ident
  rd_price :: money
  rd_customer_id :: ident
  rd_timestamp :: timestamp
  rd_unique_id :: ident
  rd_city :: string
  rd_order_date :: date

record rfm_row =
  rfm_unique_id :: ident
  Recency :: int
  Frequency :: nat
  Monetary :: money
  R_rank_norm :: rat
  F_rank_norm :: rat
  M_rank_norm :: rat
  RFM_Score :: rat

definition order_totals :: "order_item list \<Rightarrow> (ident \<times> money) list" where
  "order_totals ds = groupby_sum (map (\<lambda>d. (item_order_id d, price d)) ds)"

definition rfm_data :: "order list \<Rightarrow> order_item list \<Rightarrow> customer list \<Rightarrow> rfm_data_row list" where
  "rfm_data os ds cs =
     concat (map (\<lambda>(oid, total).
       concat (map (\<lambda>od.
         map (\<lambda>c. \<lparr>rd_order_id = oid, rd_price = total, rd_customer_id = customer_id od,
                   rd_timestamp = order_purchase_timestamp od, rd_unique_id = customer_unique_id c,
                   rd_city = customer_city c, rd_order_date = ts_date (order_purchase_timestamp od)\<rparr>)
             (filter (\<lambda>c. cust_customer_id c = customer_id od) cs))
         (filter (\<lambda>od. order_id od = oid) os))) (order_totals ds))"

definition recency_table :: "rfm_data_row list \<Rightarrow> (ident \<times> date) list" where
  "recency_table data = groupby_max (map (\<lambda>r. (rd_unique_id r, rd_order_date r)) data)"

definition frequency_table :: "rfm_data_row list \<Rightarrow> (ident \<times> nat) list" where
  "frequency_table data = groupby_count (map (\<lambda>r. (rd_unique_id r, rd_order_date r)) (drop_duplicates data))"

definition monetary_table :: "rfm_data_row list \<Rightarrow> (ident \<times> money) list" where
  "monetary_table data = groupby_sum (map (\<lambda>r. (rd_unique_id r, rd_price r)) data)"

definition days_between :: "date \<Rightarrow> date \<Rightarrow> int" where
  "days_between a b = int (toordinal a) - int (toordinal b)"

text \<open>Lines 54--65: the recency table, its Recency column, and the two inner merges.\<close>

definition rfm_base :: "rfm_data_row list \<Rightarrow> (ident \<times> int \<times> nat \<times> money) list" where
  "rfm_base data =
     (let rec = recency_table data; freq = frequency_table data; mon = monetary_table data
      in case series_max (map snd rec) of
           None \<Rightarrow> []
         | Some recent \<Rightarrow>
             concat (map (\<lambda>(u, dt).
               (case map_of freq u of
                  None \<Rightarrow> []
                | Some f \<Rightarrow> (case map_of mon u of
                              None \<Rightarrow> []
                            | Some m \<Rightarrow> [(u, days_between recent dt, f, m)]))) rec))"

text \<open>Lines 71--73: a rank column divided by the maximum of a (possibly other) rank column.\<close>

definition normalize_by :: "rat list \<Rightarrow> rat list \<Rightarrow> rat list" where
  "normalize_by num den =
     (case series_max den of None \<Rightarrow> [] | Some mx \<Rightarrow> map (\<lambda>r. r / mx * 100) num)"

definition rfm_score :: "rat \<Rightarrow> rat \<Rightarrow> rat \<Rightarrow> rat" where
  "rfm_score rn fn mn = 15 / 100 * rn + 28 / 100 * fn + 57 / 100 * mn"

text \<open>Reference quantities: a customer's Frequency and Monetary as the spec reads them.\<close>

definition rfm_frequency :: "rfm_data_row list \<Rightarrow> ident \<Rightarrow> nat" where
  "rfm_frequency data u = length (filter (\<lambda>r. rd_unique_id r = u) (drop_duplicates data))"

definition rfm_monetary :: "rfm_data_row list \<Rightarrow> ident \<Rightarrow> money" where
  "rfm_monetary data u = sum_list (map rd_price (filter (\<lambda>r. rd_unique_id r = u) data))"

definition create_rfm_df :: "order list \<Rightarrow> order_item list \<Rightarrow> customer list \<Rightarrow> rfm_row list" where
  "create_rfm_df os ds cs =
     (let base = rfm_base (rfm_data os ds cs);
          R = series_rank False (map (\<lambda>(u, r, f, m). r) base);
          F = series_rank True (map (\<lambda>(u, r, f, m). f) base);
          M = series_rank True (map (\<lambda>(u, r, f, m). m) base);
          Rn = normalize_by R R; Fn = normalize_by F F; Mn = normalize_by F M
      in map (\<lambda>((u, r, f, m), rn, fn, mn).
               \<lparr>rfm_unique_id = u, Recency = r, Frequency = f, Monetary = m,
                R_rank_norm = rn, F_rank_norm = fn, M_rank_norm = mn,
                RFM_Score = rfm_score rn fn mn\<rparr>)
             (zip base (zip Rn (zip Fn Mn))))"

text \<open>
  An example population: customer U1 places two orders in January 2023 (prices 30 and 20),
  customer U2 one order in March 2023 (price 50); both spend 50.
\<close>

definition ex_orders :: "order list" where
  "ex_orders =
     [\<lparr>order_id = ''O1'', customer_id = ''C1'', order_purchase_timestamp = ((2023, 1, 1), 0)\<rparr>,
      \<lparr>order_id = ''O2'', customer_id = ''C1'', order_purchase_timestamp = ((2023, 1, 1), 0)\<rparr>,
      \<lparr>order_id = ''O3'', customer_id = ''C2'', order_purchase_timestamp = ((2023, 3, 1), 0)\<rparr>]"

definition ex_items :: "order_item list" where
  "ex_items =
     [\<lparr>item_order_id = ''O1'', product_id = ''P1'', price = 30\<rparr>,
      \<lparr>item_order_id = ''O2'', product_id = ''P1'', price = 20\<rparr>,
      \<lparr>item_order_id = ''O3'', product_id = ''P1'', price = 50\<rparr>]"

definition ex_customers :: "customer list" where
  "ex_customers =
     [\<lparr>cust_customer_id = ''C1'', customer_unique_id = ''U1'', customer_city = ''CityA''\<rparr>,
      \<lparr>cust_customer_id = ''C2'', customer_unique_id = ''U2'', customer_city = ''CityB''\<rparr>]"

subsection \<open>The three per-customer tables share their keys\<close>

lemma group_keys_map_uid:
  "group_keys (map (\<lambda>r. (rd_unique_id r, g r)) xs) = sorted_list_of_set (rd_unique_id ` set xs)"
proof -
  have "rd_unique_id ` set xs = set (map rd_unique_id xs)" by simp
  then show ?thesis
    by (simp only: group_keys_def map_map comp_def fst_conv sorted_list_of_set_sort_remdups)
qed

lemma recency_table_keys: "map fst (recency_table data) = sorted_list_of_set (rd_unique_id ` set data)"
  by (simp add: recency_table_def groupby_max_def groupby_agg_keys group_keys_map_uid)

lemma map_of_frequency_table:
  "u \<in> rd_unique_id ` set data \<Longrightarrow> map_of (frequency_table data) u = Some (rfm_frequency data u)"
  by (auto simp: frequency_table_def map_of_groupby_count rfm_frequency_def set_drop_duplicates
                 image_image)

lemma map_of_monetary_table:
  "u \<in> rd_unique_id ` set data \<Longrightarrow> map_of (monetary_table data) u = Some (rfm_monetary data u)"
  by (auto simp: monetary_table_def map_of_groupby_sum rfm_monetary_def image_image comp_def)

lemma recency_table_Nil: "recency_table data = [] \<longleftrightarrow> data = []"
proof -
  have "recency_table data = [] \<longleftrightarrow> map fst (recency_table data) = []" by simp
  also have "\<dots> \<longleftrightarrow> data = []" by (simp add: recency_table_keys)
  finally show ?thesis .
qed

lemma recency_table_key_mem:
  "(u, dt) \<in> set (recency_table data) \<Longrightarrow> u \<in> rd_unique_id ` set data"
proof -
  assume "(u, dt) \<in> set (recency_table data)"
  then have "u \<in> set (map fst (recency_table data))" by force
  then show ?thesis by (simp add: recency_table_keys)
qed

lemma recency_table_date_mem:
  "(u, dt) \<in> set (recency_table data) \<Longrightarrow> \<exists>r\<in>set data. rd_order_date r = dt \<and> rd_unique_id r = u"
  unfolding recency_table_def by (drule groupby_max_mem) (force simp: comp_def)

text \<open>On a non-empty population the merges of lines 64--65 drop nobody.\<close>

lemma rfm_base_eq:
  assumes "data \<noteq> []"
  obtains recent where "series_max (map snd (recency_table data)) = Some recent"
    and "rfm_base data =
           map (\<lambda>p. (fst p, days_between recent (snd p), rfm_frequency data (fst p), rfm_monetary data (fst p)))
               (recency_table data)"
proof -
  from assms have "map snd (recency_table data) \<noteq> []" by (simp add: recency_table_Nil)
  then obtain recent where rec: "series_max (map snd (recency_table data)) = Some recent"
    by (cases "map snd (recency_table data)") (simp_all add: series_max_def)
  have "rfm_base data =
          concat (map (\<lambda>p. [(fst p, days_between recent (snd p), rfm_frequency data (fst p), rfm_monetary data (fst p))])
                 (recency_table data))"
    unfolding rfm_base_def Let_def rec option.case
    by (intro arg_cong [where f = concat] map_cong)
       (auto simp: map_of_frequency_table map_of_monetary_table dest: recency_table_key_mem)
  then show ?thesis using rec that by (simp only: concat_map_singleton_fun)
qed

subsection \<open>The columns of the result\<close>

lemma length_normalize_by:
  "den \<noteq> [] \<Longrightarrow> length (normalize_by num den) = length num"
  by (cases den) (simp_all add: normalize_by_def series_max_def)

lemma create_rfm_df_base:
  "map (\<lambda>row. (rfm_unique_id row, Recency row, Frequency row, Monetary row)) (create_rfm_df os ds cs)
     = rfm_base (rfm_data os ds cs)"
proof (cases "rfm_base (rfm_data os ds cs) = []")
  case True
  then show ?thesis by (simp add: create_rfm_df_def Let_def)
next
  case False
  let ?b = "rfm_base (rfm_data os ds cs)"
  have l: "length (series_rank asc (map g ?b)) = length ?b" for asc and g :: "_ \<Rightarrow> 'x::linorder"
    by simp
  have ne: "series_rank asc (map g ?b) \<noteq> []" for asc and g :: "_ \<Rightarrow> 'x::linorder"
    using False by (simp add: series_rank_def)
  show ?thesis
    using False
    by (simp add: create_rfm_df_def Let_def length_normalize_by ne series_rank_def comp_def
                  case_prod_beta map_fst_zip)
qed

lemma create_rfm_df_mem:
  assumes "row \<in> set (create_rfm_df os ds cs)"
  defines "b \<equiv> rfm_base (rfm_data os ds cs)"
  shows "R_rank_norm row \<in> set (normalize_by (series_rank False (map (\<lambda>(u, r, f, m). r) b))
                                                (series_rank False (map (\<lambda>(u, r, f, m). r) b)))"
    and "F_rank_norm row \<in> set (normalize_by (series_rank True (map (\<lambda>(u, r, f, m). f) b))
                                                (series_rank True (map (\<lambda>(u, r, f, m). f) b)))"
    and "M_rank_norm row \<in> set (normalize_by (series_rank True (map (\<lambda>(u, r, f, m). f) b))
                                                (series_rank True (map (\<lambda>(u, r, f, m). m) b)))"
    and "RFM_Score row = rfm_score (R_rank_norm row) (F_rank_norm row) (M_rank_norm row)"
  using assms(1) unfolding b_def create_rfm_df_def Let_def
  by (auto dest!: set_zip4D)

lemmas rfm_eval = create_rfm_df_def rfm_base_def rfm_data_def order_totals_def groupby_sum_def
  groupby_agg_def recency_table_def frequency_table_def monetary_table_def groupby_max_def
  groupby_count_def drop_duplicates_def series_max_def series_rank_def rank_avg_def normalize_by_def
  rfm_score_def days_between_def toordinal_def days_before_year_def days_before_month_def
  DAYS_IN_MONTH_def is_leap_def ts_date_def Let_def

subsection \<open>Bounds of the normalized ranks\<close>

lemma normalize_by_mem:
  "x \<in> set (normalize_by num den) \<Longrightarrow>
   \<exists>r mx. r \<in> set num \<and> series_max den = Some mx \<and> x = r / mx * 100"
  unfolding normalize_by_def by (cases "series_max den") auto

lemma normalize_self_bounds:
  assumes "x \<in> set (normalize_by (series_rank asc xs) (series_rank asc xs))"
  shows "0 < x \<and> x \<le> 100"
proof -
  obtain r mx where r: "r \<in> set (series_rank asc xs)" and mx: "series_max (series_rank asc xs) = Some mx"
    and x: "x = r / mx * 100"
    using normalize_by_mem [OF assms] by blast
  have "1 \<le> r" using series_rank_bounds [OF r] by simp
  moreover have "r \<le> mx" using series_max_ge [OF mx r] .
  ultimately have p: "0 < r / mx" and le: "r / mx \<le> 1" by simp_all
  have "0 < r / mx * 100" using p by (rule mult_pos_pos) simp
  moreover have "r / mx * 100 \<le> 1 * 100" using le by (rule mult_right_mono) simp
  ultimately show ?thesis using x by simp
qed

lemma normalize_cross_bounds:
  assumes "length ys = length xs"
    and "x \<in> set (normalize_by (series_rank True xs) (series_rank True ys))"
  shows "0 < x \<and> x < 200"
proof -
  obtain r mx where r: "r \<in> set (series_rank True xs)" and mx: "series_max (series_rank True ys) = Some mx"
    and x: "x = r / mx * 100"
    using normalize_by_mem [OF assms(2)] by blast
  have "ys \<noteq> []" using mx by (auto simp: series_max_def series_rank_def)
  then have half: "(of_nat (length ys) + 1) / 2 \<le> mx" by (rule series_rank_max_ge [OF _ mx])
  have r1: "1 \<le> r" and rn: "r \<le> of_nat (length xs)" using series_rank_bounds [OF r] by simp_all
  have mx0: "0 < mx" using half by (simp add: field_simps)
  have "r < 2 * mx" using half rn assms(1) by (simp add: field_simps)
  then have lt: "r / mx < 2" using mx0 by (simp add: divide_less_eq)
  have p: "0 < r / mx" using r1 mx0 by simp
  have "0 < r / mx * 100" using p by (rule mult_pos_pos) simp
  moreover have "r / mx * 100 < 2 * 100" using lt by (rule mult_strict_right_mono) simp
  ultimately show ?thesis using x by simp
qed

subsection \<open>Recency\<close>

lemma toordinal_mono:
  "valid_date d1 \<Longrightarrow> valid_date d2 \<Longrightarrow> d1 \<le> d2 \<Longrightarrow> toordinal d1 \<le> toordinal d2"
  by (cases "d1 = d2") (auto dest: toordinal_strict_mono)

lemma rfm_data_dates_valid:
  assumes "valid_orders os" and "r \<in> set (rfm_data os ds cs)"
  shows "valid_date (rd_order_date r)"
proof -
  from assms(2) obtain od where "od \<in> set os" and "rd_order_date r = ts_date (order_purchase_timestamp od)"
    by (auto simp: rfm_data_def split: prod.splits)
  moreover from assms(1) \<open>od \<in> set os\<close> have "valid_ts (order_purchase_timestamp od)"
    by (simp add: valid_orders_def list_all_iff)
  ultimately show ?thesis
    by (cases "order_purchase_timestamp od") (auto simp: valid_ts_def ts_date_def)
qed

lemma rfm_base_mem_out:
  "x \<in> set (rfm_base (rfm_data os ds cs)) \<Longrightarrow>
   \<exists>row\<in>set (create_rfm_df os ds cs). (rfm_unique_id row, Recency row, Frequency row, Monetary row) = x"
  using create_rfm_df_base [of os ds cs] by (metis (no_types, lifting) imageE list.set_map)

lemma rfm_out_mem_base:
  "row \<in> set (create_rfm_df os ds cs) \<Longrightarrow>
   (rfm_unique_id row, Recency row, Frequency row, Monetary row) \<in> set (rfm_base (rfm_data os ds cs))"
  using create_rfm_df_base [of os ds cs] by (metis (no_types, lifting) image_eqI list.set_map)

subsection \<open>The example population evaluated\<close>

lemma ex_orders_valid: "valid_orders ex_orders"
  by (simp add: ex_orders_def valid_orders_def valid_ts_def valid_date_def days_in_month_def
                DAYS_IN_MONTH_def)

lemma ex_rfm_data:
  "rfm_data ex_orders ex_items ex_customers =
     [\<lparr>rd_order_id = ''O1'', rd_price = 30, rd_customer_id = ''C1'', rd_timestamp = ((2023, 1, 1), 0),
       rd_unique_id = ''U1'', rd_city = ''CityA'', rd_order_date = (2023, 1, 1)\<rparr>,
      \<lparr>rd_order_id = ''O2'', rd_price = 20, rd_customer_id = ''C1'', rd_timestamp = ((2023, 1, 1), 0),
       rd_unique_id = ''U1'', rd_city = ''CityA'', rd_order_date = (2023, 1, 1)\<rparr>,
      \<lparr>rd_order_id = ''O3'', rd_price = 50, rd_customer_id = ''C2'', rd_timestamp = ((2023, 3, 1), 0),
       rd_unique_id = ''U2'', rd_city = ''CityB'', rd_order_date = (2023, 3, 1)\<rparr>]"
  by (simp add: ex_orders_def ex_items_def ex_customers_def rfm_eval)

lemma ex_create_rfm_df:
  "create_rfm_df ex_orders ex_items ex_customers =
     [\<lparr>rfm_unique_id = ''U1'', Recency = 59, Frequency = 2, Monetary = 50,
       R_rank_norm = 50, F_rank_norm = 100, M_rank_norm = 400 / 3, RFM_Score = 223 / 2\<rparr>,
      \<lparr>rfm_unique_id = ''U2'', Recency = 0, Frequency = 1, Monetary = 50,
       R_rank_norm = 100, F_rank_norm = 50, M_rank_norm = 200 / 3, RFM_Score = 67\<rparr>]"
  by (simp add: ex_orders_def ex_items_def ex_customers_def rfm_eval)

lemma rfm_base_Nil: "rfm_base [] = []"
  by (simp add: rfm_base_def recency_table_def groupby_max_def groupby_agg_def series_max_def)

lemma create_rfm_df_Nil:
  "rfm_data os ds cs = [] \<Longrightarrow> create_rfm_df os ds cs = []"
  using create_rfm_df_base [of os ds cs] by (simp add: rfm_base_Nil)

lemma create_rfm_df_ids:
  "map rfm_unique_id (create_rfm_df os ds cs) = sorted_list_of_set (rd_unique_id ` set (rfm_data os ds cs))"
proof (cases "rfm_data os ds cs = []")
  case True
  then show ?thesis by (simp add: create_rfm_df_Nil)
next
  case False
  obtain recent where b: "rfm_base (rfm_data os ds cs) =
      map (\<lambda>p. (fst p, days_between recent (snd p), rfm_frequency (rfm_data os ds cs) (fst p),
                 rfm_monetary (rfm_data os ds cs) (fst p))) (recency_table (rfm_data os ds cs))"
    using rfm_base_eq [OF False] by blast
  have "map rfm_unique_id (create_rfm_df os ds cs) = map fst (rfm_base (rfm_data os ds cs))"
    using arg_cong [OF create_rfm_df_base [of os ds cs], of "map fst"] by (simp add: comp_def)
  also have "\<dots> = map fst (recency_table (rfm_data os ds cs))" by (simp add: b comp_def)
  finally show ?thesis by (simp only: recency_table_keys)
qed

text \<open>
  C13. Bounds of the normalized ranks: in every row of the RFM view the normalized Recency
  and Frequency ranks lie in \<open>(0, 100]\<close>, but the normalized Monetary rank, which line
  73 computes from the Frequency rank, only lies in \<open>(0, 200)\<close>.
\<close>

theorem rfm_norm_bounds:
  "\<forall>row\<in>set (create_rfm_df os ds cs).
     (0 < R_rank_norm row \<and> R_rank_norm row \<le> 100) \<and> (0 < F_rank_norm row \<and> F_rank_norm row \<le> 100)
     \<and> (0 < M_rank_norm row \<and> M_rank_norm row < 200)"
proof
  fix row
  assume row: "row \<in> set (create_rfm_df os ds cs)"
  let ?b = "rfm_base (rfm_data os ds cs)"
  show "(0 < R_rank_norm row \<and> R_rank_norm row \<le> 100) \<and> (0 < F_rank_norm row \<and> F_rank_norm row \<le> 100)
     \<and> (0 < M_rank_norm row \<and> M_rank_norm row < 200)"
  proof (intro conjI)
    show "0 < R_rank_norm row" "R_rank_norm row \<le> 100"
      using normalize_self_bounds [OF create_rfm_df_mem(1) [OF row]] by simp_all
    show "0 < F_rank_norm row" "F_rank_norm row \<le> 100"
      using normalize_self_bounds [OF create_rfm_df_mem(2) [OF row]] by simp_all
    have "length (map (\<lambda>(u, r, f, m). m) ?b) = length (map (\<lambda>(u, r, f, m). f) ?b)" by simp
    from normalize_cross_bounds [OF this create_rfm_df_mem(3) [OF row]]
    show "0 < M_rank_norm row" "M_rank_norm row < 200" by simp_all
  qed
qed

theorem rfm_norm_bounds_witness:
  "\<exists>row\<in>set (create_rfm_df ex_orders ex_items ex_customers).
     100 < M_rank_norm row \<and> M_rank_norm row < 200 \<and> R_rank_norm row \<le> 100"
proof -
  have "\<forall>row\<in>set (create_rfm_df ex_orders ex_items ex_customers). M_rank_norm row < 200 \<and> R_rank_norm row \<le> 100"
    using rfm_norm_bounds [of ex_orders ex_items ex_customers] by blast
  then show ?thesis by (simp add: ex_create_rfm_df)
qed

text \<open>
  C15. Recency is a number of days before the reference date: on valid orders every
  customer's Recency is non-negative, and the customer with the latest order has
  Recency 0 (spec section 4.7, steps 1--2).
\<close>

theorem rfm_recency_bounds:
  assumes "valid_orders os"
  shows "(\<forall>row\<in>set (create_rfm_df os ds cs). 0 \<le> Recency row)
         \<and> (create_rfm_df os ds cs \<noteq> [] \<longrightarrow> (\<exists>row\<in>set (create_rfm_df os ds cs). Recency row = 0))"
proof (cases "rfm_data os ds cs = []")
  case True
  then show ?thesis by (simp add: create_rfm_df_Nil)
next
  case False
  let ?d = "rfm_data os ds cs"
  obtain recent where rec: "series_max (map snd (recency_table ?d)) = Some recent"
    and base: "rfm_base ?d = map (\<lambda>p. (fst p, days_between recent (snd p), rfm_frequency ?d (fst p),
                                        rfm_monetary ?d (fst p))) (recency_table ?d)"
    using rfm_base_eq [OF False] by blast
  have valid_snd: "valid_date (snd p)" if "p \<in> set (recency_table ?d)" for p
    using recency_table_date_mem [of "fst p" "snd p" ?d] that rfm_data_dates_valid [OF assms]
    by (metis prod.collapse)
  have "recent \<in> set (map snd (recency_table ?d))" by (rule series_max_mem [OF rec])
  then obtain q where q: "q \<in> set (recency_table ?d)" "snd q = recent" by auto
  have nonneg: "0 \<le> Recency row" if row: "row \<in> set (create_rfm_df os ds cs)" for row
  proof -
    from rfm_out_mem_base [OF row] base obtain p where p: "p \<in> set (recency_table ?d)"
      and r: "Recency row = days_between recent (snd p)" by auto
    have "snd p \<le> recent" using series_max_ge [OF rec] p by auto
    then have "toordinal (snd p) \<le> toordinal recent"
      using toordinal_mono valid_snd [OF p] valid_snd [OF q(1)] q(2) by blast
    then show ?thesis by (simp add: r days_between_def)
  qed
  have "(fst q, 0, rfm_frequency ?d (fst q), rfm_monetary ?d (fst q)) \<in> set (rfm_base ?d)"
    using q by (force simp: base days_between_def)
  then obtain row where "row \<in> set (create_rfm_df os ds cs)" "Recency row = 0"
    using rfm_base_mem_out by fastforce
  with nonneg show ?thesis by blast
qed

theorem rfm_recency_bounds_witness:
  "valid_orders ex_orders
   \<and> (\<exists>row\<in>set (create_rfm_df ex_orders ex_items ex_customers). Recency row = 0)"
  using ex_orders_valid rfm_recency_bounds [OF ex_orders_valid, of ex_items ex_customers]
  by (simp add: ex_create_rfm_df)

text \<open>
  C14. Single-customer population: when the merged data belong to one customer, the view
  has one row, with Recency 0 and all three normalized ranks and the score equal to 100
  (spec section 4.7 and the example of section 8).
\<close>

theorem rfm_single_customer:
  assumes "rd_unique_id ` set (rfm_data os ds cs) = {u}"
  shows "\<exists>row. create_rfm_df os ds cs = [row] \<and> rfm_unique_id row = u \<and> Recency row = 0
              \<and> R_rank_norm row = 100 \<and> F_rank_norm row = 100 \<and> M_rank_norm row = 100
              \<and> RFM_Score row = 100"
proof -
  let ?d = "rfm_data os ds cs"
  have ne: "?d \<noteq> []" using assms by auto
  have keys: "map fst (recency_table ?d) = [u]" by (simp add: recency_table_keys assms)
  then obtain dt where rt: "recency_table ?d = [(u, dt)]"
    by (cases "recency_table ?d") auto
  obtain recent where "series_max (map snd (recency_table ?d)) = Some recent"
    and base: "rfm_base ?d = map (\<lambda>p. (fst p, days_between recent (snd p), rfm_frequency ?d (fst p),
                                       rfm_monetary ?d (fst p))) (recency_table ?d)"
    using rfm_base_eq [OF ne] by blast
  then have "recent = dt" by (simp add: rt series_max_def)
  with base rt have b: "rfm_base ?d = [(u, 0, rfm_frequency ?d u, rfm_monetary ?d u)]"
    by (simp add: days_between_def)
  show ?thesis
    by (simp add: create_rfm_df_def b Let_def series_rank_def rank_avg_def normalize_by_def
                  series_max_def rfm_score_def)
qed

theorem rfm_single_customer_witness:
  "rd_unique_id ` set (rfm_data
      [\<lparr>order_id = ''O1'', customer_id = ''C1'', order_purchase_timestamp = ((2023, 1, 1), 0)\<rparr>]
      [\<lparr>item_order_id = ''O1'', product_id = ''P1'', price = 50\<rparr>]
      [\<lparr>cust_customer_id = ''C1'', customer_unique_id = ''U1'', customer_city = ''CityA''\<rparr>]) = {''U1''}
   \<and> (\<exists>row. create_rfm_df
      [\<lparr>order_id = ''O1'', customer_id = ''C1'', order_purchase_timestamp = ((2023, 1, 1), 0)\<rparr>]
      [\<lparr>item_order_id = ''O1'', product_id = ''P1'', price = 50\<rparr>]
      [\<lparr>cust_customer_id = ''C1'', customer_unique_id = ''U1'', customer_city = ''CityA''\<rparr>] = [row]
      \<and> RFM_Score row = 100)"
proof -
  have h: "rd_unique_id ` set (rfm_data
      [\<lparr>order_id = ''O1'', customer_id = ''C1'', order_purchase_timestamp = ((2023, 1, 1), 0)\<rparr>]
      [\<lparr>item_order_id = ''O1'', product_id = ''P1'', price = 50\<rparr>]
      [\<lparr>cust_customer_id = ''C1'', customer_unique_id = ''U1'', customer_city = ''CityA''\<rparr>]) = {''U1''}"
    by (simp add: rfm_data_def order_totals_def groupby_sum_def groupby_agg_def)
  show ?thesis using h rfm_single_customer [OF h] by blast
qed

text \<open>
  C31. Frequency counts merged rows, not dates: a customer's Frequency is the number of
  distinct rows of the merged data that belong to that customer, i.e. of their orders with
  items.
\<close>

theorem rfm_frequency_counts_rows:
  "\<forall>row\<in>set (create_rfm_df os ds cs).
     Frequency row = card {r \<in> set (rfm_data os ds cs). rd_unique_id r = rfm_unique_id row}"
proof
  fix row
  assume row: "row \<in> set (create_rfm_df os ds cs)"
  let ?d = "rfm_data os ds cs"
  have ne: "?d \<noteq> []" using row create_rfm_df_Nil by fastforce
  obtain recent where base: "rfm_base ?d = map (\<lambda>p. (fst p, days_between recent (snd p),
        rfm_frequency ?d (fst p), rfm_monetary ?d (fst p))) (recency_table ?d)"
    using rfm_base_eq [OF ne] by blast
  from rfm_out_mem_base [OF row] base
  have f: "Frequency row = rfm_frequency ?d (rfm_unique_id row)" by auto
  have "distinct (filter (\<lambda>r. rd_unique_id r = rfm_unique_id row) (drop_duplicates ?d))"
    by (simp add: distinct_drop_duplicates)
  then show "Frequency row = card {r \<in> set ?d. rd_unique_id r = rfm_unique_id row}"
    by (simp add: f rfm_frequency_def distinct_card [symmetric] set_drop_duplicates)
qed

theorem rfm_frequency_counts_rows_witness:
  "card {r \<in> set (rfm_data ex_orders ex_items ex_customers). rd_unique_id r = ''U1''} = 2"
proof -
  have "Frequency (hd (create_rfm_df ex_orders ex_items ex_customers))
        = card {r \<in> set (rfm_data ex_orders ex_items ex_customers).
                rd_unique_id r = rfm_unique_id (hd (create_rfm_df ex_orders ex_items ex_customers))}"
    using rfm_frequency_counts_rows [of ex_orders ex_items ex_customers] by (simp add: ex_create_rfm_df)
  then show ?thesis by (simp add: ex_create_rfm_df)
qed

text \<open>
  C12. The Monetary normalization defect: two customers with equal Monetary tie in the
  Monetary rank (1.5 each), yet the customer with the higher Frequency gets a normalized
  Monetary rank of 400/3, above 100, because line 73 divides the Frequency rank by the
  maximum Monetary rank. The score then exceeds 100 as well.
\<close>

theorem rfm_monetary_norm_defect:
  "\<exists>r1 r2. create_rfm_df ex_orders ex_items ex_customers = [r1, r2]
     \<and> Monetary r1 = Monetary r2 \<and> M_rank_norm r1 = 400 / 3 \<and> 100 < RFM_Score r1"
  by (simp add: ex_create_rfm_df)

text \<open>
  C32. Frequency is not the number of distinct order dates (spec section 4.7 step 3): the
  customer with two orders on the same date gets Frequency 2.
\<close>

theorem rfm_frequency_not_distinct_dates:
  "\<exists>row\<in>set (create_rfm_df ex_orders ex_items ex_customers).
     Frequency row = 2
     \<and> card (set (map rd_order_date (filter (\<lambda>r. rd_unique_id r = rfm_unique_id row)
                                    (rfm_data ex_orders ex_items ex_customers)))) = 1"
  by (simp add: ex_create_rfm_df ex_rfm_data)

text \<open>
  C16. Reference equivalence of the day count behind Recency (line 56): for a valid date
  \<open>b\<close>, \<open>(a - b).days\<close> as CPython computes it through \<open>toordinal\<close> is the number of
  single-day steps from \<open>b\<close> to \<open>a\<close>, across month ends, leap days and year ends.
\<close>

theorem days_between_counts_days:
  assumes "valid_date b"
  shows "days_between ((next_day ^^ n) b) b = int n"
  using toordinal_iterate_next_day [OF assms, of n] by (simp add: days_between_def)

theorem days_between_counts_days_witness:
  "valid_date (2024, 2, 28) \<and> (next_day ^^ 3) (2024, 2, 28) = (2024, 3, 2)
   \<and> days_between (2024, 3, 2) (2024, 2, 28) = 3"
proof -
  have v: "valid_date (2024, 2, 28)"
    by (simp add: valid_date_def days_in_month_def DAYS_IN_MONTH_def is_leap_def)
  have f: "(next_day ^^ 3) x = next_day (next_day (next_day x))" for x
    by (simp add: numeral_3_eq_3)
  have i: "(next_day ^^ 3) (2024, 2, 28) = (2024, 3, 2)"
    unfolding f by (simp add: next_day_def days_in_month_def DAYS_IN_MONTH_def is_leap_def)
  show ?thesis using v i days_between_counts_days [OF v, of 3] by simp
qed
end
