(* ===== verification/Category.thy ===== *)
theory Category
  imports Tables
begin

text \<open>
  The Category Normalizer (\<open>src/dashboard.py\<close> lines 81--87, 97--98): products are
  left-merged with the translation table on \<open>product_category_name\<close> (pandas matches a
  NaN key with a NaN key, which \<open>None = None\<close> reproduces), and \<open>translate_category\<close>
  then overwrites the category of every merged row. The lemmas show that the merge keeps
  every product, that no normalized product is left without a category, and that with a
  translation table keyed uniquely (as the dataset's is) the pipeline is the per-product
  lookup \<open>category_spec\<close> of the spec's section 4.1.
\<close>

definition translate_category :: "product \<times> string option \<Rightarrow> string" where
  "translate_category row =
     (case product_category_name (fst row) of
        None \<Rightarrow> ''Unknown Category''
      | Some c \<Rightarrow> (case snd row of None \<Rightarrow> c | Some e \<Rightarrow> e))"

definition merge_translation :: "product list \<Rightarrow> translation list \<Rightarrow> (product \<times> string option) list" where
  "merge_translation ps ts =
     concat (map (\<lambda>p.
       (case filter (\<lambda>t. tr_category_name t = product_category_name p) ts of
          [] \<Rightarrow> [(p, None)]
        | ms \<Rightarrow> map (\<lambda>t. (p, product_category_name_english t)) ms)) ps)"

definition normalize_products :: "product list \<Rightarrow> translation list \<Rightarrow> product list" where
  "normalize_products ps ts =
     map (\<lambda>row. (fst row)\<lparr>product_category_name := Some (translate_category row)\<rparr>)
       (merge_translation ps ts)"

text \<open>The contract of section 4.1: look the raw category up in the translation map.\<close>

definition translation_map :: "translation list \<Rightarrow> string option \<rightharpoonup> string option" where
  "translation_map ts = map_of (map (\<lambda>t. (tr_category_name t, product_category_name_english t)) ts)"

definition category_spec :: "translation list \<Rightarrow> product \<Rightarrow> string" where
  "category_spec ts p =
     (case product_category_name p of
        None \<Rightarrow> ''Unknown Category''
      | Some c \<Rightarrow> (case translation_map ts (Some c) of
                    None \<Rightarrow> c
                  | Some None \<Rightarrow> c
                  | Some (Some e) \<Rightarrow> e))"

definition keys_unique :: "translation list \<Rightarrow> bool" where
  "keys_unique ts = distinct (map tr_category_name ts)"

subsection \<open>The merge keeps every product\<close>

lemma merge_translation_Cons:
  "merge_translation (p # ps) ts =
     (case filter (\<lambda>t. tr_category_name t = product_category_name p) ts of
        [] \<Rightarrow> [(p, None)]
      | ms \<Rightarrow> map (\<lambda>t. (p, product_category_name_english t)) ms) @ merge_translation ps ts"
  by (simp add: merge_translation_def)

lemma merge_translation_fst: "fst ` set (merge_translation ps ts) = set ps"
proof (induction ps)
  case Nil
  then show ?case by (simp add: merge_translation_def)
next
  case (Cons p ps)
  then show ?case
    by (auto simp: merge_translation_Cons split: list.splits)
qed

lemma filter_unique_key:
  "keys_unique ts \<Longrightarrow>
   filter (\<lambda>t. tr_category_name t = k) ts =
     (case map_of (map (\<lambda>t. (tr_category_name t, t)) ts) k of None \<Rightarrow> [] | Some t \<Rightarrow> [t])"
proof (induction ts)
  case Nil
  then show ?case by simp
next
  case (Cons t ts)
  then have "keys_unique ts" and "tr_category_name t \<notin> set (map tr_category_name ts)"
    by (simp_all add: keys_unique_def)
  moreover have "k \<notin> set (map tr_category_name ts) \<Longrightarrow> filter (\<lambda>t. tr_category_name t = k) ts = []"
    by (auto simp: filter_empty_conv)
  ultimately show ?case
    using Cons.IH by (auto simp: map_of_eq_None_iff image_iff dest: map_of_SomeD split: option.splits)
qed

lemma map_of_map_pair:
  "map_of (map (\<lambda>t. (f t, g t)) ts) k = map_option g (map_of (map (\<lambda>t. (f t, t)) ts) k)"
  by (induction ts) auto

lemma translation_map_lookup:
  "translation_map ts k =
     map_option product_category_name_english (map_of (map (\<lambda>t. (tr_category_name t, t)) ts) k)"
  by (simp add: translation_map_def map_of_map_pair [of tr_category_name product_category_name_english])

subsection \<open>The merge and the overwrite implement the lookup\<close>

lemma normalize_products_Cons:
  "normalize_products (p # ps) ts =
     map (\<lambda>row. (fst row)\<lparr>product_category_name := Some (translate_category row)\<rparr>)
       (case filter (\<lambda>t. tr_category_name t = product_category_name p) ts of
          [] \<Rightarrow> [(p, None)]
        | ms \<Rightarrow> map (\<lambda>t. (p, product_category_name_english t)) ms)
     @ normalize_products ps ts"
  by (simp add: normalize_products_def merge_translation_Cons)

lemma normalize_product_one:
  assumes "keys_unique ts"
  shows "map (\<lambda>row. (fst row)\<lparr>product_category_name := Some (translate_category row)\<rparr>)
       (case filter (\<lambda>t. tr_category_name t = product_category_name p) ts of
          [] \<Rightarrow> [(p, None)]
        | ms \<Rightarrow> map (\<lambda>t. (p, product_category_name_english t)) ms)
     = [p\<lparr>product_category_name := Some (category_spec ts p)\<rparr>]"
  using filter_unique_key [OF assms, of "product_category_name p"]
  by (auto simp: category_spec_def translate_category_def translation_map_lookup
           split: option.splits)

lemma normalize_products_ids:
  "keys_unique ts \<Longrightarrow> map prod_product_id (normalize_products ps ts) = map prod_product_id ps"
  by (induction ps) (simp_all add: normalize_products_Cons normalize_product_one,
                     simp add: normalize_products_def merge_translation_def)

lemma normalize_products_named:
  "p \<in> set (normalize_products ps ts) \<Longrightarrow> product_category_name p \<noteq> None"
  by (auto simp: normalize_products_def)

text \<open>
  C6. Refinement of the Category Normalizer: when the translation table has one row per
  raw category name, left-merging the products with it and applying
  \<open>translate_category\<close> to every row gives exactly one row per product, in product
  order, whose category is the lookup of section 4.1: \<open>Unknown Category\<close> for a
  missing raw category, the raw name when no English name is found, the English name
  otherwise.
\<close>

theorem normalize_products_refines:
  assumes "keys_unique ts"
  shows "normalize_products ps ts =
           map (\<lambda>p. p\<lparr>product_category_name := Some (category_spec ts p)\<rparr>) ps"
proof (induction ps)
  case Nil
  then show ?case by (simp add: normalize_products_def merge_translation_def)
next
  case (Cons p ps)
  then show ?case by (simp add: normalize_products_Cons normalize_product_one [OF assms])
qed

theorem normalize_products_refines_witness:
  "keys_unique [\<lparr>tr_category_name = Some ''beleza'', product_category_name_english = Some ''health_beauty''\<rparr>]
   \<and> normalize_products
       [\<lparr>prod_product_id = ''P1'', product_category_name = Some ''X''\<rparr>,
        \<lparr>prod_product_id = ''P2'', product_category_name = None\<rparr>,
        \<lparr>prod_product_id = ''P3'', product_category_name = Some ''beleza''\<rparr>]
       [\<lparr>tr_category_name = Some ''beleza'', product_category_name_english = Some ''health_beauty''\<rparr>]
     = [\<lparr>prod_product_id = ''P1'', product_category_name = Some ''X''\<rparr>,
        \<lparr>prod_product_id = ''P2'', product_category_name = Some ''Unknown Category''\<rparr>,
        \<lparr>prod_product_id = ''P3'', product_category_name = Some ''health_beauty''\<rparr>]"
proof -
  have u: "keys_unique [\<lparr>tr_category_name = Some ''beleza'', product_category_name_english = Some ''health_beauty''\<rparr>]"
    by (simp add: keys_unique_def)
  show ?thesis
    using u normalize_products_refines [OF u, of
       "[\<lparr>prod_product_id = ''P1'', product_category_name = Some ''X''\<rparr>,
        \<lparr>prod_product_id = ''P2'', product_category_name = None\<rparr>,
        \<lparr>prod_product_id = ''P3'', product_category_name = Some ''beleza''\<rparr>]"]
    by (simp add: category_spec_def translation_map_def)
qed

text \<open>
  C33. The normalizer is total and keeps every product: after it, no product has a
  missing (NaN) category, and the product ids present are exactly those loaded, whatever
  the translation table holds.
\<close>

theorem normalize_products_total:
  "None \<notin> product_category_name ` set (normalize_products ps ts)
   \<and> prod_product_id ` set (normalize_products ps ts) = prod_product_id ` set ps"
proof -
  have "prod_product_id ` set (normalize_products ps ts) = prod_product_id ` fst ` set (merge_translation ps ts)"
    by (simp add: normalize_products_def image_image)
  then show ?thesis
    by (auto simp: normalize_products_def merge_translation_fst)
qed

end
