(* ===== verification/Dashboard.thy ===== *)
theory Dashboard
  imports RFM Category
begin

text \<open>
  The page (\<open>src/dashboard.py\<close> lines 96--267) as one rerun of the script. Loading
  truncates the purchase timestamps and normalizes the products (\<open>load_store\<close>, lines
  96--98). The sidebar widget is offered the earliest and latest order (lines 100--111).
  Its value, a sequence of dates, is unpacked into \<open>start_date, end_date\<close> (line 106).
  The orders are filtered (line 113); \<open>compute_views\<close> computes the five views from the
  filtered orders (lines 115--119) and the summary metrics (lines 127, 131, 223--232);
  the charts draw the top and
  bottom rows of the views (lines 156, 167, 187, 207, 237, 247, 257). Streamlit returns
  a one-element tuple while the user has picked only the first day of a range. The
  unpacking then raises \<open>ValueError\<close>, and \<open>render\<close> returns it.
\<close>

record dashboard =
  monthly_revenue :: "(string \<times> money) list"
  product_order_count :: "(ident \<times> nat) list"
  total_spent_percity :: "(string \<times> money) list"
  revenue_bycategory :: "(string \<times> money) list"
  rfm :: "rfm_row list"
  total_orders :: nat
  total_revenue :: money
  avg_recency :: "rat option"
  avg_frequency :: "rat option"
  avg_monetary :: "rat option"

definition load_store :: "store \<Rightarrow> py_error + store" where
  "load_store st =
     (case truncate_orders (orders st) of
        Inl e \<Rightarrow> Inl e
      | Inr os \<Rightarrow> Inr (st\<lparr>orders := os,
                         products := normalize_products (products st) (category_translations st)\<rparr>))"

definition date_bounds :: "order list \<Rightarrow> (date \<times> date) option" where
  "date_bounds os =
     (case (series_min (map order_purchase_timestamp os), series_max (map order_purchase_timestamp os)) of
        (Some lo, Some hi) \<Rightarrow> Some (ts_date lo, ts_date hi)
      | _ \<Rightarrow> None)"

definition unpack_date_range :: "date list \<Rightarrow> py_error + (date \<times> date)" where
  "unpack_date_range sel = (case sel of [s, e] \<Rightarrow> Inr (s, e) | _ \<Rightarrow> Inl ValueError)"

definition compute_views :: "order list \<Rightarrow> store \<Rightarrow> py_error + dashboard" where
  "compute_views os ld =
     (case monthly_revenue_df os (order_items ld) of
        Inl err \<Rightarrow> Inl err
      | Inr mr \<Rightarrow>
          (let r = create_rfm_df os (order_items ld) (customers ld)
           in Inr \<lparr>monthly_revenue = mr,
                   product_order_count = product_order_count_df os (order_items ld) (products ld),
                   total_spent_percity = total_spent_percity_df os (customers ld) (payments ld),
                   revenue_bycategory = revenue_bycategory_df os (order_items ld) (products ld),
                   rfm = r,
                   total_orders = length os,
                   total_revenue = sum_list (map snd mr),
                   avg_recency = series_mean (map (\<lambda>x. of_int (Recency x)) r),
                   avg_frequency = series_mean (map (\<lambda>x. of_nat (Frequency x)) r),
                   avg_monetary = series_mean (map Monetary r)\<rparr>))"

definition render :: "store \<Rightarrow> date list \<Rightarrow> py_error + dashboard" where
  "render st sel =
     (case load_store st of
        Inl err \<Rightarrow> Inl err
      | Inr ld \<Rightarrow>
          (case unpack_date_range sel of
             Inl err \<Rightarrow> Inl err
           | Inr (s, e) \<Rightarrow> compute_views (filter_orders (orders ld) s e) ld))"

text \<open>The rows the charts draw.\<close>

definition best_products :: "dashboard \<Rightarrow> (ident \<times> nat) list" where
  "best_products d = take 5 (product_order_count d)"

definition worst_products :: "dashboard \<Rightarrow> (ident \<times> nat) list" where
  "worst_products d = drop (length (product_order_count d) - 5) (product_order_count d)"

definition top_cities :: "dashboard \<Rightarrow> (string \<times> money) list" where
  "top_cities d = take 10 (sort_values_desc snd (total_spent_percity d))"

definition top_categories :: "dashboard \<Rightarrow> (string \<times> money) list" where
  "top_categories d = take 15 (sort_values_desc snd (revenue_bycategory d))"

definition top_recency :: "dashboard \<Rightarrow> rfm_row list" where
  "top_recency d = take 5 (sort_key Recency (rfm d))"

definition top_frequency :: "dashboard \<Rightarrow> rfm_row list" where
  "top_frequency d = take 5 (sort_values_desc Frequency (rfm d))"

definition top_monetary :: "dashboard \<Rightarrow> rfm_row list" where
  "top_monetary d = take 5 (sort_values_desc Monetary (rfm d))"

text \<open>
  An example store: six orders of three customers between January and March 2023 with
  mid-month timestamps, seven line items over six products (P1 sold twice), one product
  without a category, and one order paid in two installments.
\<close>

definition ex_store :: store where
  "ex_store =
     \<lparr>orders =
        [\<lparr>order_id = ''O1'', customer_id = ''C1'', order_purchase_timestamp = ((2023, 1, 5), 3600)\<rparr>,
         \<lparr>order_id = ''O2'', customer_id = ''C2'', order_purchase_timestamp = ((2023, 1, 20), 0)\<rparr>,
         \<lparr>order_id = ''O3'', customer_id = ''C1'', order_purchase_timestamp = ((2023, 2, 14), 7200)\<rparr>,
         \<lparr>order_id = ''O4'', customer_id = ''C3'', order_purchase_timestamp = ((2023, 2, 28), 0)\<rparr>,
         \<lparr>order_id = ''O5'', customer_id = ''C2'', order_purchase_timestamp = ((2023, 3, 3), 0)\<rparr>,
         \<lparr>order_id = ''O6'', customer_id = ''C3'', order_purchase_timestamp = ((2023, 3, 30), 0)\<rparr>],
      order_items =
        [\<lparr>item_order_id = ''O1'', product_id = ''P1'', price = 10\<rparr>,
         \<lparr>item_order_id = ''O2'', product_id = ''P2'', price = 20\<rparr>,
         \<lparr>item_order_id = ''O3'', product_id = ''P3'', price = 30\<rparr>,
         \<lparr>item_order_id = ''O4'', product_id = ''P4'', price = 40\<rparr>,
         \<lparr>item_order_id = ''O5'', product_id = ''P5'', price = 50\<rparr>,
         \<lparr>item_order_id = ''O6'', product_id = ''P6'', price = 60\<rparr>,
         \<lparr>item_order_id = ''O6'', product_id = ''P1'', price = 10\<rparr>],
      customers =
        [\<lparr>cust_customer_id = ''C1'', customer_unique_id = ''U1'', customer_city = ''Rio''\<rparr>,
         \<lparr>cust_customer_id = ''C2'', customer_unique_id = ''U2'', customer_city = ''Sao Paulo''\<rparr>,
         \<lparr>cust_customer_id = ''C3'', customer_unique_id = ''U3'', customer_city = ''Rio''\<rparr>],
      products =
        [\<lparr>prod_product_id = ''P1'', product_category_name = Some ''beleza''\<rparr>,
         \<lparr>prod_product_id = ''P2'', product_category_name = Some ''beleza''\<rparr>,
         \<lparr>prod_product_id = ''P3'', product_category_name = Some ''esporte''\<rparr>,
         \<lparr>prod_product_id = ''P4'', product_category_name = None\<rparr>,
         \<lparr>prod_product_id = ''P5'', product_category_name = Some ''esporte''\<rparr>,
         \<lparr>prod_product_id = ''P6'', product_category_name = Some ''pcs''\<rparr>],
      category_translations =
        [\<lparr>tr_category_name = Some ''beleza'', product_category_name_english = Some ''health_beauty''\<rparr>,
         \<lparr>tr_category_name = Some ''esporte'', product_category_name_english = Some ''sports_leisure''\<rparr>],
      payments =
        [\<lparr>pay_order_id = ''O1'', payment_value = 10\<rparr>,
         \<lparr>pay_order_id = ''O2'', payment_value = 20\<rparr>,
         \<lparr>pay_order_id = ''O3'', payment_value = 30\<rparr>,
         \<lparr>pay_order_id = ''O4'', payment_value = 40\<rparr>,
         \<lparr>pay_order_id = ''O5'', payment_value = 25\<rparr>,
         \<lparr>pay_order_id = ''O5'', payment_value = 25\<rparr>,
         \<lparr>pay_order_id = ''O6'', payment_value = 70\<rparr>]\<rparr>"

subsection \<open>Loading and filtering keep timestamps valid\<close>

lemma valid_orders_truncate: "valid_orders os \<Longrightarrow> valid_orders (map truncate_order os)"
  by (simp add: valid_orders_def list_all_iff truncate_order_def valid_month_start)

lemma valid_orders_filter: "valid_orders os \<Longrightarrow> valid_orders (filter_orders os s e)"
  by (simp add: valid_orders_def list_all_iff filter_orders_def)

lemma load_store_valid:
  "valid_orders (orders st) \<Longrightarrow>
   load_store st = Inr (st\<lparr>orders := map truncate_order (orders st),
                           products := normalize_products (products st) (category_translations st)\<rparr>)"
  by (simp add: load_store_def truncate_orders_map)

text \<open>A two-date selection on valid data renders every view from the filtered orders.\<close>

lemma render_two:
  fixes s e :: date
  assumes "valid_orders (orders st)"
  defines "os' \<equiv> filter_orders (map truncate_order (orders st)) s e"
    and "ps' \<equiv> normalize_products (products st) (category_translations st)"
  shows "\<exists>d. render st [s, e] = Inr d
           \<and> monthly_revenue_df os' (order_items st) = Inr (monthly_revenue d)
           \<and> product_order_count d = product_order_count_df os' (order_items st) ps'
           \<and> total_spent_percity d = total_spent_percity_df os' (customers st) (payments st)
           \<and> revenue_bycategory d = revenue_bycategory_df os' (order_items st) ps'
           \<and> rfm d = create_rfm_df os' (order_items st) (customers st)
           \<and> total_orders d = length os'
           \<and> total_revenue d = sum_list (map snd (monthly_revenue d))
           \<and> avg_recency d = series_mean (map (\<lambda>x. of_int (Recency x)) (rfm d))"
proof -
  have v: "valid_orders os'"
    unfolding os'_def using assms(1) by (intro valid_orders_filter valid_orders_truncate)
  obtain mr where mr: "monthly_revenue_df os' (order_items st) = Inr mr"
    using monthly_revenue_df_valid [OF v] by blast
  show ?thesis
    using mr by (simp add: render_def compute_views_def load_store_valid [OF assms(1)] unpack_date_range_def
                           os'_def [symmetric] ps'_def [symmetric] Let_def)
qed

lemma render_product_order_count:
  "render st sel = Inr d \<Longrightarrow> \<exists>os ds ps. product_order_count d = product_order_count_df os ds ps"
  by (force simp: render_def compute_views_def Let_def split: sum.splits prod.splits)

lemma sorted_desc_take_drop:
  assumes "sorted (rev (map f xs))"
  shows "\<forall>p\<in>set (take n xs). \<forall>q\<in>set (drop n xs). f q \<le> f p"
proof -
  have "sorted_wrt (\<lambda>a b. f b \<le> f a) xs"
    using assms by (simp add: sorted_wrt_rev sorted_wrt_map)
  then have "sorted_wrt (\<lambda>a b. f b \<le> f a) (take n xs @ drop n xs)" by simp
  then show ?thesis by (simp only: sorted_wrt_append) blast
qed

subsection \<open>The example store, evaluated\<close>

lemma ex_store_valid: "valid_orders (orders ex_store)"
  by (simp add: ex_store_def valid_orders_def valid_ts_def valid_date_def days_in_month_def
                DAYS_IN_MONTH_def is_leap_def)

lemma ex_store_length: "length (orders ex_store) = 6"
  by (simp add: ex_store_def)

lemma ex_store_bounds:
  "date_bounds (map truncate_order (orders ex_store)) = Some ((2023, 1, 1), (2023, 3, 1))"
  by (simp add: ex_store_def date_bounds_def truncate_order_def month_start_def series_min_def
                series_max_def ts_date_def ts_year_def ts_month_def)

lemma ex_store_none_2024:
  "filter (\<lambda>od. (2024, 1, 1) \<le> month_first_day (order_purchase_timestamp od)
                \<and> month_first_day (order_purchase_timestamp od) \<le> (2024, 12, 31)) (orders ex_store) = []"
  by (simp add: ex_store_def month_first_day_def ts_year_def ts_month_def)

lemma ex_store_filtered:
  "filter_orders (map truncate_order (orders ex_store)) (2023, 1, 1) (2023, 3, 1)
   = map truncate_order (orders ex_store)"
  by (simp add: ex_store_def filter_orders_def in_date_range_def date_timestamp_def truncate_order_def
                month_start_def ts_year_def ts_month_def)

lemma ex_store_products:
  "normalize_products (products ex_store) (category_translations ex_store) =
     [\<lparr>prod_product_id = ''P1'', product_category_name = Some ''health_beauty''\<rparr>,
      \<lparr>prod_product_id = ''P2'', product_category_name = Some ''health_beauty''\<rparr>,
      \<lparr>prod_product_id = ''P3'', product_category_name = Some ''sports_leisure''\<rparr>,
      \<lparr>prod_product_id = ''P4'', product_category_name = Some ''Unknown Category''\<rparr>,
      \<lparr>prod_product_id = ''P5'', product_category_name = Some ''sports_leisure''\<rparr>,
      \<lparr>prod_product_id = ''P6'', product_category_name = Some ''pcs''\<rparr>]"
  by (simp add: ex_store_def normalize_products_def merge_translation_def translate_category_def)

lemma ex_store_product_rows:
  "product_rows (map truncate_order (orders ex_store)) (order_items ex_store)
     (normalize_products (products ex_store) (category_translations ex_store)) =
   [(''P1'', ''O1''), (''P2'', ''O2''), (''P3'', ''O3''), (''P4'', ''O4''), (''P5'', ''O5''),
    (''P6'', ''O6''), (''P1'', ''O6'')]"
  unfolding ex_store_products
  by (simp add: ex_store_def truncate_order_def product_rows_def items_of_def products_of_def)

lemma ex_store_product_order_count:
  "product_order_count_df (filter_orders (map truncate_order (orders ex_store)) (2023, 1, 1) (2023, 3, 1))
     (order_items ex_store) (normalize_products (products ex_store) (category_translations ex_store))
   = [(''P1'', 2), (''P2'', 1), (''P3'', 1), (''P4'', 1), (''P5'', 1), (''P6'', 1)]"
  unfolding ex_store_filtered product_order_count_df_def ex_store_product_rows
  by (simp add: groupby_count_def groupby_sum_def groupby_agg_def sort_values_desc_def)

lemma render_unpack_error:
  assumes "valid_orders (orders st)" and "length sel \<noteq> 2"
  shows "render st sel = Inl ValueError"
proof -
  have "unpack_date_range sel = Inl ValueError"
    using assms(2) by (auto simp: unpack_date_range_def split: list.splits)
  then show ?thesis by (simp add: render_def load_store_valid [OF assms(1)])
qed

lemma render_Inr:
  assumes "valid_orders (orders st)" and "render st sel = Inr d"
  obtains s e where "sel = [s, e]"
    and "monthly_revenue_df (filter_orders (map truncate_order (orders st)) s e) (order_items st)
           = Inr (monthly_revenue d)"
    and "product_order_count d = product_order_count_df (filter_orders (map truncate_order (orders st)) s e)
           (order_items st) (normalize_products (products st) (category_translations st))"
    and "total_spent_percity d = total_spent_percity_df (filter_orders (map truncate_order (orders st)) s e)
           (customers st) (payments st)"
    and "revenue_bycategory d = revenue_bycategory_df (filter_orders (map truncate_order (orders st)) s e)
           (order_items st) (normalize_products (products st) (category_translations st))"
    and "rfm d = create_rfm_df (filter_orders (map truncate_order (orders st)) s e) (order_items st) (customers st)"
    and "total_orders d = length (filter_orders (map truncate_order (orders st)) s e)"
    and "total_revenue d = sum_list (map snd (monthly_revenue d))"
proof -
  have "length sel = 2"
    using render_unpack_error [OF assms(1)] assms(2) by fastforce
  then obtain s e where sel: "sel = [s, e]"
    by (cases sel; cases "tl sel") auto
  from render_two [OF assms(1), of s e] assms(2) sel that show ?thesis by auto
qed

text \<open>
  C17. The sidebar's value must be a pair: on valid data a rerun fails with
  \<open>ValueError\<close> exactly when the date widget returns other than two dates, as it
  does while the user has picked only the first day of a range (line 106).
\<close>

theorem render_value_error:
  assumes "valid_orders (orders st)"
  shows "render st sel = Inl ValueError \<longleftrightarrow> length sel \<noteq> 2"
proof (cases "length sel = 2")
  case True
  then obtain s e where sel: "sel = [s, e]"
    by (cases sel; cases "tl sel") auto
  obtain d where "render st [s, e] = Inr d" using render_two [OF assms] by blast
  then show ?thesis using sel by simp
next
  case False
  then show ?thesis by (simp add: render_unpack_error [OF assms])
qed

theorem render_value_error_witness:
  "render ex_store [(2023, 1, 1)] = Inl ValueError"
  using render_value_error [OF ex_store_valid, of "[(2023, 1, 1)]"] by simp

text \<open>
  C30. The default range shows every order: on the first run the widget returns the range
  the script offers it, from the earliest to the latest truncated purchase timestamp
  (lines 100--111), and the filter of line 113 then keeps every order.
\<close>

theorem render_default_range:
  assumes "valid_orders (orders st)"
    and "date_bounds (map truncate_order (orders st)) = Some (lo, hi)"
  shows "\<exists>d. render st [lo, hi] = Inr d \<and> total_orders d = length (orders st)"
proof -
  let ?tos = "map truncate_order (orders st)"
  let ?ts = "map order_purchase_timestamp ?tos"
  obtain tlo thi where tlo: "series_min ?ts = Some tlo" and thi: "series_max ?ts = Some thi"
    and lo: "lo = ts_date tlo" and hi: "hi = ts_date thi"
    using assms(2) by (auto simp: date_bounds_def split: option.splits)
  have midnight: "t = (ts_date t, 0)" if "t \<in> set ?ts" for t
    using that by (auto simp: truncate_order_def month_start_def ts_date_def)
  have "in_date_range lo hi od" if "od \<in> set ?tos" for od
  proof -
    have t: "order_purchase_timestamp od \<in> set ?ts" using that by force
    have "tlo \<le> order_purchase_timestamp od" by (rule series_min_le [OF tlo t])
    moreover have "order_purchase_timestamp od \<le> thi" by (rule series_max_ge [OF thi t])
    moreover have "tlo = (lo, 0)" "thi = (hi, 0)"
      using midnight [OF series_min_mem [OF tlo]] midnight [OF series_max_mem [OF thi]] lo hi by simp_all
    ultimately show ?thesis by (simp add: in_date_range_def date_timestamp_def)
  qed
  then have "filter_orders ?tos lo hi = ?tos" by (simp add: filter_orders_def)
  with render_two [OF assms(1), of lo hi] show ?thesis by auto
qed

theorem render_default_range_witness:
  "\<exists>d. render ex_store [(2023, 1, 1), (2023, 3, 1)] = Inr d \<and> total_orders d = 6"
  using render_default_range [OF ex_store_valid ex_store_bounds] by (simp add: ex_store_length)

text \<open>
  C29. A range with no orders empties the page (spec section 8): when no order's month
  starts inside the range, the rerun succeeds and all five views are empty, the order
  count and the total revenue are 0, and the average Recency is NaN.
\<close>

theorem render_empty_range:
  assumes "valid_orders (orders st)"
    and "filter (\<lambda>od. s \<le> month_first_day (order_purchase_timestamp od)
                    \<and> month_first_day (order_purchase_timestamp od) \<le> e) (orders st) = []"
  shows "\<exists>d. render st [s, e] = Inr d \<and> monthly_revenue d = [] \<and> product_order_count d = []
            \<and> total_spent_percity d = [] \<and> revenue_bycategory d = [] \<and> rfm d = []
            \<and> total_orders d = 0 \<and> total_revenue d = 0 \<and> avg_recency d = None"
proof -
  have none: "filter_orders (map truncate_order (orders st)) s e = []"
    using assms(2) by (simp add: filter_orders_def filter_map comp_def in_date_range_truncate)
  have mr: "monthly_revenue_df [] ds = Inr []" for ds
    by (simp add: monthly_revenue_df_def revenue_rows_def groupby_sum_def groupby_agg_def)
  have rfm0: "create_rfm_df [] ds cs = []" for ds cs
    by (rule create_rfm_df_Nil) (simp add: rfm_data_def)
  show ?thesis
    using render_two [OF assms(1), of s e]
    by (fastforce simp: none mr rfm0 product_order_count_df_def product_rows_def groupby_count_def
                  groupby_sum_def groupby_agg_def sort_values_desc_def total_spent_percity_df_def
                  city_rows_def revenue_bycategory_df_def category_rows_def dropna_keys_def
                  series_mean_def)
qed

theorem render_empty_range_witness:
  "\<exists>d. render ex_store [(2024, 1, 1), (2024, 12, 31)] = Inr d \<and> total_orders d = 0
       \<and> rfm d = [] \<and> avg_recency d = None"
  using render_empty_range [OF ex_store_valid ex_store_none_2024] by auto



end
