(* ===== verification/Page.thy ===== *)
theory Page
  imports Dashboard
begin

text \<open>
  The page the script draws (\<open>src/dashboard.py\<close> lines 103--267) as data. The sidebar
  shows a logo and the date widget (lines 103--111); the main column shows a header, the
  summary metrics (lines 121--132), one figure per view (lines 134--216) and the RFM
  metrics and figure (lines 218--267). A figure is its size and its axes; an axes is its
  series (a line plot or a bar plot with its palette, in row order as seaborn colours
  the bars) and the settings the script makes on it (title, axis labels with their font
  sizes, inverted or right-hand axes, tick label sizes and rotation). \<open>run_script\<close> is
  one rerun: the elements emitted, and the exception that ended it, if any. Column
  layout, fonts and the rendering of the figures are not modelled; metric values are
  kept exact with the rounding and currency formatting they are shown with named.
\<close>

datatype orientation = Horizontal | Vertical

datatype series =
    Plot "(string \<times> money) list" char nat string
  | Barplot orientation "(string \<times> money) list" "string list"

record axes =
  ax_series :: series
  ax_title :: "(string \<times> nat) option"
  ax_xlabel :: "(string \<times> nat) option"
  ax_ylabel :: "(string \<times> nat) option"
  ax_x_inverted :: bool
  ax_y_right :: bool
  ax_tick_sizes :: "nat \<times> nat"
  ax_xtick_rotation :: nat

record figure =
  fig_size :: "nat \<times> nat"
  fig_axes :: "axes list"

datatype metric_value = Count nat | Currency "money option" string | Rounded "rat option" nat

datatype element =
    Image string
  | DateInput string "(date \<times> date) option"
  | Header string
  | Subheader string
  | Metric string metric_value
  | Pyplot figure

definition HIGHLIGHT :: string where "HIGHLIGHT = ''#90CAF9''"
definition MUTED :: string where "MUTED = ''#D3D3D3''"

definition colors_products :: "string list" where
  "colors_products = [HIGHLIGHT, MUTED, MUTED, MUTED, MUTED]"

definition colors_cities :: "string list" where
  "colors_cities = HIGHLIGHT # replicate 9 MUTED"

definition colors_categories :: "string list" where
  "colors_categories = HIGHLIGHT # replicate 14 MUTED"

definition colors_rfm :: "string list" where
  "colors_rfm = replicate 5 HIGHLIGHT"

definition count_bars :: "(ident \<times> nat) list \<Rightarrow> (string \<times> money) list" where
  "count_bars xs = map (\<lambda>(p, c). (p, of_nat c)) xs"

definition monthly_figure :: "dashboard \<Rightarrow> figure" where
  "monthly_figure d =
     \<lparr>fig_size = (16, 8),
      fig_axes = [\<lparr>ax_series = Plot (monthly_revenue d) CHR ''o'' 2 HIGHLIGHT,
                   ax_title = None, ax_xlabel = None, ax_ylabel = None,
                   ax_x_inverted = False, ax_y_right = False,
                   ax_tick_sizes = (20, 15), ax_xtick_rotation = 45\<rparr>]\<rparr>"

definition best_figure :: "dashboard \<Rightarrow> figure" where
  "best_figure d =
     \<lparr>fig_size = (12, 6),
      fig_axes = [\<lparr>ax_series = Barplot Horizontal (count_bars (best_products d)) colors_products,
                   ax_title = Some (''Best Performing Product'', 50),
                   ax_xlabel = Some (''Number of Sales'', 30), ax_ylabel = None,
                   ax_x_inverted = False, ax_y_right = False,
                   ax_tick_sizes = (35, 30), ax_xtick_rotation = 0\<rparr>]\<rparr>"

definition worst_figure :: "dashboard \<Rightarrow> figure" where
  "worst_figure d =
     \<lparr>fig_size = (12, 6),
      fig_axes = [\<lparr>ax_series = Barplot Horizontal (count_bars (worst_products d)) colors_products,
                   ax_title = Some (''Worst Performing Product'', 50),
                   ax_xlabel = Some (''Number of Sales'', 30), ax_ylabel = None,
                   ax_x_inverted = True, ax_y_right = True,
                   ax_tick_sizes = (35, 30), ax_xtick_rotation = 0\<rparr>]\<rparr>"

definition city_figure :: "dashboard \<Rightarrow> figure" where
  "city_figure d =
     \<lparr>fig_size = (20, 10),
      fig_axes = [\<lparr>ax_series = Barplot Horizontal (top_cities d) colors_cities,
                   ax_title = Some (''Spending per City'', 30),
                   ax_xlabel = None, ax_ylabel = None,
                   ax_x_inverted = False, ax_y_right = False,
                   ax_tick_sizes = (20, 15), ax_xtick_rotation = 0\<rparr>]\<rparr>"

definition category_figure :: "dashboard \<Rightarrow> figure" where
  "category_figure d =
     \<lparr>fig_size = (20, 10),
      fig_axes = [\<lparr>ax_series = Barplot Horizontal (top_categories d) colors_categories,
                   ax_title = Some (''Revenue per Category'', 30),
                   ax_xlabel = None, ax_ylabel = None,
                   ax_x_inverted = False, ax_y_right = False,
                   ax_tick_sizes = (20, 15), ax_xtick_rotation = 0\<rparr>]\<rparr>"

definition rfm_axes :: "string \<Rightarrow> (string \<times> money) list \<Rightarrow> axes" where
  "rfm_axes title bars =
     \<lparr>ax_series = Barplot Vertical bars colors_rfm,
      ax_title = Some (title, 50), ax_xlabel = None, ax_ylabel = None,
      ax_x_inverted = False, ax_y_right = False,
      ax_tick_sizes = (30, 35), ax_xtick_rotation = 45\<rparr>"

definition rfm_figure :: "dashboard \<Rightarrow> figure" where
  "rfm_figure d =
     \<lparr>fig_size = (35, 15),
      fig_axes = [rfm_axes ''By Recency (days)'' (map (\<lambda>r. (rfm_unique_id r, of_int (Recency r))) (top_recency d)),
                  rfm_axes ''By Frequency'' (map (\<lambda>r. (rfm_unique_id r, of_nat (Frequency r))) (top_frequency d)),
                  rfm_axes ''By Monetary'' (map (\<lambda>r. (rfm_unique_id r, Monetary r)) (top_monetary d))]\<rparr>"

definition sidebar :: "order list \<Rightarrow> element list" where
  "sidebar os =
     [Image ''https://anyhub.com.br/wp-content/uploads/2023/10/logo_olist_d7309b5f20.png'',
      DateInput ''Rentang Waktu'' (date_bounds os)]"

definition page :: "dashboard \<Rightarrow> element list" where
  "page d =
     [Header ''OList Dashboard :sparkles:'',
      Subheader ''Summary'',
      Metric ''Total orders'' (Count (total_orders d)),
      Metric ''Total Revenue'' (Currency (Some (total_revenue d)) ''BRL''),
      Subheader ''Monthly Revenue'',
      Pyplot (monthly_figure d),
      Subheader ''Product Performance'',
      Pyplot (best_figure d),
      Pyplot (worst_figure d),
      Subheader ''City Spending'',
      Pyplot (city_figure d),
      Subheader ''Category Revenue'',
      Pyplot (category_figure d),
      Subheader ''Best Customer Based on RFM Parameters'',
      Metric ''Average Recency (days)'' (Rounded (avg_recency d) 1),
      Metric ''Average Frequency'' (Rounded (avg_frequency d) 2),
      Metric ''Average Monetary'' (Currency (avg_monetary d) ''BRL''),
      Pyplot (rfm_figure d)]"

definition run_script :: "store \<Rightarrow> date list \<Rightarrow> element list \<times> py_error option" where
  "run_script st sel =
     (case load_store st of
        Inl e \<Rightarrow> ([], Some e)
      | Inr ld \<Rightarrow>
          (case render st sel of
             Inl e \<Rightarrow> (sidebar (orders ld), Some e)
           | Inr d \<Rightarrow> (sidebar (orders ld) @ page d, None)))"

text \<open>Observations on a drawn page.\<close>

definition bars_of :: "axes \<Rightarrow> (string \<times> money) list" where
  "bars_of ax = (case ax_series ax of Plot _ _ _ _ \<Rightarrow> [] | Barplot _ bars _ \<Rightarrow> bars)"

definition highlighted_bars :: "axes \<Rightarrow> (string \<times> money) list" where
  "highlighted_bars ax =
     (case ax_series ax of
        Plot _ _ _ _ \<Rightarrow> []
      | Barplot _ bars pal \<Rightarrow> map fst (filter (\<lambda>(b, c). c = HIGHLIGHT) (zip bars pal)))"

definition bars_fit :: "axes \<Rightarrow> bool" where
  "bars_fit ax = (case ax_series ax of Plot _ _ _ _ \<Rightarrow> True | Barplot _ bars pal \<Rightarrow> length bars \<le> length pal)"

fun element_bars_fit :: "element \<Rightarrow> bool" where
  "element_bars_fit (Pyplot f) = list_all bars_fit (fig_axes f)"
| "element_bars_fit _ = True"

definition wf_dashboard :: "dashboard \<Rightarrow> bool" where
  "wf_dashboard d \<longleftrightarrow>
     distinct (map fst (monthly_revenue d))
     \<and> sorted (rev (map snd (product_order_count d))) \<and> distinct (map fst (product_order_count d))
     \<and> keys_strict (total_spent_percity d) \<and> keys_strict (revenue_bycategory d)
     \<and> sorted_wrt (<) (map rfm_unique_id (rfm d))
     \<and> total_revenue d = sum_list (map snd (monthly_revenue d))"

text \<open>
  A store where three products sold three, two and one times in January 2023: fewer
  than five products, so the "worst" chart draws all of them.
\<close>

definition ex_small :: store where
  "ex_small =
     \<lparr>orders =
        [\<lparr>order_id = ''O1'', customer_id = ''C1'', order_purchase_timestamp = ((2023, 1, 10), 0)\<rparr>,
         \<lparr>order_id = ''O2'', customer_id = ''C1'', order_purchase_timestamp = ((2023, 1, 20), 0)\<rparr>,
         \<lparr>order_id = ''O3'', customer_id = ''C1'', order_purchase_timestamp = ((2023, 1, 30), 0)\<rparr>],
      order_items =
        [\<lparr>item_order_id = ''O1'', product_id = ''P1'', price = 10\<rparr>,
         \<lparr>item_order_id = ''O1'', product_id = ''P2'', price = 10\<rparr>,
         \<lparr>item_order_id = ''O1'', product_id = ''P3'', price = 10\<rparr>,
         \<lparr>item_order_id = ''O2'', product_id = ''P1'', price = 10\<rparr>,
         \<lparr>item_order_id = ''O2'', product_id = ''P2'', price = 10\<rparr>,
         \<lparr>item_order_id = ''O3'', product_id = ''P1'', price = 10\<rparr>],
      customers = [\<lparr>cust_customer_id = ''C1'', customer_unique_id = ''U1'', customer_city = ''Rio''\<rparr>],
      products =
        [\<lparr>prod_product_id = ''P1'', product_category_name = Some ''pcs''\<rparr>,
         \<lparr>prod_product_id = ''P2'', product_category_name = Some ''pcs''\<rparr>,
         \<lparr>prod_product_id = ''P3'', product_category_name = Some ''pcs''\<rparr>],
      category_translations = [],
      payments = []\<rparr>"

subsection \<open>Reruns that succeed and reruns that raise\<close>

lemma run_script_render:
  assumes "valid_orders (orders st)"
  shows "run_script st sel =
           (case render st sel of
              Inl e \<Rightarrow> (sidebar (map truncate_order (orders st)), Some e)
            | Inr d \<Rightarrow> (sidebar (map truncate_order (orders st)) @ page d, None))"
  by (simp add: run_script_def load_store_valid [OF assms] split: sum.split)

subsection \<open>What the bar charts draw\<close>

lemma filter_zip_muted:
  "filter (\<lambda>(b, c). c = HIGHLIGHT) (zip bs (replicate n MUTED)) = []"
  by (auto simp: filter_empty_conv HIGHLIGHT_def MUTED_def dest: set_zip_rightD)

lemma highlighted_first:
  "ax_series ax = Barplot ori bars (HIGHLIGHT # replicate n MUTED) \<Longrightarrow> highlighted_bars ax = take 1 bars"
  by (cases bars) (simp_all add: highlighted_bars_def filter_zip_muted)

lemma colors_products_replicate: "colors_products = HIGHLIGHT # replicate 4 MUTED"
  by (simp add: colors_products_def numeral_eq_Suc)

lemma sorted_desc_wrt: "sorted (rev (map f ys)) \<longleftrightarrow> sorted_wrt (\<lambda>a b. f b \<le> f a) ys"
  by (simp add: sorted_wrt_rev sorted_wrt_map)

lemma head_count_bar_max:
  assumes "sorted (rev (map snd ys))" and "(p, c) \<in> set (take 1 (count_bars ys))" and "q \<in> set ys"
  shows "of_nat (snd q) \<le> c"
proof (cases ys)
  case Nil
  then show ?thesis using assms(3) by simp
next
  case (Cons y ys')
  then have "c = of_nat (snd y)" using assms(2) by (auto simp: count_bars_def split: prod.splits)
  moreover have "sorted_wrt (\<lambda>a b. snd b \<le> snd a) ys"
    using assms(1) by (simp only: sorted_desc_wrt)
  then have "snd q \<le> snd y"
    using assms(3) Cons by auto
  ultimately show ?thesis by simp
qed

lemma count_bars_mem: "(q, c) \<in> set (count_bars ys) \<Longrightarrow> \<exists>y\<in>set ys. c = of_nat (snd y)"
  by (force simp: count_bars_def)

lemma sorted_desc_drop: "sorted (rev (map f ys)) \<Longrightarrow> sorted (rev (map f (drop k ys)))"
  unfolding sorted_desc_wrt by (rule sorted_wrt_drop)

lemma render_counts_sorted: "render st sel = Inr d \<Longrightarrow> sorted (rev (map snd (product_order_count d)))"
  using render_product_order_count [of st sel d] product_order_count_df_shape by metis

lemma top_sort_key:
  "mset (take n (sort_key f xs) @ drop n (sort_key f xs)) = mset xs
   \<and> (\<forall>p\<in>set (take n (sort_key f xs)). \<forall>q\<in>set (drop n (sort_key f xs)). f p \<le> f q)"
proof
  show "mset (take n (sort_key f xs) @ drop n (sort_key f xs)) = mset xs" by simp
  have "sorted_wrt (\<lambda>a b. f a \<le> f b) (take n (sort_key f xs) @ drop n (sort_key f xs))"
    using sorted_sort_key [of f xs] by (simp add: sorted_wrt_map)
  then show "\<forall>p\<in>set (take n (sort_key f xs)). \<forall>q\<in>set (drop n (sort_key f xs)). f p \<le> f q"
    by (simp only: sorted_wrt_append) blast
qed

lemma top_sort_desc:
  "mset (take n (sort_values_desc f xs) @ drop n (sort_values_desc f xs)) = mset xs
   \<and> (\<forall>p\<in>set (take n (sort_values_desc f xs)). \<forall>q\<in>set (drop n (sort_values_desc f xs)). f q \<le> f p)"
  using sorted_desc_take_drop [OF sort_values_desc_sorted [of f xs], of n]
  by (simp add: mset_sort_values_desc)

text \<open>
  C9. Well-formedness of a rerun's result: on valid data every dashboard \<open>render\<close>
  returns has distinct month labels, product rows with distinct ids in descending count
  order, city and category rows with strictly ascending keys (pandas' sorted
  \<open>groupby\<close>), RFM rows with strictly ascending \<open>customer_unique_id\<close>, and the revenue
  metric equal to the sum of the monthly revenue it is computed from.
\<close>

theorem render_wf:
  assumes "valid_orders (orders st)" and "render st sel = Inr d"
  shows "wf_dashboard d"
proof -
  obtain s e where
        m: "monthly_revenue_df (filter_orders (map truncate_order (orders st)) s e) (order_items st)
              = Inr (monthly_revenue d)"
    and p: "product_order_count d = product_order_count_df (filter_orders (map truncate_order (orders st)) s e)
           (order_items st) (normalize_products (products st) (category_translations st))"
    and c: "total_spent_percity d = total_spent_percity_df (filter_orders (map truncate_order (orders st)) s e)
           (customers st) (payments st)"
    and g: "revenue_bycategory d = revenue_bycategory_df (filter_orders (map truncate_order (orders st)) s e)
           (order_items st) (normalize_products (products st) (category_translations st))"
    and r: "rfm d = create_rfm_df (filter_orders (map truncate_order (orders st)) s e) (order_items st) (customers st)"
    and t: "total_revenue d = sum_list (map snd (monthly_revenue d))"
    by (rule render_Inr [OF assms])
  have v: "valid_orders (filter_orders (map truncate_order (orders st)) s e)"
    using assms(1) by (intro valid_orders_filter valid_orders_truncate)
  show ?thesis
    unfolding wf_dashboard_def p c g r t
    using monthly_revenue_labels_distinct [OF v m] product_order_count_df_shape
    by (simp add: total_spent_percity_df_def revenue_bycategory_df_def groupby_sum_strict
                  create_rfm_df_ids)
qed

theorem render_wf_witness:
  "\<exists>d. render ex_store [(2023, 1, 1), (2023, 3, 1)] = Inr d \<and> wf_dashboard d"
proof -
  obtain d where r: "render ex_store [(2023, 1, 1), (2023, 3, 1)] = Inr d"
    using render_two [OF ex_store_valid, of "(2023, 1, 1)" "(2023, 3, 1)"] by blast
  show ?thesis using r render_wf [OF ex_store_valid r] by blast
qed


text \<open>
  C26. The highlighted bar of the "Best Performing Product" chart (line 156, the one
  drawn in \<open>#90CAF9\<close>) is a product with the largest count of all products.
\<close>

theorem best_chart_highlights_top:
  assumes "render st sel = Inr d"
  shows "\<forall>(p, c)\<in>set (highlighted_bars (hd (fig_axes (best_figure d)))).
           \<forall>q\<in>set (product_order_count d). of_nat (snd q) \<le> c"
proof -
  have h: "highlighted_bars (hd (fig_axes (best_figure d))) = take 1 (count_bars (product_order_count d))"
    by (simp add: best_figure_def highlighted_first colors_products_replicate best_products_def
                  count_bars_def take_map)
  show ?thesis
    unfolding h using head_count_bar_max [OF render_counts_sorted [OF assms]] by blast
qed

theorem best_chart_highlights_top_witness:
  "\<exists>d. render ex_store [(2023, 1, 1), (2023, 3, 1)] = Inr d
       \<and> highlighted_bars (hd (fig_axes (best_figure d))) = [(''P1'', 2)]
       \<and> of_nat (snd (product_order_count d ! 5)) \<le> (2::money)"
proof -
  obtain d where r: "render ex_store [(2023, 1, 1), (2023, 3, 1)] = Inr d"
    and pc0: "product_order_count d = product_order_count_df
               (filter_orders (map truncate_order (orders ex_store)) (2023, 1, 1) (2023, 3, 1))
               (order_items ex_store) (normalize_products (products ex_store) (category_translations ex_store))"
    using render_two [OF ex_store_valid, of "(2023, 1, 1)" "(2023, 3, 1)"] by blast
  have pc: "product_order_count d = [(''P1'', 2), (''P2'', 1), (''P3'', 1), (''P4'', 1), (''P5'', 1), (''P6'', 1)]"
    by (simp only: pc0 ex_store_product_order_count)
  have h: "highlighted_bars (hd (fig_axes (best_figure d))) = [(''P1'', 2)]"
    by (simp add: pc best_figure_def highlighted_first colors_products_replicate best_products_def
                  count_bars_def)
  have "\<forall>(p, c)\<in>set (highlighted_bars (hd (fig_axes (best_figure d)))).
           \<forall>q\<in>set (product_order_count d). of_nat (snd q) \<le> c"
    by (rule best_chart_highlights_top [OF r])
  then show ?thesis using r h by (auto simp: pc)
qed

text \<open>
  C25. The "Worst Performing Product" chart (line 167) reuses the palette whose first
  colour is the highlight, and draws the last five rows of the descending ranking in
  that order: its highlighted bar has the largest count of the bars drawn, i.e. the
  chart highlights the best of the worst products, not the worst one.
\<close>

theorem worst_chart_highlights_max:
  assumes "render st sel = Inr d"
  shows "\<forall>(p, c)\<in>set (highlighted_bars (hd (fig_axes (worst_figure d)))).
           \<forall>(q, c')\<in>set (bars_of (hd (fig_axes (worst_figure d)))). c' \<le> c"
proof -
  let ?ys = "worst_products d"
  have s: "sorted (rev (map snd ?ys))"
    unfolding worst_products_def by (rule sorted_desc_drop [OF render_counts_sorted [OF assms]])
  have h: "highlighted_bars (hd (fig_axes (worst_figure d))) = take 1 (count_bars ?ys)"
    by (simp add: worst_figure_def highlighted_first colors_products_replicate)
  have b: "bars_of (hd (fig_axes (worst_figure d))) = count_bars ?ys"
    by (simp add: worst_figure_def bars_of_def)
  show ?thesis
    unfolding h b using head_count_bar_max [OF s] count_bars_mem by fastforce
qed

lemma ex_small_valid: "valid_orders (orders ex_small)"
  by (simp add: ex_small_def valid_orders_def valid_ts_def valid_date_def days_in_month_def
                DAYS_IN_MONTH_def is_leap_def)

lemma ex_small_product_order_count:
  "product_order_count_df (filter_orders (map truncate_order (orders ex_small)) (2023, 1, 1) (2023, 1, 1))
     (order_items ex_small) (normalize_products (products ex_small) (category_translations ex_small))
   = [(''P1'', 3), (''P2'', 2), (''P3'', 1)]"
proof -
  have f: "filter_orders (map truncate_order (orders ex_small)) (2023, 1, 1) (2023, 1, 1)
             = map truncate_order (orders ex_small)"
    by (simp add: ex_small_def filter_orders_def in_date_range_def date_timestamp_def truncate_order_def
                  month_start_def ts_year_def ts_month_def)
  have n: "normalize_products (products ex_small) (category_translations ex_small) = products ex_small"
    by (simp add: ex_small_def normalize_products_def merge_translation_def translate_category_def)
  have r: "product_rows (map truncate_order (orders ex_small)) (order_items ex_small) (products ex_small) =
           [(''P1'', ''O1''), (''P2'', ''O1''), (''P3'', ''O1''), (''P1'', ''O2''), (''P2'', ''O2''), (''P1'', ''O3'')]"
    by (simp add: ex_small_def truncate_order_def product_rows_def items_of_def products_of_def)
  show ?thesis
    unfolding f n product_order_count_df_def r
    by (simp add: groupby_count_def groupby_sum_def groupby_agg_def sort_values_desc_def)
qed

theorem worst_chart_highlights_max_witness:
  "\<exists>d. render ex_small [(2023, 1, 1), (2023, 1, 1)] = Inr d
       \<and> highlighted_bars (hd (fig_axes (worst_figure d))) = [(''P1'', 3)]
       \<and> (''P3'', 1) \<in> set (bars_of (hd (fig_axes (worst_figure d))))"
proof -
  obtain d where r: "render ex_small [(2023, 1, 1), (2023, 1, 1)] = Inr d"
    and pc0: "product_order_count d = product_order_count_df
               (filter_orders (map truncate_order (orders ex_small)) (2023, 1, 1) (2023, 1, 1))
               (order_items ex_small) (normalize_products (products ex_small) (category_translations ex_small))"
    using render_two [OF ex_small_valid, of "(2023, 1, 1)" "(2023, 1, 1)"] by blast
  have pc: "product_order_count d = [(''P1'', 3), (''P2'', 2), (''P3'', 1)]"
    by (simp only: pc0 ex_small_product_order_count)
  have h: "highlighted_bars (hd (fig_axes (worst_figure d))) = [(''P1'', 3)]"
    and b: "(''P3'', 1) \<in> set (bars_of (hd (fig_axes (worst_figure d))))"
    by (simp_all add: pc worst_figure_def highlighted_first colors_products_replicate worst_products_def
                      count_bars_def bars_of_def)
  have "\<forall>(p, c)\<in>set (highlighted_bars (hd (fig_axes (worst_figure d)))).
           \<forall>(q, c')\<in>set (bars_of (hd (fig_axes (worst_figure d)))). c' \<le> c"
    by (rule worst_chart_highlights_max [OF r])
  then show ?thesis using r h b by auto
qed





text \<open>
  C27. The summary metrics (lines 127, 131) report the filtered orders: on valid data a
  rerun with two dates shows "Total orders" as the number of orders in the range and
  "Total Revenue" as the total price of the items of those orders.
\<close>

theorem page_total_metrics:
  fixes s e :: date
  assumes "valid_orders (orders st)"
  defines "os' \<equiv> filter_orders (map truncate_order (orders st)) s e"
  shows "Metric ''Total orders'' (Count (length os')) \<in> set (fst (run_script st [s, e]))
       \<and> Metric ''Total Revenue'' (Currency (Some (joined_revenue os' (order_items st))) ''BRL'')
           \<in> set (fst (run_script st [s, e]))"
proof -
  obtain d where r: "render st [s, e] = Inr d"
    and m: "monthly_revenue_df os' (order_items st) = Inr (monthly_revenue d)"
    and n: "total_orders d = length os'"
    and t: "total_revenue d = sum_list (map snd (monthly_revenue d))"
    using render_two [OF assms(1), of s e] unfolding os'_def by blast
  have v: "valid_orders os'"
    unfolding os'_def using assms(1) by (intro valid_orders_filter valid_orders_truncate)
  have "total_revenue d = joined_revenue os' (order_items st)"
    using t monthly_revenue_sum [OF v m] by simp
  then show ?thesis
    using n by (simp add: run_script_render [OF assms(1)] r page_def)
qed

theorem page_total_metrics_witness:
  "Metric ''Total orders'' (Count 6) \<in> set (fst (run_script ex_store [(2023, 1, 1), (2023, 3, 1)]))
   \<and> Metric ''Total Revenue'' (Currency (Some 220) ''BRL'')
       \<in> set (fst (run_script ex_store [(2023, 1, 1), (2023, 3, 1)]))"
proof -
  have j: "joined_revenue (map truncate_order (orders ex_store)) (order_items ex_store) = 220"
    by (simp add: ex_store_def truncate_order_def joined_revenue_def)
  have l: "length (map truncate_order (orders ex_store)) = 6"
    by (simp add: ex_store_length)
  show ?thesis
    using page_total_metrics [OF ex_store_valid, of "(2023, 1, 1)" "(2023, 3, 1)"]
    by (simp only: ex_store_filtered j l)
qed





end
