(* ===== verification/Timestamps.thy ===== *)
theory Timestamps
  imports Labels
begin

text \<open>
  The purchase timestamps as the CSV holds them, \<open>'%Y-%m-%d %H:%M:%S'\<close> (for instance
  \<open>2017-10-02 10:56:33\<close>), and their parser \<open>parse_datetime\<close>: the first, unformatted
  \<open>pd.to_datetime\<close> of \<open>src/dashboard.py\<close> line 96, with the format pandas infers from
  the dataset's first value. The parser reads six fixed-width digit fields between
  fixed separators and accepts only a real date of pandas' range and a real time of day.
  \<open>format_datetime\<close> prints a timestamp in the same format; it is the reference
  against which the parser is proved: it accepts exactly the printed strings of valid
  timestamps and returns the timestamp printed.
\<close>

definition parse_digits :: "string \<Rightarrow> nat option" where
  "parse_digits s =
     (if s \<noteq> [] \<and> list_all is_digit s then Some (foldl (\<lambda>acc c. 10 * acc + digit_val c) 0 s) else None)"

definition parse_datetime :: "string \<Rightarrow> timestamp option" where
  "parse_datetime s =
     (if length s = 19 \<and> s ! 4 = CHR ''-'' \<and> s ! 7 = CHR ''-'' \<and> s ! 10 = CHR '' ''
         \<and> s ! 13 = CHR '':'' \<and> s ! 16 = CHR '':''
      then (case (parse_digits (take 4 s), parse_digits (take 2 (drop 5 s)), parse_digits (take 2 (drop 8 s)),
                  parse_digits (take 2 (drop 11 s)), parse_digits (take 2 (drop 14 s)),
                  parse_digits (take 2 (drop 17 s))) of
              (Some y, Some m, Some d, Some hh, Some mm, Some ss) \<Rightarrow>
                if hh < 24 \<and> mm < 60 \<and> ss < 60 \<and> valid_ts ((y, m, d), hh * 3600 + mm * 60 + ss)
                then Some ((y, m, d), hh * 3600 + mm * 60 + ss) else None
            | _ \<Rightarrow> None)
      else None)"

definition two_digits :: "nat \<Rightarrow> string" where
  "two_digits n = [digit_char (n div 10 mod 10), digit_char (n mod 10)]"

definition format_datetime :: "timestamp \<Rightarrow> string" where
  "format_datetime t = (case t of ((y, m, d), sec) \<Rightarrow>
     format_year y @ CHR ''-'' # two_digits m @ CHR ''-'' # two_digits d @ CHR '' '' #
     two_digits (sec div 3600) @ CHR '':'' # two_digits (sec div 60 mod 60) @ CHR '':'' #
     two_digits (sec mod 60))"

subsection \<open>Digit fields\<close>

lemma digit_val_char:
  "is_digit c \<Longrightarrow> digit_val c < 10 \<and> digit_char (digit_val c) = c"
  by (auto simp: is_digit_def digit_val_def digit_char_def)

lemma length_two_digits [simp]: "length (two_digits n) = 2"
  by (simp add: two_digits_def)

lemma parse_two_digits: "n < 100 \<Longrightarrow> parse_digits (two_digits n) = Some n"
  by (simp add: parse_digits_def two_digits_def)

lemma parse_digits_format_year: "y < 10000 \<Longrightarrow> parse_digits (format_year y) = Some y"
proof -
  assume y: "y < 10000"
  have "format_year y \<noteq> []" by (simp add: format_year_def)
  then have "parse_digits (format_year y) = parse_year (format_year y)"
    by (simp add: parse_digits_def parse_year_def)
  then show ?thesis using parse_format_year [OF y] by simp
qed

lemma digits_of_four:
  fixes a b c d :: nat
  assumes "a < 10" "b < 10" "c < 10" "d < 10"
  shows "(1000 * a + 100 * b + 10 * c + d) div 1000 mod 10 = a
       \<and> (1000 * a + 100 * b + 10 * c + d) div 100 mod 10 = b
       \<and> (1000 * a + 100 * b + 10 * c + d) div 10 mod 10 = c
       \<and> (1000 * a + 100 * b + 10 * c + d) mod 10 = d"
proof -
  have e: "1000 * a + 100 * b + 10 * c + d = d + 10 * (c + 10 * (b + 10 * a))" by simp
  have d10: "(d + 10 * x) div 10 = x" "(d + 10 * x) mod 10 = d" for x
    using assms(4) by simp_all
  have c10: "(c + 10 * x) div 10 = x" "(c + 10 * x) mod 10 = c" for x
    using assms(3) by simp_all
  have b10: "(b + 10 * x) div 10 = x" "(b + 10 * x) mod 10 = b" for x
    using assms(2) by simp_all
  have p1000: "n div 1000 = n div 10 div 10 div 10" and p100: "n div 100 = n div 10 div 10" for n :: nat
    by (simp_all add: div_mult2_eq [symmetric])
  show ?thesis
    unfolding e p1000 p100 d10 c10 b10 using assms(1) by simp
qed

lemma two_digits_parse:
  assumes "length w = 2" and "parse_digits w = Some v"
  shows "two_digits v = w \<and> v < 100"
proof -
  obtain a b where w: "w = [a, b]"
    using assms(1) by (auto simp: numeral_eq_Suc length_Suc_conv)
  have a: "digit_val a < 10" "digit_char (digit_val a) = a"
    and b: "digit_val b < 10" "digit_char (digit_val b) = b"
    using assms(2) digit_val_char by (auto simp: w parse_digits_def split: if_splits)
  have v: "v = 10 * digit_val a + digit_val b"
    using assms(2) by (simp add: w parse_digits_def split: if_splits)
  show ?thesis using a b by (simp add: v w two_digits_def)
qed

lemma format_year_parse:
  assumes "length w = 4" and "parse_digits w = Some v"
  shows "format_year v = w"
proof -
  obtain a b c d where w: "w = [a, b, c, d]"
    using assms(1) by (auto simp: numeral_eq_Suc length_Suc_conv)
  have dv: "digit_val a < 10" "digit_char (digit_val a) = a" "digit_val b < 10" "digit_char (digit_val b) = b"
           "digit_val c < 10" "digit_char (digit_val c) = c" "digit_val d < 10" "digit_char (digit_val d) = d"
    using assms(2) digit_val_char by (auto simp: w parse_digits_def split: if_splits)
  have v: "v = 1000 * digit_val a + 100 * digit_val b + 10 * digit_val c + digit_val d"
    using assms(2) by (simp add: w parse_digits_def split: if_splits)
  show ?thesis using dv digits_of_four [OF dv(1) dv(3) dv(5) dv(7)] by (simp add: v w format_year_def)
qed

lemma split_19:
  "length s = 19 \<Longrightarrow>
   s = take 4 s @ s ! 4 # take 2 (drop 5 s) @ s ! 7 # take 2 (drop 8 s) @ s ! 10 # take 2 (drop 11 s)
       @ s ! 13 # take 2 (drop 14 s) @ s ! 16 # take 2 (drop 17 s)"
  by (auto simp: numeral_eq_Suc length_Suc_conv)

lemma hms_split:
  fixes hh mm ss :: nat
  assumes "mm < 60" "ss < 60"
  shows "(hh * 3600 + mm * 60 + ss) div 3600 = hh \<and> (hh * 3600 + mm * 60 + ss) div 60 mod 60 = mm
         \<and> (hh * 3600 + mm * 60 + ss) mod 60 = ss"
proof -
  have e: "hh * 3600 + mm * 60 + ss = ss + 60 * (mm + 60 * hh)" by simp
  have p: "n div 3600 = n div 60 div 60" for n :: nat by (simp add: div_mult2_eq [symmetric])
  have s60: "(ss + 60 * x) div 60 = x" "(ss + 60 * x) mod 60 = ss" for x
    using assms(2) by simp_all
  have m60: "(mm + 60 * x) div 60 = x" "(mm + 60 * x) mod 60 = mm" for x
    using assms(1) by simp_all
  show ?thesis unfolding e p s60 m60 by simp
qed

lemma hms_join:
  "(sec::nat) < 86400 \<Longrightarrow>
   sec div 3600 < 24 \<and> sec div 60 mod 60 < 60 \<and> sec mod 60 < 60
   \<and> sec div 3600 * 3600 + sec div 60 mod 60 * 60 + sec mod 60 = sec"
proof -
  assume "sec < 86400"
  have p: "sec div 3600 = sec div 60 div 60" by (simp add: div_mult2_eq [symmetric])
  have g: "(x * 60 + y) * 60 + r = x * 3600 + y * 60 + r" for x y r :: nat by simp
  have a: "sec div 60 div 60 * 60 + sec div 60 mod 60 = sec div 60" by (rule div_mult_mod_eq)
  have b: "sec div 60 * 60 + sec mod 60 = sec" by (rule div_mult_mod_eq)
  have "sec = (sec div 60 div 60 * 60 + sec div 60 mod 60) * 60 + sec mod 60"
    unfolding a b by (rule refl)
  also have "\<dots> = sec div 60 div 60 * 3600 + sec div 60 mod 60 * 60 + sec mod 60"
    by (rule g)
  finally have "sec div 3600 * 3600 + sec div 60 mod 60 * 60 + sec mod 60 = sec"
    unfolding p by simp
  then show ?thesis using \<open>sec < 86400\<close> by simp
qed

lemma slices_19:
  fixes c1 c2 c3 c4 c5 :: char
  assumes "length A = 4" "length B = 2" "length C = 2" "length D = 2" "length E = 2" "length F = 2"
  defines "s \<equiv> A @ c1 # B @ c2 # C @ c3 # D @ c4 # E @ c5 # F"
  shows "length s = 19 \<and> s ! 4 = c1 \<and> s ! 7 = c2 \<and> s ! 10 = c3 \<and> s ! 13 = c4 \<and> s ! 16 = c5
         \<and> take 4 s = A \<and> take 2 (drop 5 s) = B \<and> take 2 (drop 8 s) = C \<and> take 2 (drop 11 s) = D
         \<and> take 2 (drop 14 s) = E \<and> take 2 (drop 17 s) = F"
  using assms by (auto simp: numeral_eq_Suc length_Suc_conv)

subsection \<open>Printing then parsing, parsing then printing\<close>

lemma format_datetime_slices:
  "length (format_datetime t) = 19
   \<and> format_datetime t ! 4 = CHR ''-'' \<and> format_datetime t ! 7 = CHR ''-''
   \<and> format_datetime t ! 10 = CHR '' '' \<and> format_datetime t ! 13 = CHR '':''
   \<and> format_datetime t ! 16 = CHR '':''
   \<and> take 4 (format_datetime t) = format_year (ts_year t)
   \<and> take 2 (drop 5 (format_datetime t)) = two_digits (ts_month t)
   \<and> take 2 (drop 8 (format_datetime t)) = two_digits (snd (snd (fst t)))
   \<and> take 2 (drop 11 (format_datetime t)) = two_digits (snd t div 3600)
   \<and> take 2 (drop 14 (format_datetime t)) = two_digits (snd t div 60 mod 60)
   \<and> take 2 (drop 17 (format_datetime t)) = two_digits (snd t mod 60)"
proof -
  obtain y m d sec where t: "t = ((y, m, d), sec)" by (cases t) auto
  show ?thesis
    using slices_19 [of "format_year y" "two_digits m" "two_digits d" "two_digits (sec div 3600)"
                        "two_digits (sec div 60 mod 60)" "two_digits (sec mod 60)"
                        "CHR ''-''" "CHR ''-''" "CHR '' ''" "CHR '':''" "CHR '':''"]
    by (simp add: t format_datetime_def ts_year_def ts_month_def)
qed

lemma parse_format_datetime:
  assumes "valid_ts t"
  shows "parse_datetime (format_datetime t) = Some t"
proof -
  obtain y m d sec where t: "t = ((y, m, d), sec)" by (cases t) auto
  have v: "valid_ts ((y, m, d), sec)" using assms t by simp
  then have r: "y < 10000" "m < 100" "d < 100" "sec < 86400"
    using days_in_month_le [of m y] by (auto simp: valid_ts_def valid_date_def)
  have hj: "sec div 3600 < 24" "sec div 60 mod 60 < 60" "sec mod 60 < 60"
    "sec div 3600 * 3600 + sec div 60 mod 60 * 60 + sec mod 60 = sec"
    using hms_join [OF r(4)] by simp_all
  have "sec div 3600 < 100" "sec div 60 mod 60 < 100" "sec mod 60 < 100" using hj by simp_all
  then show ?thesis
    using format_datetime_slices [of t] r hj v
    by (simp add: parse_datetime_def parse_digits_format_year parse_two_digits t ts_year_def ts_month_def)
qed

lemma parse_datetime_Some:
  assumes "parse_datetime s = Some t"
  obtains y m d hh mm ss where "length s = 19"
    and "s ! 4 = CHR ''-''" "s ! 7 = CHR ''-''" "s ! 10 = CHR '' ''" "s ! 13 = CHR '':''" "s ! 16 = CHR '':''"
    and "parse_digits (take 4 s) = Some y" "parse_digits (take 2 (drop 5 s)) = Some m"
    and "parse_digits (take 2 (drop 8 s)) = Some d" "parse_digits (take 2 (drop 11 s)) = Some hh"
    and "parse_digits (take 2 (drop 14 s)) = Some mm" "parse_digits (take 2 (drop 17 s)) = Some ss"
    and "hh < 24" "mm < 60" "ss < 60" "valid_ts t" "t = ((y, m, d), hh * 3600 + mm * 60 + ss)"
  using assms unfolding parse_datetime_def
  by (auto split: if_splits option.splits)

lemma format_parse_datetime:
  assumes "parse_datetime s = Some t"
  shows "valid_ts t \<and> format_datetime t = s"
proof -
  obtain y m d hh mm ss where l: "length s = 19"
    and sep: "s ! 4 = CHR ''-''" "s ! 7 = CHR ''-''" "s ! 10 = CHR '' ''" "s ! 13 = CHR '':''" "s ! 16 = CHR '':''"
    and py: "parse_digits (take 4 s) = Some y" and pm: "parse_digits (take 2 (drop 5 s)) = Some m"
    and pd: "parse_digits (take 2 (drop 8 s)) = Some d" and ph: "parse_digits (take 2 (drop 11 s)) = Some hh"
    and pmi: "parse_digits (take 2 (drop 14 s)) = Some mm" and pse: "parse_digits (take 2 (drop 17 s)) = Some ss"
    and b: "hh < 24" "mm < 60" "ss < 60" and v: "valid_ts t" and t: "t = ((y, m, d), hh * 3600 + mm * 60 + ss)"
    by (rule parse_datetime_Some [OF assms])
  have fy: "format_year y = take 4 s" by (rule format_year_parse [OF _ py]) (simp add: l)
  have tm: "two_digits m = take 2 (drop 5 s)" using two_digits_parse [OF _ pm] l by simp
  have td: "two_digits d = take 2 (drop 8 s)" using two_digits_parse [OF _ pd] l by simp
  have th: "two_digits hh = take 2 (drop 11 s)" using two_digits_parse [OF _ ph] l by simp
  have tmi: "two_digits mm = take 2 (drop 14 s)" using two_digits_parse [OF _ pmi] l by simp
  have tse: "two_digits ss = take 2 (drop 17 s)" using two_digits_parse [OF _ pse] l by simp
  have hms: "(hh * 3600 + mm * 60 + ss) div 3600 = hh" "(hh * 3600 + mm * 60 + ss) div 60 mod 60 = mm"
    "(hh * 3600 + mm * 60 + ss) mod 60 = ss"
    using hms_split [OF b(2,3), of hh] by simp_all
  have "format_datetime t = format_year y @ CHR ''-'' # two_digits m @ CHR ''-'' # two_digits d @ CHR '' '' #
          two_digits hh @ CHR '':'' # two_digits mm @ CHR '':'' # two_digits ss"
    by (simp only: t format_datetime_def prod.case hms)
  also have "\<dots> = take 4 s @ s ! 4 # take 2 (drop 5 s) @ s ! 7 # take 2 (drop 8 s) @ s ! 10 # take 2 (drop 11 s)
                 @ s ! 13 # take 2 (drop 14 s) @ s ! 16 # take 2 (drop 17 s)"
    by (simp only: fy tm td th tmi tse sep)
  also have "\<dots> = s" by (rule split_19 [OF l, symmetric])
  finally show ?thesis using v by simp
qed


end
