(* ===== verification/Load.thy ===== *)
theory Load
  imports Page Timestamps
begin

text \<open>
  The orders table as \<open>pd.read_csv\<close> returns it (\<open>src/dashboard.py\<close> line 89): the purchase
  timestamp is a string, or missing (an empty cell, NaN). Line 96 first parses the
  column with \<open>pd.to_datetime\<close>: pandas infers the format from the first value, which in
  the dataset is \<open>'%Y-%m-%d %H:%M:%S'\<close>, and raises \<open>ValueError\<close> on a value that does not
  match it or is not a real date; a missing value becomes NaT. NaT survives the month
  truncation (\<open>strftime\<close> gives NaN, which parses back to NaT), is skipped by
  \<open>min()\<close>/\<open>max()\<close> (lines 100--101), and compares false against both bounds of the
  filter (line 113). \<open>run_script_raw\<close> is one rerun from the raw tables; the main lemma
  shows it equals \<open>run_script\<close> on the store without the NaT rows.
\<close>

record raw_order =
  raw_order_id :: ident
  raw_customer_id :: ident
  raw_purchase_timestamp :: "string option"

record loaded_order =
  lo_order_id :: ident
  lo_customer_id :: ident
  lo_purchase_timestamp :: "timestamp option"

record raw_store =
  raw_orders :: "raw_order list"
  raw_order_items :: "order_item list"
  raw_customers :: "customer list"
  raw_products :: "product list"
  raw_category_translations :: "translation list"
  raw_payments :: "payment list"

definition parse_cell :: "string option \<Rightarrow> py_error + timestamp option" where
  "parse_cell c =
     (case c of
        None \<Rightarrow> Inr None
      | Some s \<Rightarrow> (case parse_datetime s of None \<Rightarrow> Inl ValueError | Some t \<Rightarrow> Inr (Some t)))"

fun read_orders :: "raw_order list \<Rightarrow> py_error + loaded_order list" where
  "read_orders [] = Inr []"
| "read_orders (r # rs) =
     (case parse_cell (raw_purchase_timestamp r) of
        Inl e \<Rightarrow> Inl e
      | Inr ot \<Rightarrow> (case read_orders rs of
                    Inl e \<Rightarrow> Inl e
                  | Inr ls \<Rightarrow> Inr (\<lparr>lo_order_id = raw_order_id r, lo_customer_id = raw_customer_id r,
                                      lo_purchase_timestamp = ot\<rparr> # ls)))"

fun truncate_loaded :: "loaded_order list \<Rightarrow> py_error + loaded_order list" where
  "truncate_loaded [] = Inr []"
| "truncate_loaded (l # ls) =
     (case (case lo_purchase_timestamp l of
              None \<Rightarrow> Inr None
            | Some t \<Rightarrow> (case to_month_timestamp t of Inl e \<Rightarrow> Inl e | Inr t' \<Rightarrow> Inr (Some t'))) of
        Inl e \<Rightarrow> Inl e
      | Inr ot \<Rightarrow> (case truncate_loaded ls of
                    Inl e \<Rightarrow> Inl e
                  | Inr ls' \<Rightarrow> Inr (l\<lparr>lo_purchase_timestamp := ot\<rparr> # ls')))"

definition present_orders :: "loaded_order list \<Rightarrow> order list" where
  "present_orders ls =
     concat (map (\<lambda>l. case lo_purchase_timestamp l of
                        None \<Rightarrow> []
                      | Some t \<Rightarrow> [\<lparr>order_id = lo_order_id l, customer_id = lo_customer_id l,
                                    order_purchase_timestamp = t\<rparr>]) ls)"

definition filter_loaded :: "loaded_order list \<Rightarrow> date \<Rightarrow> date \<Rightarrow> order list" where
  "filter_loaded ls s e =
     concat (map (\<lambda>l. case lo_purchase_timestamp l of
                        None \<Rightarrow> []
                      | Some t \<Rightarrow>
                          if date_timestamp s \<le> t \<and> t \<le> date_timestamp e
                          then [\<lparr>order_id = lo_order_id l, customer_id = lo_customer_id l,
                                 order_purchase_timestamp = t\<rparr>]
                          else []) ls)"

definition run_script_raw :: "raw_store \<Rightarrow> date list \<Rightarrow> element list \<times> py_error option" where
  "run_script_raw rs sel =
     (case read_orders (raw_orders rs) of
        Inl e \<Rightarrow> ([], Some e)
      | Inr ls \<Rightarrow>
          (case truncate_loaded ls of
             Inl e \<Rightarrow> ([], Some e)
           | Inr tls \<Rightarrow>
               (let ld = \<lparr>orders = present_orders tls, order_items = raw_order_items rs,
                          customers = raw_customers rs,
                          products = normalize_products (raw_products rs) (raw_category_translations rs),
                          category_translations = raw_category_translations rs,
                          payments = raw_payments rs\<rparr>;
                    sb = sidebar (present_orders tls)
                in case unpack_date_range sel of
                     Inl e \<Rightarrow> (sb, Some e)
                   | Inr (s, e) \<Rightarrow>
                       (case compute_views (filter_loaded tls s e) ld of
                          Inl err \<Rightarrow> (sb, Some err)
                        | Inr d \<Rightarrow> (sb @ page d, None)))))"

text \<open>The store the rows with a timestamp make.\<close>

definition raw_clean :: "raw_store \<Rightarrow> loaded_order list \<Rightarrow> store" where
  "raw_clean rs ls =
     \<lparr>orders = present_orders ls, order_items = raw_order_items rs, customers = raw_customers rs,
      products = raw_products rs, category_translations = raw_category_translations rs,
      payments = raw_payments rs\<rparr>"

definition ex_raw :: raw_store where
  "ex_raw =
     \<lparr>raw_orders =
        [\<lparr>raw_order_id = ''O1'', raw_customer_id = ''C1'', raw_purchase_timestamp = Some ''2023-01-15 10:30:00''\<rparr>,
         \<lparr>raw_order_id = ''O2'', raw_customer_id = ''C1'', raw_purchase_timestamp = None\<rparr>],
      raw_order_items =
        [\<lparr>item_order_id = ''O1'', product_id = ''P1'', price = 10\<rparr>,
         \<lparr>item_order_id = ''O2'', product_id = ''P1'', price = 20\<rparr>],
      raw_customers = [\<lparr>cust_customer_id = ''C1'', customer_unique_id = ''U1'', customer_city = ''Rio''\<rparr>],
      raw_products = [\<lparr>prod_product_id = ''P1'', product_category_name = Some ''pcs''\<rparr>],
      raw_category_translations = [],
      raw_payments = []\<rparr>"

subsection \<open>NaT rows reach no view\<close>

lemma truncate_present:
  "truncate_orders (present_orders ls) =
     (case truncate_loaded ls of Inl e \<Rightarrow> Inl e | Inr tls \<Rightarrow> Inr (present_orders tls))"
  by (induction ls) (auto simp: present_orders_def split: option.splits sum.splits)

lemma filter_loaded_present: "filter_loaded ls s e = filter_orders (present_orders ls) s e"
  by (induction ls) (simp_all add: filter_loaded_def present_orders_def filter_orders_def
                                   in_date_range_def split: option.split)

lemma run_script_raw_clean:
  assumes "read_orders (raw_orders rs) = Inr ls"
  shows "run_script_raw rs sel = run_script (raw_clean rs ls) sel"
proof (cases "truncate_loaded ls")
  case (Inl e)
  then show ?thesis
    using assms by (simp add: run_script_raw_def run_script_def load_store_def raw_clean_def truncate_present)
next
  case (Inr tls)
  then show ?thesis
    using assms
    by (simp add: run_script_raw_def run_script_def load_store_def raw_clean_def truncate_present
                  render_def filter_loaded_present Let_def split: sum.split prod.split)
qed

text \<open>
  C10. Rows without a purchase timestamp have no effect: once the column has parsed, a
  rerun from the raw tables (NaT rows kept, as the script keeps them) emits exactly what
  a rerun on the store of the timestamped rows emits, sidebar bounds, every view and
  every metric included, for any widget value.
\<close>

theorem run_script_raw_refines:
  assumes "read_orders (raw_orders rs) = Inr ls"
  shows "run_script_raw rs sel = run_script (raw_clean rs ls) sel"
  by (rule run_script_raw_clean [OF assms])



lemma ex_raw_read:
  "read_orders (raw_orders ex_raw) =
     Inr [\<lparr>lo_order_id = ''O1'', lo_customer_id = ''C1'', lo_purchase_timestamp = Some ((2023, 1, 15), 37800)\<rparr>,
          \<lparr>lo_order_id = ''O2'', lo_customer_id = ''C1'', lo_purchase_timestamp = None\<rparr>]"
  by (simp add: ex_raw_def parse_cell_def parse_datetime_def parse_digits_def is_digit_def digit_val_def
                valid_ts_def valid_date_def days_in_month_def DAYS_IN_MONTH_def)

theorem run_script_raw_refines_witness:
  "run_script_raw ex_raw [(2023, 1, 1), (2023, 12, 31)] =
     run_script (raw_clean ex_raw
       [\<lparr>lo_order_id = ''O1'', lo_customer_id = ''C1'', lo_purchase_timestamp = Some ((2023, 1, 15), 37800)\<rparr>,
        \<lparr>lo_order_id = ''O2'', lo_customer_id = ''C1'', lo_purchase_timestamp = None\<rparr>])
       [(2023, 1, 1), (2023, 12, 31)]"
  by (rule run_script_raw_refines [OF ex_raw_read])

text \<open>
  C11. A missing purchase timestamp is silently dropped, not reported (spec section 7
  asks that missing required fields fail fast at load time): on a table whose second
  order has an empty timestamp cell, loading succeeds, the rerun ends without an
  exception, and the page counts one order and its revenue only, the second order's
  item vanishing from every view.
\<close>

theorem missing_timestamp_dropped:
  "raw_purchase_timestamp (raw_orders ex_raw ! 1) = None
   \<and> snd (run_script_raw ex_raw [(2023, 1, 1), (2023, 12, 31)]) = None
   \<and> Metric ''Total orders'' (Count 1) \<in> set (fst (run_script_raw ex_raw [(2023, 1, 1), (2023, 12, 31)]))
   \<and> Metric ''Total Revenue'' (Currency (Some 10) ''BRL'')
       \<in> set (fst (run_script_raw ex_raw [(2023, 1, 1), (2023, 12, 31)]))"
proof -
  let ?o = "\<lparr>order_id = ''O1'', customer_id = ''C1'', order_purchase_timestamp = ((2023, 1, 1), 0)\<rparr>"
  let ?tls = "[\<lparr>lo_order_id = ''O1'', lo_customer_id = ''C1'', lo_purchase_timestamp = Some ((2023, 1, 1), 0)\<rparr>,
               \<lparr>lo_order_id = ''O2'', lo_customer_id = ''C1'', lo_purchase_timestamp = None\<rparr>]"
  have t: "truncate_loaded
             [\<lparr>lo_order_id = ''O1'', lo_customer_id = ''C1'', lo_purchase_timestamp = Some ((2023, 1, 15), 37800)\<rparr>,
              \<lparr>lo_order_id = ''O2'', lo_customer_id = ''C1'', lo_purchase_timestamp = None\<rparr>] = Inr ?tls"
    by (simp add: to_month_timestamp_valid valid_ts_def valid_date_def days_in_month_def DAYS_IN_MONTH_def
                  month_start_def ts_year_def ts_month_def)
  have f: "filter_loaded ?tls (2023, 1, 1) (2023, 12, 31) = [?o]"
    by (simp add: filter_loaded_def date_timestamp_def)
  have v: "valid_orders [?o]"
    by (simp add: valid_orders_def valid_ts_def valid_date_def days_in_month_def DAYS_IN_MONTH_def)
  obtain mr where mr: "monthly_revenue_df [?o] (raw_order_items ex_raw) = Inr mr"
    using monthly_revenue_df_valid [OF v] by blast
  have j: "joined_revenue [?o] (raw_order_items ex_raw) = 10"
    by (simp add: ex_raw_def joined_revenue_def)
  have sum: "sum_list (map snd mr) = 10"
    using monthly_revenue_sum [OF v mr] j by simp
  have n: "raw_purchase_timestamp (raw_orders ex_raw ! 1) = None"
    by (simp add: ex_raw_def)
  have u: "unpack_date_range [(2023, 1, 1), (2023, 12, 31)] = Inr ((2023, 1, 1), (2023, 12, 31))"
    by (simp add: unpack_date_range_def)
  have r: "run_script_raw ex_raw [(2023, 1, 1), (2023, 12, 31)] =
      (case compute_views [?o] \<lparr>orders = present_orders ?tls, order_items = raw_order_items ex_raw,
                          customers = raw_customers ex_raw,
                          products = normalize_products (raw_products ex_raw) (raw_category_translations ex_raw),
                          category_translations = raw_category_translations ex_raw,
                          payments = raw_payments ex_raw\<rparr> of
         Inl err \<Rightarrow> (sidebar (present_orders ?tls), Some err)
       | Inr d \<Rightarrow> (sidebar (present_orders ?tls) @ page d, None))"
    by (simp only: run_script_raw_def ex_raw_read t u f sum.case Let_def prod.case)
  show ?thesis
    using n unfolding r by (simp only: compute_views_def store.select_convs mr sum.case Let_def) (simp add: sum page_def)
qed

end
