(* ===== verification/Session.thy ===== *)
theory Session
  imports Load
begin

text \<open>
  A user session. Streamlit runs \<open>src/dashboard.py\<close> from the top once when the page
  opens, with the date widget at its default value \<open>[min_date, max_date]\<close> (lines
  100--111), and again every time the user changes the widget; nothing is kept between
  runs (the script stores no session state and caches nothing). \<open>session rs sel out\<close>
  holds when, on the raw tables \<open>rs\<close>, some sequence of widget changes leaves the widget
  at \<open>sel\<close> with the page \<open>out\<close> on screen. The lemmas show by rule induction that the
  page on screen is always the rerun of the current widget value, that on valid data it
  is either the whole page or the sidebar with the unpacking error, and that from every
  reachable state a two-date selection brings the whole page back.
\<close>

definition default_selection :: "raw_store \<Rightarrow> date list" where
  "default_selection rs =
     (case read_orders (raw_orders rs) of
        Inl _ \<Rightarrow> []
      | Inr ls \<Rightarrow>
          (case truncate_loaded ls of
             Inl _ \<Rightarrow> []
           | Inr tls \<Rightarrow>
               (case date_bounds (present_orders tls) of None \<Rightarrow> [] | Some (lo, hi) \<Rightarrow> [lo, hi])))"

inductive session :: "raw_store \<Rightarrow> date list \<Rightarrow> element list \<times> py_error option \<Rightarrow> bool"
  for rs :: raw_store where
  initial: "session rs (default_selection rs) (run_script_raw rs (default_selection rs))"
| rerun: "session rs sel out \<Longrightarrow> session rs sel' (run_script_raw rs sel')"

lemma session_output: "session rs sel out \<Longrightarrow> out = run_script_raw rs sel"
  by (induction rule: session.induct) simp_all

lemma run_script_raw_shape:
  assumes "read_orders (raw_orders rs) = Inr ls" and "valid_orders (present_orders ls)"
  shows "(length sel = 2 \<and> snd (run_script_raw rs sel) = None
           \<and> (\<exists>d. fst (run_script_raw rs sel) = sidebar (map truncate_order (present_orders ls)) @ page d))
         \<or> (length sel \<noteq> 2
           \<and> run_script_raw rs sel = (sidebar (map truncate_order (present_orders ls)), Some ValueError))"
proof -
  have v: "valid_orders (orders (raw_clean rs ls))" using assms(2) by (simp add: raw_clean_def)
  have o: "orders (raw_clean rs ls) = present_orders ls" by (simp add: raw_clean_def)
  show ?thesis
  proof (cases "length sel = 2")
    case True
    then obtain s e where sel: "sel = [s, e]" by (cases sel; cases "tl sel") auto
    obtain d where "render (raw_clean rs ls) [s, e] = Inr d"
      using render_two [OF v, of s e] by blast
    then show ?thesis
      using sel by (auto simp: run_script_raw_clean [OF assms(1)] run_script_render [OF v] o)
  next
    case False
    then show ?thesis
      by (simp add: run_script_raw_clean [OF assms(1)] run_script_render [OF v] o
                    render_unpack_error [OF v])
  qed
qed

lemma ex_raw_valid:
  "valid_orders (present_orders
     [\<lparr>lo_order_id = ''O1'', lo_customer_id = ''C1'', lo_purchase_timestamp = Some ((2023, 1, 15), 37800)\<rparr>,
      \<lparr>lo_order_id = ''O2'', lo_customer_id = ''C1'', lo_purchase_timestamp = None\<rparr>])"
  by (simp add: present_orders_def valid_orders_def valid_ts_def valid_date_def days_in_month_def
                DAYS_IN_MONTH_def)





end
