(* ===== verification/Spec2Isabelle.thy ===== *)
theory Spec2Isabelle
  imports Session
begin

text \<open>
  \<^bold>\<open>A verified model of the OList dashboard's data transforms.\<close>

  The repository is one Streamlit script, \<open>src/dashboard.py\<close>. At every rerun it loads
  six CSV tables (lines 89--94), truncates every purchase timestamp to the first
  instant of its month (line 96), normalizes product categories through a translation
  table (lines 81--87, 97--98), offers the earliest and latest order to a date-range
  widget and unpacks its value (lines 100--111), narrows the orders to that range
  (line 113), computes five derived views from the narrowed orders
  (\<open>monthly_revenue_df\<close>, \<open>product_order_count_df\<close>, \<open>total_spent_percity_df\<close>,
  \<open>revenue_bycategory_df\<close>, \<open>create_rfm_df\<close>, lines 9--79 called at 115--119) and
  draws them with summary metrics (lines 121--267). The views are independent pure
  functions of the same filtered orders and the static tables; the only state is the
  sequence load, widget, filter, views within one rerun, which \<open>render\<close> composes.

  \<^bold>\<open>Theories and what they model.\<close>
  \<^item> \<open>Prelude\<close>: the model's types (\<open>money = rat\<close> for Python floats, \<open>ident = string\<close>),
    \<open>py_error\<close> (a raised \<open>ValueError\<close>; fallible code returns \<open>py_error + 'a\<close>), the
    invariant of a grouped table (\<open>keys_strict\<close>), and shared list and sum lemmas.
  \<^item> \<open>Frame\<close>: the pandas operations the script calls. \<open>groupby_agg\<close> folds each row
    into an ascending association list, as \<open>groupby(sort=True)\<close> does (instances
    \<open>groupby_sum\<close>, \<open>groupby_count\<close>, \<open>groupby_max\<close>); \<open>sort_values_desc\<close> is pandas'
    \<open>nargsort\<close> (reverse, stable sort, reverse); \<open>rank_avg\<close>/\<open>series_rank\<close> is
    \<open>rank(method='average')\<close>; \<open>series_max\<close>, \<open>series_min\<close>, \<open>series_mean\<close> return
    \<open>None\<close> for pandas' NaN on an empty column; \<open>drop_duplicates\<close> keeps first
    occurrences. Lemmas: the content of every group (\<open>map_of_groupby_agg\<close>), strict key
    order, equivalence with the declarative \<open>groupby_sum_spec\<close>, conservation of sums
    and counts, sortedness and permutation of the sort, bounds of ranks.
  \<^item> \<open>Tables\<close>: the Record Store, one \<^theory_text>\<open>record\<close> per CSV row type holding the
    columns the script reads, and the record \<open>store\<close> of the six tables. It also holds
    CPython's \<open>date.toordinal\<close> (\<open>toordinal\<close>, behind \<open>(d1 - d2).days\<close>), proved
    strictly monotone on valid dates, and the validity of a pandas timestamp
    (\<open>valid_ts\<close>: years 1677--2262, a real calendar day, a second of the day).
  \<^item> \<open>Category\<close>: the Category Normalizer (\<open>translate_category\<close>, the left merge
    \<open>merge_translation\<close>, \<open>normalize_products\<close>, lines 81--87 and 97--98) and its
    refinement of the lookup contract \<open>category_spec\<close> of spec section 4.1.
  \<^item> \<open>Labels\<close>: the \<open>'%B %Y'\<close> label printer \<open>strftime_month_year\<close> and parser
    \<open>parse_month_year\<close> (lines 11, 13, 96) and their round trip on valid timestamps.
  \<^item> \<open>DateFilter\<close>: the load-time truncation \<open>truncate_orders\<close> (line 96, may raise)
    and the range filter \<open>filter_orders\<close> (line 113); the filter decides by month.
  \<^item> \<open>MonthlyRevenue\<close>: \<open>monthly_revenue_df\<close> (lines 9--19): no \<open>ValueError\<close> on valid
    data, conservation of revenue, strictly chronological rows.
  \<^item> \<open>Views\<close>: \<open>product_order_count_df\<close>, \<open>total_spent_percity_df\<close>,
    \<open>revenue_bycategory_df\<close> (lines 21--44) with inner merges as nested comprehensions:
    one row per key with the group's count or sum, order, totals.
  \<^item> \<open>RFM\<close>: \<open>create_rfm_df\<close> (lines 46--79) step by step (order totals, merges, the
    reference date, Recency in days, Frequency after \<open>drop_duplicates\<close>, Monetary, the
    average ranks and their normalization, the weighted score), with line 73 as written.
    Lemmas: rank bounds, Recency bounds, the single-customer case, what Frequency
    counts, and the Monetary normalization defect; an evaluated example.
  \<^item> \<open>Dashboard\<close>: one rerun, \<open>render\<close>: \<open>load_store\<close>, \<open>date_bounds\<close> (the widget's
    default), \<open>unpack_date_range\<close> (line 106), the filter, the five views and the
    summary metrics, and the rows each chart draws (\<open>best_products\<close> \<dots>
    \<open>top_monetary\<close>). An example store \<open>ex_store\<close> is evaluated by \<open>simp\<close>.
  \<^item> \<open>Page\<close>: the page as data (lines 103--267): the sidebar (logo, date widget), the
    header, subheaders and metrics, and every figure with its series, palette, titles,
    label and tick sizes and axis settings; \<open>run_script\<close> is one rerun, the elements it
    emits and the exception that ends it. Lemmas: the well-formedness \<open>wf_dashboard\<close> of
    every computed dashboard (a type-preservation statement for \<open>render\<close>), palettes
    cover the bars, which bar each chart highlights, the charts draw the extreme rows,
    the metrics report the filtered orders, and a rerun ends normally or with the
    unpacking error.
  \<^item> \<open>Timestamps\<close>: the purchase timestamps as the CSV holds them and the parser of the
    unformatted \<open>pd.to_datetime\<close> of line 96 (\<open>parse_datetime\<close>), proved to accept
    exactly the \<open>'%Y-%m-%d %H:%M:%S'\<close> prints of valid timestamps (round trip against the
    reference printer \<open>format_datetime\<close>).
  \<^item> \<open>Load\<close>: the orders table as read (\<open>raw_order\<close>, a string or NaN timestamp), the
    column parse \<open>read_orders\<close> (\<open>ValueError\<close> on a malformed cell), NaT through the
    truncation (\<open>truncate_loaded\<close>), \<open>min\<close>/\<open>max\<close> and the filter (\<open>filter_loaded\<close>), and
    \<open>run_script_raw\<close>, one rerun from the raw tables, proved to equal \<open>run_script\<close> on
    the store of the timestamped rows.
  \<^item> \<open>Session\<close>: a user session (spec section 5, request-per-render): the first run
    with the widget's default value (\<open>default_selection\<close>, lines 100--111) and a rerun
    on every widget change, as the inductive relation \<open>session\<close>. By rule induction the
    page on screen is always the rerun of the current value (nothing persists), and on
    valid data it is the whole page or the sidebar with \<open>ValueError\<close>; from every
    reachable state a two-date selection brings the whole page back (progress).
  \<^item> This theory: properties spanning the components (the category and monthly
    charts report the same total; a duplicated translation key double-counts).

  \<^bold>\<open>Findings.\<close> The filter of line 113 works at month granularity, not by day
  (\<open>DateFilter.filter_day_granularity\<close>). Line 73 divides the Frequency rank by the
  Monetary maximum, so \<open>M_rank_norm\<close> and the score can exceed 100
  (\<open>RFM.rfm_monetary_norm_defect\<close>). Frequency counts orders with items, not distinct
  dates (\<open>RFM.rfm_frequency_not_distinct_dates\<close>). A one-date widget value raises
  \<open>ValueError\<close> at line 106 (\<open>Dashboard.render_value_error\<close>). A duplicated key in the
  translation table double-counts sales (\<open>translation_duplicate_double_counts\<close>). The
  "Worst Performing Product" chart highlights the best of the five worst products
  (\<open>Page.worst_chart_highlights_max\<close>). An order with an empty timestamp is silently
  dropped from every view instead of failing the load (\<open>Load.missing_timestamp_dropped\<close>).

  \<^bold>\<open>Termination and bounds.\<close> Every function of the model is structurally recursive
  or a fold over a finite list, so no fuel or partial function is needed: all views
  are total (\<open>Page.run_script_completes\<close> states it for a whole rerun), and the only
  failure of the script, a raised
  exception, is an \<open>Inl\<close> value. The script has no waiting, retrying
  or reactive loop of its own: Streamlit reruns it from the top on each widget change,
  so each run terminates, and the only liveness property is that of the session
  (\<open>Session.session_recovers\<close>: the full page is always one widget change away).
  Which date lists the widget returns while the user clicks is Streamlit's behaviour
  and is left open: any value may follow any state. With an orders table that has no
  timestamp at all the model offers the widget no default and the first run reports
  the unpacking error; what Streamlit does with NaT defaults is not modelled.
  \<open>RFM.days_between_counts_days\<close> checks the closed-form day count against stepping one
  day at a time (\<open>next_day\<close>). Timestamps are bounded by \<open>valid_ts\<close>, the range
  pandas' \<open>datetime64[ns]\<close> can hold; money is exact.

  \<^bold>\<open>Not modelled.\<close> Reading the CSV files themselves (quoting, dtype inference of
  the numeric columns, NaN in columns other than the purchase timestamp: the other
  tables are the model's input as records); \<open>pd.to_datetime\<close>'s format inference
  beyond the dataset's \<open>'%Y-%m-%d %H:%M:%S'\<close>; the pixels
  matplotlib, seaborn and Streamlit draw and the two- and three-column layout (the page
  is modelled as the data and settings handed to them); the numeric effect of
  \<open>round()\<close> and \<open>format_currency\<close> (the metric records the exact value and the
  rounding or currency it is shown with); float rounding (money and scores are exact
  rationals); columns the script never reads. The \<open>'%B %Y'\<close> parser accepts exactly
  the labels the printer emits; pandas also accepts other letter cases, which the script
  never feeds it. pandas' default \<open>quicksort\<close> in
  \<open>sort_values\<close> is modelled as a stable sort; the proved properties of the sorted
  views hold for any order of ties.
\<close>

subsection \<open>Properties spanning the components\<close>

text \<open>
  C8. The two revenue charts agree: when the translation table has one row per raw
  category name and every sold product appears exactly once in the product table, the
  category revenue view computed on the normalized products (which never drops a
  product, since normalization leaves no category missing) adds up to the same total as
  the monthly revenue view.
\<close>

theorem category_revenue_matches_monthly:
  assumes "valid_orders os" and "keys_unique ts" and "distinct (map prod_product_id ps)"
    and "\<forall>d\<in>set ds. product_id d \<in> prod_product_id ` set ps"
  shows "\<exists>mr. monthly_revenue_df os ds = Inr mr
           \<and> sum_list (map snd (revenue_bycategory_df os ds (normalize_products ps ts))) = sum_list (map snd mr)"
proof -
  let ?nps = "normalize_products ps ts"
  have ids: "map prod_product_id ?nps = map prod_product_id ps"
    by (rule normalize_products_ids [OF assms(2)])
  have one: "length (products_of ?nps d) = 1" if "d \<in> set ds" for d
  proof -
    have "product_id d \<in> prod_product_id ` set ?nps"
      using assms(4) that ids by (metis set_map)
    then show ?thesis
      unfolding products_of_def using assms(3) ids by (intro length_filter_key_unique) simp_all
  qed
  have "None \<notin> fst ` set (category_rows os ds ?nps)"
    using category_rows_keys [of os ds ?nps] normalize_products_named by fastforce
  then have "sum_list (map snd (revenue_bycategory_df os ds ?nps)) = joined_revenue os ds"
    by (simp add: revenue_bycategory_df_def groupby_sum_total dropna_keys_sum category_rows_prices one)
  moreover obtain mr where "monthly_revenue_df os ds = Inr mr"
    using monthly_revenue_df_valid [OF assms(1)] by blast
  ultimately show ?thesis using monthly_revenue_sum [OF assms(1)] by auto
qed

theorem category_revenue_matches_monthly_witness:
  "\<exists>mr. monthly_revenue_df (orders ex_store) (order_items ex_store) = Inr mr
      \<and> sum_list (map snd (revenue_bycategory_df (orders ex_store) (order_items ex_store)
            (normalize_products (products ex_store) (category_translations ex_store)))) = sum_list (map snd mr)"
proof -
  have k: "keys_unique (category_translations ex_store)"
    by (simp add: ex_store_def keys_unique_def)
  have d: "distinct (map prod_product_id (products ex_store))"
    by (simp add: ex_store_def)
  have a: "\<forall>d\<in>set (order_items ex_store). product_id d \<in> prod_product_id ` set (products ex_store)"
    by (simp add: ex_store_def)
  show ?thesis by (rule category_revenue_matches_monthly [OF ex_store_valid k d a])
qed

text \<open>
  C40. A translation table with two rows for one raw category name duplicates the
  product in the left merge of line 97, and every view joined with the products then
  counts its sales twice: one sale of \<open>P1\<close> shows as two in the product ranking and
  its price twice in the category revenue.
\<close>

theorem translation_duplicate_double_counts:
  "product_order_count_df
     [\<lparr>order_id = ''O1'', customer_id = ''C1'', order_purchase_timestamp = ((2023, 1, 1), 0)\<rparr>]
     [\<lparr>item_order_id = ''O1'', product_id = ''P1'', price = 10\<rparr>]
     (normalize_products [\<lparr>prod_product_id = ''P1'', product_category_name = Some ''beleza''\<rparr>]
        [\<lparr>tr_category_name = Some ''beleza'', product_category_name_english = Some ''health_beauty''\<rparr>,
         \<lparr>tr_category_name = Some ''beleza'', product_category_name_english = Some ''beauty''\<rparr>])
   = [(''P1'', 2)]
   \<and> sum_list (map snd (revenue_bycategory_df
     [\<lparr>order_id = ''O1'', customer_id = ''C1'', order_purchase_timestamp = ((2023, 1, 1), 0)\<rparr>]
     [\<lparr>item_order_id = ''O1'', product_id = ''P1'', price = 10\<rparr>]
     (normalize_products [\<lparr>prod_product_id = ''P1'', product_category_name = Some ''beleza''\<rparr>]
        [\<lparr>tr_category_name = Some ''beleza'', product_category_name_english = Some ''health_beauty''\<rparr>,
         \<lparr>tr_category_name = Some ''beleza'', product_category_name_english = Some ''beauty''\<rparr>]))) = 20"
  by (simp add: normalize_products_def merge_translation_def translate_category_def
                product_order_count_df_def product_rows_def items_of_def products_of_def
                revenue_bycategory_df_def category_rows_def dropna_keys_def groupby_count_def
                groupby_sum_def groupby_agg_def sort_values_desc_def)

end
